theory Spec2Isabelle
  imports Complex_Main "HOL-Library.Sublist"
begin

section \<open>Python strings\<close>

text \<open>
  The analyzer of \<^verbatim>\<open>program_analyzer.py\<close> works on Python \<^verbatim>\<open>str\<close> values, which are
  sequences of Unicode code points; most of its literals are Cyrillic. A string is therefore a
  list of code points, and a literal is the list of its code points. A literal made of printable
  ASCII only is written \<open>ascii ''...''\<close>.
\<close>

type_synonym str = "nat list"

definition ascii :: "string \<Rightarrow> str" where
  "ascii s = map of_char s"

text \<open>
  \<^verbatim>\<open>sub in s\<close> on strings: \<open>sub\<close> occurs in \<open>s\<close> as a contiguous run of code points.
\<close>

fun starts_with :: "str \<Rightarrow> str \<Rightarrow> bool" where
  "starts_with [] s = True"
| "starts_with (c # cs) [] = False"
| "starts_with (c # cs) (d # ds) = (c = d \<and> starts_with cs ds)"

fun str_in :: "str \<Rightarrow> str \<Rightarrow> bool" where
  "str_in sub [] = (sub = [])"
| "str_in sub (c # cs) = (starts_with sub (c # cs) \<or> str_in sub cs)"

text \<open>\<^verbatim>\<open>any(keyword in s for keyword in keywords)\<close>.\<close>

definition any_in :: "str list \<Rightarrow> str \<Rightarrow> bool" where
  "any_in keywords s = list_ex (\<lambda>keyword. str_in keyword s) keywords"

text \<open>
  \<^verbatim>\<open>str.lower()\<close> and \<^verbatim>\<open>str.title()\<close> are built-ins of Python, not code of the
  repository. Python's case mapping covers all of Unicode, depends on the context (the final
  sigma) and can change the length of a string. The model does not fix it: every function that
  calls \<^verbatim>\<open>.lower()\<close> takes the mapping as its first argument \<open>lower\<close>, and the functions of
  the detail report take \<open>title\<close>. A theorem about all inputs is stated for every such mapping,
  so it holds for the built-in one whatever the strings are.
\<close>

type_synonym case_map = "str \<Rightarrow> str"

text \<open>
  To run the model on a concrete input the argument needs a value. \<open>script_lower\<close> is the
  lower-casing of the two scripts the keyword tables are written in: Basic Latin (\<open>A\<close>..\<open>Z\<close>
  is 65..90) and Cyrillic (U+0400..U+045F, that is 1024..1119: capitals 1024..1071, small
  letters 1072..1119), one code point to one code point, every other code point unchanged.
  On a string of \<open>in_scripts\<close>, whose code points are all ASCII or Cyrillic, it returns what
  \<^verbatim>\<open>str.lower()\<close> returns. It is used only at the concrete inputs of the section on
  concrete inputs, which are all such strings.
\<close>

definition lower_cp :: "nat \<Rightarrow> nat" where
  "lower_cp c =
     (if 65 \<le> c \<and> c \<le> 90 then c + 32
      else if 1040 \<le> c \<and> c \<le> 1071 then c + 32
      else if 1024 \<le> c \<and> c \<le> 1039 then c + 80
      else c)"

definition script_lower :: case_map where
  "script_lower s = map lower_cp s"

definition in_scripts :: "str \<Rightarrow> bool" where
  "in_scripts s = list_all (\<lambda>c. c < 128 \<or> (1024 \<le> c \<and> c \<le> 1119)) s"

text \<open>
  \<open>script_title\<close> is \<^verbatim>\<open>str.title()\<close> on the same strings: a cased letter that follows an
  uncased code point (or starts the string) is put in upper case, a cased letter that follows
  a cased one in lower case.
\<close>

definition upper_cp :: "nat \<Rightarrow> nat" where
  "upper_cp c =
     (if 97 \<le> c \<and> c \<le> 122 then c - 32
      else if 1072 \<le> c \<and> c \<le> 1103 then c - 32
      else if 1104 \<le> c \<and> c \<le> 1119 then c - 80
      else c)"

definition is_cased :: "nat \<Rightarrow> bool" where
  "is_cased c = ((65 \<le> c \<and> c \<le> 90) \<or> (97 \<le> c \<and> c \<le> 122) \<or> (1024 \<le> c \<and> c \<le> 1119))"

fun title_from :: "bool \<Rightarrow> str \<Rightarrow> str" where
  "title_from previous_is_cased [] = []"
| "title_from previous_is_cased (c # cs) =
     (if previous_is_cased then lower_cp c else upper_cp c) # title_from (is_cased c) cs"

definition script_title :: case_map where
  "script_title s = title_from False s"

text \<open>Decimal digits of an integer, as \<^verbatim>\<open>f'{n}'\<close> prints them (\<open>0\<close> is 48, \<open>-\<close> is 45).\<close>

function str_of_nat :: "nat \<Rightarrow> str" where
  "str_of_nat n = (if n < 10 then [48 + n] else str_of_nat (n div 10) @ [48 + n mod 10])"
  by pat_completeness auto
termination
  by (relation "measure (\<lambda>n. n)") auto

definition str_of_int :: "int \<Rightarrow> str" where
  "str_of_int i = (if i < 0 then 45 # str_of_nat (nat (- i)) else str_of_nat (nat i))"

text \<open>
  The keys of a \<^verbatim>\<open>dict\<close> filled by \<^verbatim>\<open>if k not in d: d[k] = []\<close> while running through a
  list: each key once, in the order of its first occurrence.
\<close>

definition first_seen :: "'a list \<Rightarrow> 'a list" where
  "first_seen xs = rev (remdups (rev xs))"

section \<open>Data model\<close>

text \<open>
  The dataclasses of \<^verbatim>\<open>web_parser.py\<close> (\<open>Course\<close>, \<open>Program\<close>) and of
  \<^verbatim>\<open>program_analyzer.py\<close> (\<open>Recommendation\<close>, \<open>BackgroundProfile\<close>, \<open>CourseCluster\<close>).
  A field of type \<^verbatim>\<open>T | None\<close> is an option. The scores are Python floats; every value
  the scorer adds is a multiple of one half (1.0, 1.5, 2.0, 2.5, 3.0), and sums of such values
  are exact in binary floating point, so the scores are modelled as exact numbers.
  The fields keep the names of the source. A field name is a constant here, so a parameter
  that the source calls \<^verbatim>\<open>course\<close> is written \<open>crs\<close> in the functions below.
\<close>

record Course =
  name :: str
  credits :: int
  semester :: int
  course_type :: str
  description :: "str option"
  prerequisites :: "str list option"

record Program =
  name :: str
  url :: str
  description :: str
  duration :: int
  courses :: "Course list"
  total_credits :: int
  institute :: str
  form :: str
  language :: str
  cost :: "str option"
  dormitory :: bool
  military_center :: bool
  accreditation :: bool

record Recommendation =
  course :: Course
  score :: real
  reason :: str
  priority :: str
  compatibility_score :: real
  learning_path :: str

record BackgroundProfile =
  programming_skills :: "str list"
  math_skills :: "str list"
  business_skills :: "str list"
  research_interests :: "str list"
  work_experience :: str
  education_level :: str
  career_goals :: "str list"
  learning_preferences :: "str list"
  time_availability :: str

record CourseCluster =
  name :: str
  courses :: "Course list"
  difficulty_level :: str
  prerequisites :: "str list"
  career_relevance :: "str list"

text \<open>An entry of the skill map: the dictionary with the keys \<open>courses\<close>, \<open>weight\<close>, \<open>career_paths\<close>.\<close>

record SkillInfo =
  courses :: "str list"
  weight :: real
  career_paths :: "str list"

datatype py_error = KeyError

section \<open>String literals of the analyzer\<close>

text \<open>
  Each literal of the source is a constant, named after its transliteration; the comment beside
  a Cyrillic literal gives the transliteration, the definition its code points.
\<close>

named_theorems str_defs \<open>the string literals of the analyzer\<close>

text \<open>String literals first used in \<^verbatim>\<open>_build_course_clusters\<close>.\<close>

definition s_ai_core :: str where [str_defs]: "s_ai_core = ascii ''ai_core''"
definition s_machine_learning :: str where [str_defs]: "s_machine_learning = ascii ''machine_learning''"
definition s_deep_learning :: str where [str_defs]: "s_deep_learning = ascii ''deep_learning''"
definition s_nlp :: str where [str_defs]: "s_nlp = ascii ''nlp''"
definition s_computer_vision :: str where [str_defs]: "s_computer_vision = ascii ''computer_vision''"
definition s_business_ai :: str where [str_defs]: "s_business_ai = ascii ''business_ai''"
definition s_product_management :: str where [str_defs]: "s_product_management = ascii ''product_management''"
definition s_data_analytics :: str where [str_defs]: "s_data_analytics = ascii ''data_analytics''"
definition s_Osnovy_iskusstvennogo_intellekta :: str where [str_defs]: \<comment> \<open>Osnovy iskusstvennogo intellekta\<close>
  "s_Osnovy_iskusstvennogo_intellekta =
     [1054, 1089, 1085, 1086, 1074, 1099, 32, 1080, 1089, 1082, 1091, 1089, 1089, 1090, 1074, 1077,
     1085, 1085, 1086, 1075, 1086, 32, 1080, 1085, 1090, 1077, 1083, 1083, 1077, 1082, 1090, 1072]"
definition s_intermediate :: str where [str_defs]: "s_intermediate = ascii ''intermediate''"
definition s_programmirovanie :: str where [str_defs]: \<comment> \<open>programmirovanie\<close>
  "s_programmirovanie =
     [1087, 1088, 1086, 1075, 1088, 1072, 1084, 1084, 1080, 1088, 1086, 1074, 1072, 1085, 1080, 1077]"
definition s_matematika :: str where [str_defs]: \<comment> \<open>matematika\<close>
  "s_matematika =
     [1084, 1072, 1090, 1077, 1084, 1072, 1090, 1080, 1082, 1072]"
definition s_ML_Engineer :: str where [str_defs]: "s_ML_Engineer = ascii ''ML Engineer''"
definition s_AI_Developer :: str where [str_defs]: "s_AI_Developer = ascii ''AI Developer''"
definition s_Data_Scientist :: str where [str_defs]: "s_Data_Scientist = ascii ''Data Scientist''"
definition s_Mashinnoe_obuchenie :: str where [str_defs]: \<comment> \<open>Mashinnoe obuchenie\<close>
  "s_Mashinnoe_obuchenie =
     [1052, 1072, 1096, 1080, 1085, 1085, 1086, 1077, 32, 1086, 1073, 1091, 1095, 1077, 1085, 1080,
     1077]"
definition s_advanced :: str where [str_defs]: "s_advanced = ascii ''advanced''"
definition s_statistika :: str where [str_defs]: \<comment> \<open>statistika\<close>
  "s_statistika =
     [1089, 1090, 1072, 1090, 1080, 1089, 1090, 1080, 1082, 1072]"
definition s_lineynaya_algebra :: str where [str_defs]: \<comment> \<open>lineynaya algebra\<close>
  "s_lineynaya_algebra =
     [1083, 1080, 1085, 1077, 1081, 1085, 1072, 1103, 32, 1072, 1083, 1075, 1077, 1073, 1088, 1072]"
definition s_AI_Researcher :: str where [str_defs]: "s_AI_Researcher = ascii ''AI Researcher''"
definition s_Glubokoe_obuchenie :: str where [str_defs]: \<comment> \<open>Glubokoe obuchenie\<close>
  "s_Glubokoe_obuchenie =
     [1043, 1083, 1091, 1073, 1086, 1082, 1086, 1077, 32, 1086, 1073, 1091, 1095, 1077, 1085, 1080,
     1077]"
definition s_neyronnye_seti :: str where [str_defs]: \<comment> \<open>neyronnye seti\<close>
  "s_neyronnye_seti =
     [1085, 1077, 1081, 1088, 1086, 1085, 1085, 1099, 1077, 32, 1089, 1077, 1090, 1080]"
definition s_Computer_Vision_Engineer :: str where [str_defs]: "s_Computer_Vision_Engineer = ascii ''Computer Vision Engineer''"
definition s_Obrabotka_estestvennogo_yazyka :: str where [str_defs]: \<comment> \<open>Obrabotka estestvennogo yazyka\<close>
  "s_Obrabotka_estestvennogo_yazyka =
     [1054, 1073, 1088, 1072, 1073, 1086, 1090, 1082, 1072, 32, 1077, 1089, 1090, 1077, 1089, 1090,
     1074, 1077, 1085, 1085, 1086, 1075, 1086, 32, 1103, 1079, 1099, 1082, 1072]"
definition s_lingvistika :: str where [str_defs]: \<comment> \<open>lingvistika\<close>
  "s_lingvistika =
     [1083, 1080, 1085, 1075, 1074, 1080, 1089, 1090, 1080, 1082, 1072]"
definition s_NLP_Engineer :: str where [str_defs]: "s_NLP_Engineer = ascii ''NLP Engineer''"
definition s_Kompyuternoe_zrenie :: str where [str_defs]: \<comment> \<open>Kompyuternoe zrenie\<close>
  "s_Kompyuternoe_zrenie =
     [1050, 1086, 1084, 1087, 1100, 1102, 1090, 1077, 1088, 1085, 1086, 1077, 32, 1079, 1088, 1077,
     1085, 1080, 1077]"
definition s_AI_v_biznese :: str where [str_defs]: \<comment> \<open>AI v biznese\<close>
  "s_AI_v_biznese =
     [65, 73, 32, 1074, 32, 1073, 1080, 1079, 1085, 1077, 1089, 1077]"
definition s_biznes_analitika :: str where [str_defs]: \<comment> \<open>biznes-analitika\<close>
  "s_biznes_analitika =
     [1073, 1080, 1079, 1085, 1077, 1089, 45, 1072, 1085, 1072, 1083, 1080, 1090, 1080, 1082, 1072]"
definition s_AI_Product_Manager :: str where [str_defs]: "s_AI_Product_Manager = ascii ''AI Product Manager''"
definition s_Business_Analyst :: str where [str_defs]: "s_Business_Analyst = ascii ''Business Analyst''"
definition s_Product_Manager :: str where [str_defs]: "s_Product_Manager = ascii ''Product Manager''"
definition s_Upravlenie_produktami :: str where [str_defs]: \<comment> \<open>Upravlenie produktami\<close>
  "s_Upravlenie_produktami =
     [1059, 1087, 1088, 1072, 1074, 1083, 1077, 1085, 1080, 1077, 32, 1087, 1088, 1086, 1076, 1091,
     1082, 1090, 1072, 1084, 1080]"
definition s_menedzhment :: str where [str_defs]: \<comment> \<open>menedzhment\<close>
  "s_menedzhment =
     [1084, 1077, 1085, 1077, 1076, 1078, 1084, 1077, 1085, 1090]"
definition s_Analiz_dannykh :: str where [str_defs]: \<comment> \<open>Analiz dannykh\<close>
  "s_Analiz_dannykh =
     [1040, 1085, 1072, 1083, 1080, 1079, 32, 1076, 1072, 1085, 1085, 1099, 1093]"
definition s_Data_Analyst :: str where [str_defs]: "s_Data_Analyst = ascii ''Data Analyst''"

text \<open>String literals first used in \<^verbatim>\<open>_assign_course_to_cluster\<close>.\<close>

definition s_vvedenie :: str where [str_defs]: \<comment> \<open>vvedenie\<close>
  "s_vvedenie =
     [1074, 1074, 1077, 1076, 1077, 1085, 1080, 1077]"
definition s_osnovy :: str where [str_defs]: \<comment> \<open>osnovy\<close>
  "s_osnovy =
     [1086, 1089, 1085, 1086, 1074, 1099]"
definition s_bazovye :: str where [str_defs]: \<comment> \<open>bazovye\<close>
  "s_bazovye =
     [1073, 1072, 1079, 1086, 1074, 1099, 1077]"
definition s_iskusstvennyy_intellekt :: str where [str_defs]: \<comment> \<open>iskusstvennyy intellekt\<close>
  "s_iskusstvennyy_intellekt =
     [1080, 1089, 1082, 1091, 1089, 1089, 1090, 1074, 1077, 1085, 1085, 1099, 1081, 32, 1080, 1085,
     1090, 1077, 1083, 1083, 1077, 1082, 1090]"
definition s_ai :: str where [str_defs]: "s_ai = ascii ''ai''"
definition s_produkt :: str where [str_defs]: \<comment> \<open>produkt\<close>
  "s_produkt =
     [1087, 1088, 1086, 1076, 1091, 1082, 1090]"
definition s_analiz :: str where [str_defs]: \<comment> \<open>analiz\<close>
  "s_analiz =
     [1072, 1085, 1072, 1083, 1080, 1079]"
definition s_dannye :: str where [str_defs]: \<comment> \<open>dannye\<close>
  "s_dannye =
     [1076, 1072, 1085, 1085, 1099, 1077]"
definition s_mashinnoe_obuchenie :: str where [str_defs]: \<comment> \<open>mashinnoe obuchenie\<close>
  "s_mashinnoe_obuchenie =
     [1084, 1072, 1096, 1080, 1085, 1085, 1086, 1077, 32, 1086, 1073, 1091, 1095, 1077, 1085, 1080,
     1077]"
definition s_ml :: str where [str_defs]: "s_ml = ascii ''ml''"
definition s_machine_learning_en :: str where [str_defs]: "s_machine_learning_en = ascii ''machine learning''"
definition s_glubokoe_obuchenie :: str where [str_defs]: \<comment> \<open>glubokoe obuchenie\<close>
  "s_glubokoe_obuchenie =
     [1075, 1083, 1091, 1073, 1086, 1082, 1086, 1077, 32, 1086, 1073, 1091, 1095, 1077, 1085, 1080,
     1077]"
definition s_deep_learning_en :: str where [str_defs]: "s_deep_learning_en = ascii ''deep learning''"
definition s_estestvennyy_yazyk :: str where [str_defs]: \<comment> \<open>estestvennyy yazyk\<close>
  "s_estestvennyy_yazyk =
     [1077, 1089, 1090, 1077, 1089, 1090, 1074, 1077, 1085, 1085, 1099, 1081, 32, 1103, 1079, 1099,
     1082]"
definition s_tekst :: str where [str_defs]: \<comment> \<open>tekst\<close>
  "s_tekst =
     [1090, 1077, 1082, 1089, 1090]"
definition s_zrenie :: str where [str_defs]: \<comment> \<open>zrenie\<close>
  "s_zrenie =
     [1079, 1088, 1077, 1085, 1080, 1077]"
definition s_vision :: str where [str_defs]: "s_vision = ascii ''vision''"
definition s_izobrazheniya :: str where [str_defs]: \<comment> \<open>izobrazheniya\<close>
  "s_izobrazheniya =
     [1080, 1079, 1086, 1073, 1088, 1072, 1078, 1077, 1085, 1080, 1103]"
definition s_biznes :: str where [str_defs]: \<comment> \<open>biznes\<close>
  "s_biznes =
     [1073, 1080, 1079, 1085, 1077, 1089]"
definition s_predprinimatelstvo :: str where [str_defs]: \<comment> \<open>predprinimatelstvo\<close>
  "s_predprinimatelstvo =
     [1087, 1088, 1077, 1076, 1087, 1088, 1080, 1085, 1080, 1084, 1072, 1090, 1077, 1083, 1100, 1089,
     1090, 1074, 1086]"
definition s_strategiya :: str where [str_defs]: \<comment> \<open>strategiya\<close>
  "s_strategiya =
     [1089, 1090, 1088, 1072, 1090, 1077, 1075, 1080, 1103]"

text \<open>String literals first used in \<^verbatim>\<open>_build_skill_mapping\<close>.\<close>

definition s_python :: str where [str_defs]: "s_python = ascii ''python''"
definition s_java :: str where [str_defs]: "s_java = ascii ''java''"
definition s_javascript :: str where [str_defs]: "s_javascript = ascii ''javascript''"
definition s_mathematics :: str where [str_defs]: "s_mathematics = ascii ''mathematics''"
definition s_statistics :: str where [str_defs]: "s_statistics = ascii ''statistics''"
definition s_linear_algebra :: str where [str_defs]: "s_linear_algebra = ascii ''linear_algebra''"
definition s_business :: str where [str_defs]: "s_business = ascii ''business''"
definition s_research :: str where [str_defs]: "s_research = ascii ''research''"
definition s_general :: str where [str_defs]: "s_general = ascii ''general''"
definition s_c_plus_plus :: str where [str_defs]: "s_c_plus_plus = ascii ''c++''"
definition s_web :: str where [str_defs]: "s_web = ascii ''web''"
definition s_mobile :: str where [str_defs]: "s_mobile = ascii ''mobile''"
definition s_blockchain :: str where [str_defs]: "s_blockchain = ascii ''blockchain''"
definition s_data :: str where [str_defs]: "s_data = ascii ''data''"
definition s_devops :: str where [str_defs]: "s_devops = ascii ''devops''"
definition s_kod :: str where [str_defs]: \<comment> \<open>kod\<close>
  "s_kod =
     [1082, 1086, 1076]"
definition s_razrabotka :: str where [str_defs]: \<comment> \<open>razrabotka\<close>
  "s_razrabotka =
     [1088, 1072, 1079, 1088, 1072, 1073, 1086, 1090, 1082, 1072]"
definition s_dzhava :: str where [str_defs]: \<comment> \<open>dzhava\<close>
  "s_dzhava =
     [1076, 1078, 1072, 1074, 1072]"
definition s_Software_Engineer :: str where [str_defs]: "s_Software_Engineer = ascii ''Software Engineer''"
definition s_Backend_Developer :: str where [str_defs]: "s_Backend_Developer = ascii ''Backend Developer''"
definition s_js :: str where [str_defs]: "s_js = ascii ''js''"
definition s_veb :: str where [str_defs]: \<comment> \<open>veb\<close>
  "s_veb =
     [1074, 1077, 1073]"
definition s_frontend :: str where [str_defs]: "s_frontend = ascii ''frontend''"
definition s_Frontend_Developer :: str where [str_defs]: "s_Frontend_Developer = ascii ''Frontend Developer''"
definition s_Full_Stack_Developer :: str where [str_defs]: "s_Full_Stack_Developer = ascii ''Full-Stack Developer''"
definition s_algebra :: str where [str_defs]: \<comment> \<open>algebra\<close>
  "s_algebra =
     [1072, 1083, 1075, 1077, 1073, 1088, 1072]"
definition s_geometriya :: str where [str_defs]: \<comment> \<open>geometriya\<close>
  "s_geometriya =
     [1075, 1077, 1086, 1084, 1077, 1090, 1088, 1080, 1103]"
definition s_veroyatnost :: str where [str_defs]: \<comment> \<open>veroyatnost\<close>
  "s_veroyatnost =
     [1074, 1077, 1088, 1086, 1103, 1090, 1085, 1086, 1089, 1090, 1100]"
definition s_analiz_dannykh :: str where [str_defs]: \<comment> \<open>analiz dannykh\<close>
  "s_analiz_dannykh =
     [1072, 1085, 1072, 1083, 1080, 1079, 32, 1076, 1072, 1085, 1085, 1099, 1093]"
definition s_matritsy :: str where [str_defs]: \<comment> \<open>matritsy\<close>
  "s_matritsy =
     [1084, 1072, 1090, 1088, 1080, 1094, 1099]"
definition s_vektory :: str where [str_defs]: \<comment> \<open>vektory\<close>
  "s_vektory =
     [1074, 1077, 1082, 1090, 1086, 1088, 1099]"
definition s_upravlenie :: str where [str_defs]: \<comment> \<open>upravlenie\<close>
  "s_upravlenie =
     [1091, 1087, 1088, 1072, 1074, 1083, 1077, 1085, 1080, 1077]"
definition s_product :: str where [str_defs]: "s_product = ascii ''product''"
definition s_upravlenie_produktami :: str where [str_defs]: \<comment> \<open>upravlenie produktami\<close>
  "s_upravlenie_produktami =
     [1091, 1087, 1088, 1072, 1074, 1083, 1077, 1085, 1080, 1077, 32, 1087, 1088, 1086, 1076, 1091,
     1082, 1090, 1072, 1084, 1080]"
definition s_issledovanie :: str where [str_defs]: \<comment> \<open>issledovanie\<close>
  "s_issledovanie =
     [1080, 1089, 1089, 1083, 1077, 1076, 1086, 1074, 1072, 1085, 1080, 1077]"
definition s_nauka :: str where [str_defs]: \<comment> \<open>nauka\<close>
  "s_nauka =
     [1085, 1072, 1091, 1082, 1072]"
definition s_publikatsiya :: str where [str_defs]: \<comment> \<open>publikatsiya\<close>
  "s_publikatsiya =
     [1087, 1091, 1073, 1083, 1080, 1082, 1072, 1094, 1080, 1103]"
definition s_tekhnicheskoe :: str where [str_defs]: \<comment> \<open>tekhnicheskoe\<close>
  "s_tekhnicheskoe =
     [1090, 1077, 1093, 1085, 1080, 1095, 1077, 1089, 1082, 1086, 1077]"
definition s_tekhnicheskiy :: str where [str_defs]: \<comment> \<open>tekhnicheskiy\<close>
  "s_tekhnicheskiy =
     [1090, 1077, 1093, 1085, 1080, 1095, 1077, 1089, 1082, 1080, 1081]"
definition s_inzhener :: str where [str_defs]: \<comment> \<open>inzhener\<close>
  "s_inzhener =
     [1080, 1085, 1078, 1077, 1085, 1077, 1088]"
definition s_inzhenernyy :: str where [str_defs]: \<comment> \<open>inzhenernyy\<close>
  "s_inzhenernyy =
     [1080, 1085, 1078, 1077, 1085, 1077, 1088, 1085, 1099, 1081]"
definition s_razrabotchik :: str where [str_defs]: \<comment> \<open>razrabotchik\<close>
  "s_razrabotchik =
     [1088, 1072, 1079, 1088, 1072, 1073, 1086, 1090, 1095, 1080, 1082]"
definition s_cpp :: str where [str_defs]: "s_cpp = ascii ''cpp''"
definition s_si_plyus_plyus :: str where [str_defs]: \<comment> \<open>si plyus plyus\<close>
  "s_si_plyus_plyus =
     [1089, 1080, 32, 1087, 1083, 1102, 1089, 32, 1087, 1083, 1102, 1089]"
definition s_html :: str where [str_defs]: "s_html = ascii ''html''"
definition s_css :: str where [str_defs]: "s_css = ascii ''css''"
definition s_backend :: str where [str_defs]: "s_backend = ascii ''backend''"
definition s_fullstack :: str where [str_defs]: "s_fullstack = ascii ''fullstack''"
definition s_Web_Developer :: str where [str_defs]: "s_Web_Developer = ascii ''Web Developer''"
definition s_mobilnaya_razrabotka :: str where [str_defs]: \<comment> \<open>mobilnaya razrabotka\<close>
  "s_mobilnaya_razrabotka =
     [1084, 1086, 1073, 1080, 1083, 1100, 1085, 1072, 1103, 32, 1088, 1072, 1079, 1088, 1072, 1073,
     1086, 1090, 1082, 1072]"
definition s_android :: str where [str_defs]: "s_android = ascii ''android''"
definition s_ios :: str where [str_defs]: "s_ios = ascii ''ios''"
definition s_react_native :: str where [str_defs]: "s_react_native = ascii ''react native''"
definition s_flutter :: str where [str_defs]: "s_flutter = ascii ''flutter''"
definition s_Mobile_Developer :: str where [str_defs]: "s_Mobile_Developer = ascii ''Mobile Developer''"
definition s_App_Developer :: str where [str_defs]: "s_App_Developer = ascii ''App Developer''"
definition s_blokcheyn :: str where [str_defs]: \<comment> \<open>blokcheyn\<close>
  "s_blokcheyn =
     [1073, 1083, 1086, 1082, 1095, 1077, 1081, 1085]"
definition s_kriptovalyuta :: str where [str_defs]: \<comment> \<open>kriptovalyuta\<close>
  "s_kriptovalyuta =
     [1082, 1088, 1080, 1087, 1090, 1086, 1074, 1072, 1083, 1102, 1090, 1072]"
definition s_smart_kontrakt :: str where [str_defs]: \<comment> \<open>smart-kontrakt\<close>
  "s_smart_kontrakt =
     [1089, 1084, 1072, 1088, 1090, 45, 1082, 1086, 1085, 1090, 1088, 1072, 1082, 1090]"
definition s_defi :: str where [str_defs]: "s_defi = ascii ''defi''"
definition s_Blockchain_Developer :: str where [str_defs]: "s_Blockchain_Developer = ascii ''Blockchain Developer''"
definition s_Smart_Contract_Developer :: str where [str_defs]: "s_Smart_Contract_Developer = ascii ''Smart Contract Developer''"
definition s_data_science :: str where [str_defs]: "s_data_science = ascii ''data science''"
definition s_big_data :: str where [str_defs]: "s_big_data = ascii ''big data''"
definition s_baza_dannykh :: str where [str_defs]: \<comment> \<open>baza dannykh\<close>
  "s_baza_dannykh =
     [1073, 1072, 1079, 1072, 32, 1076, 1072, 1085, 1085, 1099, 1093]"
definition s_Data_Engineer :: str where [str_defs]: "s_Data_Engineer = ascii ''Data Engineer''"
definition s_infrastruktura :: str where [str_defs]: \<comment> \<open>infrastruktura\<close>
  "s_infrastruktura =
     [1080, 1085, 1092, 1088, 1072, 1089, 1090, 1088, 1091, 1082, 1090, 1091, 1088, 1072]"
definition s_docker :: str where [str_defs]: "s_docker = ascii ''docker''"
definition s_kubernetes :: str where [str_defs]: "s_kubernetes = ascii ''kubernetes''"
definition s_ci_cd :: str where [str_defs]: "s_ci_cd = ascii ''ci/cd''"
definition s_DevOps_Engineer :: str where [str_defs]: "s_DevOps_Engineer = ascii ''DevOps Engineer''"
definition s_Infrastructure_Engineer :: str where [str_defs]: "s_Infrastructure_Engineer = ascii ''Infrastructure Engineer''"

text \<open>String literals first used in \<^verbatim>\<open>get_detailed_program_info\<close>.\<close>

definition msg_not_found :: str where [str_defs]: \<comment> \<open><U+274C> Programma ne naydena\<close>
  "msg_not_found =
     [10060, 32, 1055, 1088, 1086, 1075, 1088, 1072, 1084, 1084, 1072, 32, 1085, 1077, 32, 1085, 1072,
     1081, 1076, 1077, 1085, 1072]"
definition msg_target :: str where [str_defs]: \<comment> \<open><U+1F3AF> \<close>
  "msg_target =
     [127919, 32]"
definition s_nl :: str where [str_defs]: \<comment> \<open>\n\<close>
  "s_nl =
     [10]"
definition msg_institute :: str where [str_defs]: \<comment> \<open><U+1F3DB><U+FE0F>  Institut: \<close>
  "msg_institute =
     [127963, 65039, 32, 32, 1048, 1085, 1089, 1090, 1080, 1090, 1091, 1090, 58, 32]"
definition msg_description :: str where [str_defs]: \<comment> \<open><U+1F4D6> Opisanie: \<close>
  "msg_description =
     [128214, 32, 1054, 1087, 1080, 1089, 1072, 1085, 1080, 1077, 58, 32]"
definition msg_ellipsis :: str where [str_defs]: \<comment> \<open>...\n\n\<close>
  "msg_ellipsis =
     [46, 46, 46, 10, 10]"
definition msg_calendar :: str where [str_defs]: \<comment> \<open><U+1F4C5> \<close>
  "msg_calendar =
     [128197, 32]"
definition msg_semester_open :: str where [str_defs]: \<comment> \<open> semestr (\<close>
  "msg_semester_open =
     [32, 1089, 1077, 1084, 1077, 1089, 1090, 1088, 32, 40]"
definition msg_courses_close :: str where [str_defs]: \<comment> \<open> distsiplin):\n\<close>
  "msg_courses_close =
     [32, 1076, 1080, 1089, 1094, 1080, 1087, 1083, 1080, 1085, 41, 58, 10]"
definition msg_type_indent :: str where [str_defs]: \<comment> \<open>   <U+1F4D6> \<close>
  "msg_type_indent =
     [32, 32, 32, 128214, 32]"
definition msg_colon_nl :: str where [str_defs]: \<comment> \<open>:\n\<close>
  "msg_colon_nl =
     [58, 10]"
definition msg_bullet :: str where [str_defs]: \<comment> \<open>      <U+2022> \<close>
  "msg_bullet =
     [32, 32, 32, 32, 32, 32, 8226, 32]"
definition msg_paren_open :: str where [str_defs]: "msg_paren_open = ascii '' (''"
definition msg_credits_close :: str where [str_defs]: \<comment> \<open> kreditov)\n\<close>
  "msg_credits_close =
     [32, 1082, 1088, 1077, 1076, 1080, 1090, 1086, 1074, 41, 10]"

text \<open>String literals first used in \<^verbatim>\<open>get_course_recommendations\<close>.\<close>

definition s_python_dev :: str where [str_defs]: "s_python_dev = ascii ''python_dev''"
definition s_java_dev :: str where [str_defs]: "s_java_dev = ascii ''java_dev''"
definition s_tech_dev :: str where [str_defs]: "s_tech_dev = ascii ''tech_dev''"
definition s_math_background :: str where [str_defs]: "s_math_background = ascii ''math_background''"
definition s_business_background :: str where [str_defs]: "s_business_background = ascii ''business_background''"
definition s_beginner :: str where [str_defs]: "s_beginner = ascii ''beginner''"
definition msg_header :: str where [str_defs]: \<comment> \<open><U+1F4A1> Rekomendatsii po distsiplinam:\n\n\<close>
  "msg_header =
     [128161, 32, 1056, 1077, 1082, 1086, 1084, 1077, 1085, 1076, 1072, 1094, 1080, 1080, 32, 1087,
     1086, 32, 1076, 1080, 1089, 1094, 1080, 1087, 1083, 1080, 1085, 1072, 1084, 58, 10, 10]"
definition verdict_ai_python :: str where [str_defs]: \<comment> \<open>: <U+1F525> LUChShIY VYBOR! Python + ML = idealnaya kombinatsiya\n\<close>
  "verdict_ai_python =
     [58, 32, 128293, 32, 1051, 1059, 1063, 1064, 1048, 1049, 32, 1042, 1067, 1041, 1054, 1056, 33,
     32, 80, 121, 116, 104, 111, 110, 32, 43, 32, 77, 76, 32, 61, 32, 1080, 1076, 1077, 1072, 1083,
     1100, 1085, 1072, 1103, 32, 1082, 1086, 1084, 1073, 1080, 1085, 1072, 1094, 1080, 1103, 10]"
definition verdict_ai_java :: str where [str_defs]: \<comment> \<open>: <U+2B50> Khorosho podkhodit! Enterprise AI s Java\n\<close>
  "verdict_ai_java =
     [58, 32, 11088, 32, 1061, 1086, 1088, 1086, 1096, 1086, 32, 1087, 1086, 1076, 1093, 1086, 1076,
     1080, 1090, 33, 32, 69, 110, 116, 101, 114, 112, 114, 105, 115, 101, 32, 65, 73, 32, 1089, 32,
     74, 97, 118, 97, 10]"
definition verdict_ai_tech :: str where [str_defs]: \<comment> \<open>: <U+2B50> Khorosho podkhodit! Vashi navyki programmirovaniya\n\<close>
  "verdict_ai_tech =
     [58, 32, 11088, 32, 1061, 1086, 1088, 1086, 1096, 1086, 32, 1087, 1086, 1076, 1093, 1086, 1076,
     1080, 1090, 33, 32, 1042, 1072, 1096, 1080, 32, 1085, 1072, 1074, 1099, 1082, 1080, 32, 1087,
     1088, 1086, 1075, 1088, 1072, 1084, 1084, 1080, 1088, 1086, 1074, 1072, 1085, 1080, 1103, 10]"
definition verdict_ai_math :: str where [str_defs]: \<comment> \<open>: <U+1F525> LUChShIY VYBOR! Matematika = osnova ML\n\<close>
  "verdict_ai_math =
     [58, 32, 128293, 32, 1051, 1059, 1063, 1064, 1048, 1049, 32, 1042, 1067, 1041, 1054, 1056, 33,
     32, 1052, 1072, 1090, 1077, 1084, 1072, 1090, 1080, 1082, 1072, 32, 61, 32, 1086, 1089, 1085,
     1086, 1074, 1072, 32, 77, 76, 10]"
definition verdict_consider :: str where [str_defs]: \<comment> \<open>: <U+1F4A1> Mozhno rassmotret, no ne idealno\n\<close>
  "verdict_consider =
     [58, 32, 128161, 32, 1052, 1086, 1078, 1085, 1086, 32, 1088, 1072, 1089, 1089, 1084, 1086, 1090,
     1088, 1077, 1090, 1100, 44, 32, 1085, 1086, 32, 1085, 1077, 32, 1080, 1076, 1077, 1072, 1083,
     1100, 1085, 1086, 10]"
definition verdict_start :: str where [str_defs]: \<comment> \<open>: <U+1F4A1> Khoroshiy vybor dlya nachala\n\<close>
  "verdict_start =
     [58, 32, 128161, 32, 1061, 1086, 1088, 1086, 1096, 1080, 1081, 32, 1074, 1099, 1073, 1086, 1088,
     32, 1076, 1083, 1103, 32, 1085, 1072, 1095, 1072, 1083, 1072, 10]"
definition verdict_product_business :: str where [str_defs]: \<comment> \<open>: <U+1F525> LUChShIY VYBOR! Biznes + AI = idealno\n\<close>
  "verdict_product_business =
     [58, 32, 128293, 32, 1051, 1059, 1063, 1064, 1048, 1049, 32, 1042, 1067, 1041, 1054, 1056, 33,
     32, 1041, 1080, 1079, 1085, 1077, 1089, 32, 43, 32, 65, 73, 32, 61, 32, 1080, 1076, 1077, 1072,
     1083, 1100, 1085, 1086, 10]"
definition verdict_product_tech :: str where [str_defs]: \<comment> \<open>: <U+2B50> Khorosho podkhodit! Tekhnika + biznes\n\<close>
  "verdict_product_tech =
     [58, 32, 11088, 32, 1061, 1086, 1088, 1086, 1096, 1086, 32, 1087, 1086, 1076, 1093, 1086, 1076,
     1080, 1090, 33, 32, 1058, 1077, 1093, 1085, 1080, 1082, 1072, 32, 43, 32, 1073, 1080, 1079, 1085,
     1077, 1089, 10]"
definition verdict_product_prog :: str where [str_defs]: \<comment> \<open>: <U+2B50> Khorosho podkhodit! Programmirovanie + produkt\n\<close>
  "verdict_product_prog =
     [58, 32, 11088, 32, 1061, 1086, 1088, 1086, 1096, 1086, 32, 1087, 1086, 1076, 1093, 1086, 1076,
     1080, 1090, 33, 32, 1055, 1088, 1086, 1075, 1088, 1072, 1084, 1084, 1080, 1088, 1086, 1074, 1072,
     1085, 1080, 1077, 32, 43, 32, 1087, 1088, 1086, 1076, 1091, 1082, 1090, 10]"

text \<open>String literals first used in \<^verbatim>\<open>_analyze_background\<close>.\<close>

definition s_piton :: str where [str_defs]: \<comment> \<open>piton\<close>
  "s_piton =
     [1087, 1080, 1090, 1086, 1085]"
definition s_programmiruyu_na_python :: str where [str_defs]: \<comment> \<open>programmiruyu na python\<close>
  "s_programmiruyu_na_python =
     [1087, 1088, 1086, 1075, 1088, 1072, 1084, 1084, 1080, 1088, 1091, 1102, 32, 1085, 1072, 32, 112,
     121, 116, 104, 111, 110]"
definition s_znayu_python :: str where [str_defs]: \<comment> \<open>znayu python\<close>
  "s_znayu_python =
     [1079, 1085, 1072, 1102, 32, 112, 121, 116, 104, 111, 110]"
definition s_rabotayu_s_python :: str where [str_defs]: \<comment> \<open>rabotayu s python\<close>
  "s_rabotayu_s_python =
     [1088, 1072, 1073, 1086, 1090, 1072, 1102, 32, 1089, 32, 112, 121, 116, 104, 111, 110]"
definition s_programmiruyu_na_java :: str where [str_defs]: \<comment> \<open>programmiruyu na java\<close>
  "s_programmiruyu_na_java =
     [1087, 1088, 1086, 1075, 1088, 1072, 1084, 1084, 1080, 1088, 1091, 1102, 32, 1085, 1072, 32, 106,
     97, 118, 97]"
definition s_znayu_java :: str where [str_defs]: \<comment> \<open>znayu java\<close>
  "s_znayu_java =
     [1079, 1085, 1072, 1102, 32, 106, 97, 118, 97]"
definition s_rabotayu_s_java :: str where [str_defs]: \<comment> \<open>rabotayu s java\<close>
  "s_rabotayu_s_java =
     [1088, 1072, 1073, 1086, 1090, 1072, 1102, 32, 1089, 32, 106, 97, 118, 97]"
definition s_programmiruyu_na_c_plus_plus :: str where [str_defs]: \<comment> \<open>programmiruyu na c++\<close>
  "s_programmiruyu_na_c_plus_plus =
     [1087, 1088, 1086, 1075, 1088, 1072, 1084, 1084, 1080, 1088, 1091, 1102, 32, 1085, 1072, 32, 99,
     43, 43]"
definition s_znayu_c_plus_plus :: str where [str_defs]: \<comment> \<open>znayu c++\<close>
  "s_znayu_c_plus_plus =
     [1079, 1085, 1072, 1102, 32, 99, 43, 43]"
definition s_dzhavaskript :: str where [str_defs]: \<comment> \<open>dzhavaskript\<close>
  "s_dzhavaskript =
     [1076, 1078, 1072, 1074, 1072, 1089, 1082, 1088, 1080, 1087, 1090]"
definition s_programmiruyu_na_js :: str where [str_defs]: \<comment> \<open>programmiruyu na js\<close>
  "s_programmiruyu_na_js =
     [1087, 1088, 1086, 1075, 1088, 1072, 1084, 1084, 1080, 1088, 1091, 1102, 32, 1085, 1072, 32, 106,
     115]"
definition s_znayu_js :: str where [str_defs]: \<comment> \<open>znayu js\<close>
  "s_znayu_js =
     [1079, 1085, 1072, 1102, 32, 106, 115]"
definition s_veb_razrabotka :: str where [str_defs]: \<comment> \<open>veb-razrabotka\<close>
  "s_veb_razrabotka =
     [1074, 1077, 1073, 45, 1088, 1072, 1079, 1088, 1072, 1073, 1086, 1090, 1082, 1072]"
definition s_delayu_sayty :: str where [str_defs]: \<comment> \<open>delayu sayty\<close>
  "s_delayu_sayty =
     [1076, 1077, 1083, 1072, 1102, 32, 1089, 1072, 1081, 1090, 1099]"
definition s_mobilnye_prilozheniya :: str where [str_defs]: \<comment> \<open>mobilnye prilozheniya\<close>
  "s_mobilnye_prilozheniya =
     [1084, 1086, 1073, 1080, 1083, 1100, 1085, 1099, 1077, 32, 1087, 1088, 1080, 1083, 1086, 1078,
     1077, 1085, 1080, 1103]"
definition s_razrabatyvayu_prilozheniya :: str where [str_defs]: \<comment> \<open>razrabatyvayu prilozheniya\<close>
  "s_razrabatyvayu_prilozheniya =
     [1088, 1072, 1079, 1088, 1072, 1073, 1072, 1090, 1099, 1074, 1072, 1102, 32, 1087, 1088, 1080,
     1083, 1086, 1078, 1077, 1085, 1080, 1103]"
definition s_rabotayu_s_dannymi :: str where [str_defs]: \<comment> \<open>rabotayu s dannymi\<close>
  "s_rabotayu_s_dannymi =
     [1088, 1072, 1073, 1086, 1090, 1072, 1102, 32, 1089, 32, 1076, 1072, 1085, 1085, 1099, 1084,
     1080]"
definition s_razvertyvanie :: str where [str_defs]: \<comment> \<open>razvertyvanie\<close>
  "s_razvertyvanie =
     [1088, 1072, 1079, 1074, 1077, 1088, 1090, 1099, 1074, 1072, 1085, 1080, 1077]"
definition s_programmist :: str where [str_defs]: \<comment> \<open>programmist\<close>
  "s_programmist =
     [1087, 1088, 1086, 1075, 1088, 1072, 1084, 1084, 1080, 1089, 1090]"
definition s_ne_znayu :: str where [str_defs]: \<comment> \<open>ne znayu\<close>
  "s_ne_znayu =
     [1085, 1077, 32, 1079, 1085, 1072, 1102]"
definition s_ne_umeyu :: str where [str_defs]: \<comment> \<open>ne umeyu\<close>
  "s_ne_umeyu =
     [1085, 1077, 32, 1091, 1084, 1077, 1102]"
definition s_ne_ponimayu :: str where [str_defs]: \<comment> \<open>ne ponimayu\<close>
  "s_ne_ponimayu =
     [1085, 1077, 32, 1087, 1086, 1085, 1080, 1084, 1072, 1102]"
definition s_ne_vladeyu :: str where [str_defs]: \<comment> \<open>ne vladeyu\<close>
  "s_ne_vladeyu =
     [1085, 1077, 32, 1074, 1083, 1072, 1076, 1077, 1102]"
definition s_ne_programmiruyu :: str where [str_defs]: \<comment> \<open>ne programmiruyu\<close>
  "s_ne_programmiruyu =
     [1085, 1077, 32, 1087, 1088, 1086, 1075, 1088, 1072, 1084, 1084, 1080, 1088, 1091, 1102]"
definition s_matematicheskiy_analiz :: str where [str_defs]: \<comment> \<open>matematicheskiy analiz\<close>
  "s_matematicheskiy_analiz =
     [1084, 1072, 1090, 1077, 1084, 1072, 1090, 1080, 1095, 1077, 1089, 1082, 1080, 1081, 32, 1072,
     1085, 1072, 1083, 1080, 1079]"
definition s_diskretnaya_matematika :: str where [str_defs]: \<comment> \<open>diskretnaya matematika\<close>
  "s_diskretnaya_matematika =
     [1076, 1080, 1089, 1082, 1088, 1077, 1090, 1085, 1072, 1103, 32, 1084, 1072, 1090, 1077, 1084,
     1072, 1090, 1080, 1082, 1072]"
definition s_algoritmy :: str where [str_defs]: \<comment> \<open>algoritmy\<close>
  "s_algoritmy =
     [1072, 1083, 1075, 1086, 1088, 1080, 1090, 1084, 1099]"
definition s_logika :: str where [str_defs]: \<comment> \<open>logika\<close>
  "s_logika =
     [1083, 1086, 1075, 1080, 1082, 1072]"
definition s_matematicheskiy :: str where [str_defs]: \<comment> \<open>matematicheskiy\<close>
  "s_matematicheskiy =
     [1084, 1072, 1090, 1077, 1084, 1072, 1090, 1080, 1095, 1077, 1089, 1082, 1080, 1081]"
definition s_matematik :: str where [str_defs]: \<comment> \<open>matematik\<close>
  "s_matematik =
     [1084, 1072, 1090, 1077, 1084, 1072, 1090, 1080, 1082]"
definition s_khorosho_znayu_matematiku :: str where [str_defs]: \<comment> \<open>khorosho znayu matematiku\<close>
  "s_khorosho_znayu_matematiku =
     [1093, 1086, 1088, 1086, 1096, 1086, 32, 1079, 1085, 1072, 1102, 32, 1084, 1072, 1090, 1077,
     1084, 1072, 1090, 1080, 1082, 1091]"
definition s_silen_v_matematike :: str where [str_defs]: \<comment> \<open>silen v matematike\<close>
  "s_silen_v_matematike =
     [1089, 1080, 1083, 1077, 1085, 32, 1074, 32, 1084, 1072, 1090, 1077, 1084, 1072, 1090, 1080,
     1082, 1077]"
definition s_lyublyu_matematiku :: str where [str_defs]: \<comment> \<open>lyublyu matematiku\<close>
  "s_lyublyu_matematiku =
     [1083, 1102, 1073, 1083, 1102, 32, 1084, 1072, 1090, 1077, 1084, 1072, 1090, 1080, 1082, 1091]"
definition s_statisticheskiy :: str where [str_defs]: \<comment> \<open>statisticheskiy\<close>
  "s_statisticheskiy =
     [1089, 1090, 1072, 1090, 1080, 1089, 1090, 1080, 1095, 1077, 1089, 1082, 1080, 1081]"
definition s_matematicheskaya_statistika :: str where [str_defs]: \<comment> \<open>matematicheskaya statistika\<close>
  "s_matematicheskaya_statistika =
     [1084, 1072, 1090, 1077, 1084, 1072, 1090, 1080, 1095, 1077, 1089, 1082, 1072, 1103, 32, 1089,
     1090, 1072, 1090, 1080, 1089, 1090, 1080, 1082, 1072]"
definition s_rabotayu_so_statistikoy :: str where [str_defs]: \<comment> \<open>rabotayu so statistikoy\<close>
  "s_rabotayu_so_statistikoy =
     [1088, 1072, 1073, 1086, 1090, 1072, 1102, 32, 1089, 1086, 32, 1089, 1090, 1072, 1090, 1080,
     1089, 1090, 1080, 1082, 1086, 1081]"
definition s_analiziruyu_dannye :: str where [str_defs]: \<comment> \<open>analiziruyu dannye\<close>
  "s_analiziruyu_dannye =
     [1072, 1085, 1072, 1083, 1080, 1079, 1080, 1088, 1091, 1102, 32, 1076, 1072, 1085, 1085, 1099,
     1077]"
definition s_lineynye_preobrazovaniya :: str where [str_defs]: \<comment> \<open>lineynye preobrazovaniya\<close>
  "s_lineynye_preobrazovaniya =
     [1083, 1080, 1085, 1077, 1081, 1085, 1099, 1077, 32, 1087, 1088, 1077, 1086, 1073, 1088, 1072,
     1079, 1086, 1074, 1072, 1085, 1080, 1103]"
definition s_differentsialnye_uravneniya :: str where [str_defs]: \<comment> \<open>differentsialnye uravneniya\<close>
  "s_differentsialnye_uravneniya =
     [1076, 1080, 1092, 1092, 1077, 1088, 1077, 1085, 1094, 1080, 1072, 1083, 1100, 1085, 1099, 1077,
     32, 1091, 1088, 1072, 1074, 1085, 1077, 1085, 1080, 1103]"
definition s_integraly :: str where [str_defs]: \<comment> \<open>integraly\<close>
  "s_integraly =
     [1080, 1085, 1090, 1077, 1075, 1088, 1072, 1083, 1099]"
definition s_kombinatorika :: str where [str_defs]: \<comment> \<open>kombinatorika\<close>
  "s_kombinatorika =
     [1082, 1086, 1084, 1073, 1080, 1085, 1072, 1090, 1086, 1088, 1080, 1082, 1072]"
definition s_teoriya_grafov :: str where [str_defs]: \<comment> \<open>teoriya grafov\<close>
  "s_teoriya_grafov =
     [1090, 1077, 1086, 1088, 1080, 1103, 32, 1075, 1088, 1072, 1092, 1086, 1074]"
definition s_algoritm :: str where [str_defs]: \<comment> \<open>algoritm\<close>
  "s_algoritm =
     [1072, 1083, 1075, 1086, 1088, 1080, 1090, 1084]"
definition s_struktury_dannykh :: str where [str_defs]: \<comment> \<open>struktury dannykh\<close>
  "s_struktury_dannykh =
     [1089, 1090, 1088, 1091, 1082, 1090, 1091, 1088, 1099, 32, 1076, 1072, 1085, 1085, 1099, 1093]"
definition s_slozhnost :: str where [str_defs]: \<comment> \<open>slozhnost\<close>
  "s_slozhnost =
     [1089, 1083, 1086, 1078, 1085, 1086, 1089, 1090, 1100]"
definition s_optimizatsiya :: str where [str_defs]: \<comment> \<open>optimizatsiya\<close>
  "s_optimizatsiya =
     [1086, 1087, 1090, 1080, 1084, 1080, 1079, 1072, 1094, 1080, 1103]"
definition s_logicheskiy :: str where [str_defs]: \<comment> \<open>logicheskiy\<close>
  "s_logicheskiy =
     [1083, 1086, 1075, 1080, 1095, 1077, 1089, 1082, 1080, 1081]"
definition s_teoriya_mnozhestv :: str where [str_defs]: \<comment> \<open>teoriya mnozhestv\<close>
  "s_teoriya_mnozhestv =
     [1090, 1077, 1086, 1088, 1080, 1103, 32, 1084, 1085, 1086, 1078, 1077, 1089, 1090, 1074]"
definition s_matematicheskaya_logika :: str where [str_defs]: \<comment> \<open>matematicheskaya logika\<close>
  "s_matematicheskaya_logika =
     [1084, 1072, 1090, 1077, 1084, 1072, 1090, 1080, 1095, 1077, 1089, 1082, 1072, 1103, 32, 1083,
     1086, 1075, 1080, 1082, 1072]"
definition s_marketing :: str where [str_defs]: \<comment> \<open>marketing\<close>
  "s_marketing =
     [1084, 1072, 1088, 1082, 1077, 1090, 1080, 1085, 1075]"
definition s_ekonomika :: str where [str_defs]: \<comment> \<open>ekonomika\<close>
  "s_ekonomika =
     [1101, 1082, 1086, 1085, 1086, 1084, 1080, 1082, 1072]"
definition s_proektnoe_upravlenie :: str where [str_defs]: \<comment> \<open>proektnoe upravlenie\<close>
  "s_proektnoe_upravlenie =
     [1087, 1088, 1086, 1077, 1082, 1090, 1085, 1086, 1077, 32, 1091, 1087, 1088, 1072, 1074, 1083,
     1077, 1085, 1080, 1077]"
definition s_menedzher :: str where [str_defs]: \<comment> \<open>menedzher\<close>
  "s_menedzher =
     [1084, 1077, 1085, 1077, 1076, 1078, 1077, 1088]"
definition s_rukovozhu :: str where [str_defs]: \<comment> \<open>rukovozhu\<close>
  "s_rukovozhu =
     [1088, 1091, 1082, 1086, 1074, 1086, 1078, 1091]"
definition s_upravlyayu_komandoy :: str where [str_defs]: \<comment> \<open>upravlyayu komandoy\<close>
  "s_upravlyayu_komandoy =
     [1091, 1087, 1088, 1072, 1074, 1083, 1103, 1102, 32, 1082, 1086, 1084, 1072, 1085, 1076, 1086,
     1081]"
definition s_rabotayu_v_menedzhmente :: str where [str_defs]: \<comment> \<open>rabotayu v menedzhmente\<close>
  "s_rabotayu_v_menedzhmente =
     [1088, 1072, 1073, 1086, 1090, 1072, 1102, 32, 1074, 32, 1084, 1077, 1085, 1077, 1076, 1078,
     1084, 1077, 1085, 1090, 1077]"
definition s_reklama :: str where [str_defs]: \<comment> \<open>reklama\<close>
  "s_reklama =
     [1088, 1077, 1082, 1083, 1072, 1084, 1072]"
definition s_prodvizhenie :: str where [str_defs]: \<comment> \<open>prodvizhenie\<close>
  "s_prodvizhenie =
     [1087, 1088, 1086, 1076, 1074, 1080, 1078, 1077, 1085, 1080, 1077]"
definition s_prodazhi :: str where [str_defs]: \<comment> \<open>prodazhi\<close>
  "s_prodazhi =
     [1087, 1088, 1086, 1076, 1072, 1078, 1080]"
definition s_marketolog :: str where [str_defs]: \<comment> \<open>marketolog\<close>
  "s_marketolog =
     [1084, 1072, 1088, 1082, 1077, 1090, 1086, 1083, 1086, 1075]"
definition s_rabotayu_v_marketinge :: str where [str_defs]: \<comment> \<open>rabotayu v marketinge\<close>
  "s_rabotayu_v_marketinge =
     [1088, 1072, 1073, 1086, 1090, 1072, 1102, 32, 1074, 32, 1084, 1072, 1088, 1082, 1077, 1090,
     1080, 1085, 1075, 1077]"
definition s_zanimayus_prodvizheniem :: str where [str_defs]: \<comment> \<open>zanimayus prodvizheniem\<close>
  "s_zanimayus_prodvizheniem =
     [1079, 1072, 1085, 1080, 1084, 1072, 1102, 1089, 1100, 32, 1087, 1088, 1086, 1076, 1074, 1080,
     1078, 1077, 1085, 1080, 1077, 1084]"
definition s_ekonomicheskiy :: str where [str_defs]: \<comment> \<open>ekonomicheskiy\<close>
  "s_ekonomicheskiy =
     [1101, 1082, 1086, 1085, 1086, 1084, 1080, 1095, 1077, 1089, 1082, 1080, 1081]"
definition s_finansy :: str where [str_defs]: \<comment> \<open>finansy\<close>
  "s_finansy =
     [1092, 1080, 1085, 1072, 1085, 1089, 1099]"
definition s_bukhgalteriya :: str where [str_defs]: \<comment> \<open>bukhgalteriya\<close>
  "s_bukhgalteriya =
     [1073, 1091, 1093, 1075, 1072, 1083, 1090, 1077, 1088, 1080, 1103]"
definition s_ekonomist :: str where [str_defs]: \<comment> \<open>ekonomist\<close>
  "s_ekonomist =
     [1101, 1082, 1086, 1085, 1086, 1084, 1080, 1089, 1090]"
definition s_rabotayu_s_finansami :: str where [str_defs]: \<comment> \<open>rabotayu s finansami\<close>
  "s_rabotayu_s_finansami =
     [1088, 1072, 1073, 1086, 1090, 1072, 1102, 32, 1089, 32, 1092, 1080, 1085, 1072, 1085, 1089,
     1072, 1084, 1080]"
definition s_agile :: str where [str_defs]: "s_agile = ascii ''agile''"
definition s_scrum :: str where [str_defs]: "s_scrum = ascii ''scrum''"
definition s_kanban :: str where [str_defs]: "s_kanban = ascii ''kanban''"
definition s_project_manager :: str where [str_defs]: "s_project_manager = ascii ''project manager''"
definition s_upravlyayu_proektami :: str where [str_defs]: \<comment> \<open>upravlyayu proektami\<close>
  "s_upravlyayu_proektami =
     [1091, 1087, 1088, 1072, 1074, 1083, 1103, 1102, 32, 1087, 1088, 1086, 1077, 1082, 1090, 1072,
     1084, 1080]"
definition s_rabotayu_po_agile :: str where [str_defs]: \<comment> \<open>rabotayu po agile\<close>
  "s_rabotayu_po_agile =
     [1088, 1072, 1073, 1086, 1090, 1072, 1102, 32, 1087, 1086, 32, 97, 103, 105, 108, 101]"
definition s_produktovaya_analitika :: str where [str_defs]: \<comment> \<open>produktovaya analitika\<close>
  "s_produktovaya_analitika =
     [1087, 1088, 1086, 1076, 1091, 1082, 1090, 1086, 1074, 1072, 1103, 32, 1072, 1085, 1072, 1083,
     1080, 1090, 1080, 1082, 1072]"
definition s_product_manager :: str where [str_defs]: "s_product_manager = ascii ''product manager''"
definition s_rabotayu_s_produktami :: str where [str_defs]: \<comment> \<open>rabotayu s produktami\<close>
  "s_rabotayu_s_produktami =
     [1088, 1072, 1073, 1086, 1090, 1072, 1102, 32, 1089, 32, 1087, 1088, 1086, 1076, 1091, 1082,
     1090, 1072, 1084, 1080]"
definition s_produktovyy_menedzher :: str where [str_defs]: \<comment> \<open>produktovyy menedzher\<close>
  "s_produktovyy_menedzher =
     [1087, 1088, 1086, 1076, 1091, 1082, 1090, 1086, 1074, 1099, 1081, 32, 1084, 1077, 1085, 1077,
     1076, 1078, 1077, 1088]"
definition s_strategicheskiy :: str where [str_defs]: \<comment> \<open>strategicheskiy\<close>
  "s_strategicheskiy =
     [1089, 1090, 1088, 1072, 1090, 1077, 1075, 1080, 1095, 1077, 1089, 1082, 1080, 1081]"
definition s_planirovanie :: str where [str_defs]: \<comment> \<open>planirovanie\<close>
  "s_planirovanie =
     [1087, 1083, 1072, 1085, 1080, 1088, 1086, 1074, 1072, 1085, 1080, 1077]"
definition s_analiz_rynka :: str where [str_defs]: \<comment> \<open>analiz rynka\<close>
  "s_analiz_rynka =
     [1072, 1085, 1072, 1083, 1080, 1079, 32, 1088, 1099, 1085, 1082, 1072]"
definition s_strategicheskoe_planirovanie :: str where [str_defs]: \<comment> \<open>strategicheskoe planirovanie\<close>
  "s_strategicheskoe_planirovanie =
     [1089, 1090, 1088, 1072, 1090, 1077, 1075, 1080, 1095, 1077, 1089, 1082, 1086, 1077, 32, 1087,
     1083, 1072, 1085, 1080, 1088, 1086, 1074, 1072, 1085, 1080, 1077]"
definition s_konferentsiya :: str where [str_defs]: \<comment> \<open>konferentsiya\<close>
  "s_konferentsiya =
     [1082, 1086, 1085, 1092, 1077, 1088, 1077, 1085, 1094, 1080, 1103]"
definition s_statya :: str where [str_defs]: \<comment> \<open>statya\<close>
  "s_statya =
     [1089, 1090, 1072, 1090, 1100, 1103]"
definition s_laboratoriya :: str where [str_defs]: \<comment> \<open>laboratoriya\<close>
  "s_laboratoriya =
     [1083, 1072, 1073, 1086, 1088, 1072, 1090, 1086, 1088, 1080, 1103]"
definition s_bakalavriat :: str where [str_defs]: \<comment> \<open>bakalavriat\<close>
  "s_bakalavriat =
     [1073, 1072, 1082, 1072, 1083, 1072, 1074, 1088, 1080, 1072, 1090]"
definition s_magistratura :: str where [str_defs]: \<comment> \<open>magistratura\<close>
  "s_magistratura =
     [1084, 1072, 1075, 1080, 1089, 1090, 1088, 1072, 1090, 1091, 1088, 1072]"
definition s_aspirantura :: str where [str_defs]: \<comment> \<open>aspirantura\<close>
  "s_aspirantura =
     [1072, 1089, 1087, 1080, 1088, 1072, 1085, 1090, 1091, 1088, 1072]"
definition s_bakalavr :: str where [str_defs]: \<comment> \<open>bakalavr\<close>
  "s_bakalavr =
     [1073, 1072, 1082, 1072, 1083, 1072, 1074, 1088]"
definition s_vysshee_obrazovanie :: str where [str_defs]: \<comment> \<open>vysshee obrazovanie\<close>
  "s_vysshee_obrazovanie =
     [1074, 1099, 1089, 1096, 1077, 1077, 32, 1086, 1073, 1088, 1072, 1079, 1086, 1074, 1072, 1085,
     1080, 1077]"
definition s_magistr :: str where [str_defs]: \<comment> \<open>magistr\<close>
  "s_magistr =
     [1084, 1072, 1075, 1080, 1089, 1090, 1088]"
definition s_aspirant :: str where [str_defs]: \<comment> \<open>aspirant\<close>
  "s_aspirant =
     [1072, 1089, 1087, 1080, 1088, 1072, 1085, 1090]"
definition s_kandidat_nauk :: str where [str_defs]: \<comment> \<open>kandidat nauk\<close>
  "s_kandidat_nauk =
     [1082, 1072, 1085, 1076, 1080, 1076, 1072, 1090, 32, 1085, 1072, 1091, 1082]"
definition s_tekhnicheskoe_obrazovanie :: str where [str_defs]: \<comment> \<open>tekhnicheskoe obrazovanie\<close>
  "s_tekhnicheskoe_obrazovanie =
     [1090, 1077, 1093, 1085, 1080, 1095, 1077, 1089, 1082, 1086, 1077, 32, 1086, 1073, 1088, 1072,
     1079, 1086, 1074, 1072, 1085, 1080, 1077]"
definition s_inzhenernoe :: str where [str_defs]: \<comment> \<open>inzhenernoe\<close>
  "s_inzhenernoe =
     [1080, 1085, 1078, 1077, 1085, 1077, 1088, 1085, 1086, 1077]"
definition s_net_opyta :: str where [str_defs]: \<comment> \<open>net opyta\<close>
  "s_net_opyta =
     [1085, 1077, 1090, 32, 1086, 1087, 1099, 1090, 1072]"
definition s_rabotayu :: str where [str_defs]: \<comment> \<open>rabotayu\<close>
  "s_rabotayu =
     [1088, 1072, 1073, 1086, 1090, 1072, 1102]"
definition s_rabotal :: str where [str_defs]: \<comment> \<open>rabotal\<close>
  "s_rabotal =
     [1088, 1072, 1073, 1086, 1090, 1072, 1083]"
definition s_opyt_raboty :: str where [str_defs]: \<comment> \<open>opyt raboty\<close>
  "s_opyt_raboty =
     [1086, 1087, 1099, 1090, 32, 1088, 1072, 1073, 1086, 1090, 1099]"
definition s_stazh :: str where [str_defs]: \<comment> \<open>stazh\<close>
  "s_stazh =
     [1089, 1090, 1072, 1078]"
definition s_analitik :: str where [str_defs]: \<comment> \<open>analitik\<close>
  "s_analitik =
     [1072, 1085, 1072, 1083, 1080, 1090, 1080, 1082]"
definition s_spetsialist :: str where [str_defs]: \<comment> \<open>spetsialist\<close>
  "s_spetsialist =
     [1089, 1087, 1077, 1094, 1080, 1072, 1083, 1080, 1089, 1090]"
definition s_opyt_v_razrabotke :: str where [str_defs]: \<comment> \<open>opyt v razrabotke\<close>
  "s_opyt_v_razrabotke =
     [1086, 1087, 1099, 1090, 32, 1074, 32, 1088, 1072, 1079, 1088, 1072, 1073, 1086, 1090, 1082,
     1077]"
definition s_opyt_razrabotki :: str where [str_defs]: \<comment> \<open>opyt razrabotki\<close>
  "s_opyt_razrabotki =
     [1086, 1087, 1099, 1090, 32, 1088, 1072, 1079, 1088, 1072, 1073, 1086, 1090, 1082, 1080]"
definition s_opyt :: str where [str_defs]: \<comment> \<open>opyt\<close>
  "s_opyt =
     [1086, 1087, 1099, 1090]"
definition s_est_opyt :: str where [str_defs]: \<comment> \<open>est opyt\<close>
  "s_est_opyt =
     [1077, 1089, 1090, 1100, 32, 1086, 1087, 1099, 1090]"
definition s_ml_engineer :: str where [str_defs]: "s_ml_engineer = ascii ''ml engineer''"
definition s_inzhener_ml :: str where [str_defs]: \<comment> \<open>inzhener ml\<close>
  "s_inzhener_ml =
     [1080, 1085, 1078, 1077, 1085, 1077, 1088, 32, 109, 108]"
definition s_ml_razrabotchik :: str where [str_defs]: \<comment> \<open>ml razrabotchik\<close>
  "s_ml_razrabotchik =
     [109, 108, 32, 1088, 1072, 1079, 1088, 1072, 1073, 1086, 1090, 1095, 1080, 1082]"
definition s_data_scientist :: str where [str_defs]: "s_data_scientist = ascii ''data scientist''"
definition s_uchenyy_po_dannym :: str where [str_defs]: \<comment> \<open>uchenyy po dannym\<close>
  "s_uchenyy_po_dannym =
     [1091, 1095, 1077, 1085, 1099, 1081, 32, 1087, 1086, 32, 1076, 1072, 1085, 1085, 1099, 1084]"
definition s_analitik_dannykh :: str where [str_defs]: \<comment> \<open>analitik dannykh\<close>
  "s_analitik_dannykh =
     [1072, 1085, 1072, 1083, 1080, 1090, 1080, 1082, 32, 1076, 1072, 1085, 1085, 1099, 1093]"
definition s_ai_developer :: str where [str_defs]: "s_ai_developer = ascii ''ai developer''"
definition s_razrabotchik_ii :: str where [str_defs]: \<comment> \<open>razrabotchik ii\<close>
  "s_razrabotchik_ii =
     [1088, 1072, 1079, 1088, 1072, 1073, 1086, 1090, 1095, 1080, 1082, 32, 1080, 1080]"
definition s_razrabotchik_ai :: str where [str_defs]: \<comment> \<open>razrabotchik ai\<close>
  "s_razrabotchik_ai =
     [1088, 1072, 1079, 1088, 1072, 1073, 1086, 1090, 1095, 1080, 1082, 32, 97, 105]"
definition s_produkt_menedzher :: str where [str_defs]: \<comment> \<open>produkt menedzher\<close>
  "s_produkt_menedzher =
     [1087, 1088, 1086, 1076, 1091, 1082, 1090, 32, 1084, 1077, 1085, 1077, 1076, 1078, 1077, 1088]"
definition s_menedzher_produkta :: str where [str_defs]: \<comment> \<open>menedzher produkta\<close>
  "s_menedzher_produkta =
     [1084, 1077, 1085, 1077, 1076, 1078, 1077, 1088, 32, 1087, 1088, 1086, 1076, 1091, 1082, 1090,
     1072]"
definition s_ai_product_manager :: str where [str_defs]: "s_ai_product_manager = ascii ''ai product manager''"
definition s_produkt_menedzher_ai :: str where [str_defs]: \<comment> \<open>produkt menedzher ai\<close>
  "s_produkt_menedzher_ai =
     [1087, 1088, 1086, 1076, 1091, 1082, 1090, 32, 1084, 1077, 1085, 1077, 1076, 1078, 1077, 1088,
     32, 97, 105]"
definition s_business_analyst :: str where [str_defs]: "s_business_analyst = ascii ''business analyst''"
definition s_biznes_analitik :: str where [str_defs]: \<comment> \<open>biznes analitik\<close>
  "s_biznes_analitik =
     [1073, 1080, 1079, 1085, 1077, 1089, 32, 1072, 1085, 1072, 1083, 1080, 1090, 1080, 1082]"
definition s_ai_researcher :: str where [str_defs]: "s_ai_researcher = ascii ''ai researcher''"
definition s_issledovatel_ii :: str where [str_defs]: \<comment> \<open>issledovatel ii\<close>
  "s_issledovatel_ii =
     [1080, 1089, 1089, 1083, 1077, 1076, 1086, 1074, 1072, 1090, 1077, 1083, 1100, 32, 1080, 1080]"
definition s_uchenyy_ii :: str where [str_defs]: \<comment> \<open>uchenyy ii\<close>
  "s_uchenyy_ii =
     [1091, 1095, 1077, 1085, 1099, 1081, 32, 1080, 1080]"
definition s_praktika :: str where [str_defs]: \<comment> \<open>praktika\<close>
  "s_praktika =
     [1087, 1088, 1072, 1082, 1090, 1080, 1082, 1072]"
definition s_proekty :: str where [str_defs]: \<comment> \<open>proekty\<close>
  "s_proekty =
     [1087, 1088, 1086, 1077, 1082, 1090, 1099]"
definition s_realnye_zadachi :: str where [str_defs]: \<comment> \<open>realnye zadachi\<close>
  "s_realnye_zadachi =
     [1088, 1077, 1072, 1083, 1100, 1085, 1099, 1077, 32, 1079, 1072, 1076, 1072, 1095, 1080]"
definition s_praktiko_orientirovannoe :: str where [str_defs]: \<comment> \<open>praktiko-orientirovannoe\<close>
  "s_praktiko_orientirovannoe =
     [1087, 1088, 1072, 1082, 1090, 1080, 1082, 1086, 45, 1086, 1088, 1080, 1077, 1085, 1090, 1080,
     1088, 1086, 1074, 1072, 1085, 1085, 1086, 1077]"
definition s_teoriya :: str where [str_defs]: \<comment> \<open>teoriya\<close>
  "s_teoriya =
     [1090, 1077, 1086, 1088, 1080, 1103]"
definition s_teoreticheskoe :: str where [str_defs]: \<comment> \<open>teoreticheskoe\<close>
  "s_teoreticheskoe =
     [1090, 1077, 1086, 1088, 1077, 1090, 1080, 1095, 1077, 1089, 1082, 1086, 1077]"
definition s_gruppa :: str where [str_defs]: \<comment> \<open>gruppa\<close>
  "s_gruppa =
     [1075, 1088, 1091, 1087, 1087, 1072]"
definition s_komanda :: str where [str_defs]: \<comment> \<open>komanda\<close>
  "s_komanda =
     [1082, 1086, 1084, 1072, 1085, 1076, 1072]"
definition s_sovmestno :: str where [str_defs]: \<comment> \<open>sovmestno\<close>
  "s_sovmestno =
     [1089, 1086, 1074, 1084, 1077, 1089, 1090, 1085, 1086]"
definition s_gruppovoe :: str where [str_defs]: \<comment> \<open>gruppovoe\<close>
  "s_gruppovoe =
     [1075, 1088, 1091, 1087, 1087, 1086, 1074, 1086, 1077]"
definition s_individualno :: str where [str_defs]: \<comment> \<open>individualno\<close>
  "s_individualno =
     [1080, 1085, 1076, 1080, 1074, 1080, 1076, 1091, 1072, 1083, 1100, 1085, 1086]"
definition s_samostoyatelno :: str where [str_defs]: \<comment> \<open>samostoyatelno\<close>
  "s_samostoyatelno =
     [1089, 1072, 1084, 1086, 1089, 1090, 1086, 1103, 1090, 1077, 1083, 1100, 1085, 1086]"
definition s_individualnoe :: str where [str_defs]: \<comment> \<open>individualnoe\<close>
  "s_individualnoe =
     [1080, 1085, 1076, 1080, 1074, 1080, 1076, 1091, 1072, 1083, 1100, 1085, 1086, 1077]"
definition s_standartnaya :: str where [str_defs]: \<comment> \<open>standartnaya\<close>
  "s_standartnaya =
     [1089, 1090, 1072, 1085, 1076, 1072, 1088, 1090, 1085, 1072, 1103]"
definition s_polnyy_den :: str where [str_defs]: \<comment> \<open>polnyy den\<close>
  "s_polnyy_den =
     [1087, 1086, 1083, 1085, 1099, 1081, 32, 1076, 1077, 1085, 1100]"
definition s_ochnaya :: str where [str_defs]: \<comment> \<open>ochnaya\<close>
  "s_ochnaya =
     [1086, 1095, 1085, 1072, 1103]"
definition s_dnevnaya :: str where [str_defs]: \<comment> \<open>dnevnaya\<close>
  "s_dnevnaya =
     [1076, 1085, 1077, 1074, 1085, 1072, 1103]"
definition s_vechernyaya :: str where [str_defs]: \<comment> \<open>vechernyaya\<close>
  "s_vechernyaya =
     [1074, 1077, 1095, 1077, 1088, 1085, 1103, 1103]"
definition s_zaochnaya :: str where [str_defs]: \<comment> \<open>zaochnaya\<close>
  "s_zaochnaya =
     [1079, 1072, 1086, 1095, 1085, 1072, 1103]"
definition s_chastichnaya :: str where [str_defs]: \<comment> \<open>chastichnaya\<close>
  "s_chastichnaya =
     [1095, 1072, 1089, 1090, 1080, 1095, 1085, 1072, 1103]"

text \<open>String literals first used in \<^verbatim>\<open>_evaluate_course_intelligently\<close>.\<close>

definition s_courses :: str where [str_defs]: "s_courses = ascii ''courses''"
definition s_weight :: str where [str_defs]: "s_weight = ascii ''weight''"
definition reason_skill_prefix :: str where [str_defs]: \<comment> \<open>Sootvetstvuet vashim navykam v \<close>
  "reason_skill_prefix =
     [1057, 1086, 1086, 1090, 1074, 1077, 1090, 1089, 1090, 1074, 1091, 1077, 1090, 32, 1074, 1072,
     1096, 1080, 1084, 32, 1085, 1072, 1074, 1099, 1082, 1072, 1084, 32, 1074, 32]"
definition s_obrabotka :: str where [str_defs]: \<comment> \<open>obrabotka\<close>
  "s_obrabotka =
     [1086, 1073, 1088, 1072, 1073, 1086, 1090, 1082, 1072]"
definition s_veroyatnosti :: str where [str_defs]: \<comment> \<open>veroyatnosti\<close>
  "s_veroyatnosti =
     [1074, 1077, 1088, 1086, 1103, 1090, 1085, 1086, 1089, 1090, 1080]"
definition s_proekt :: str where [str_defs]: \<comment> \<open>proekt\<close>
  "s_proekt =
     [1087, 1088, 1086, 1077, 1082, 1090]"
definition s_career_paths :: str where [str_defs]: "s_career_paths = ascii ''career_paths''"
definition reason_goal_prefix :: str where [str_defs]: \<comment> \<open>Sootvetstvuet vashey karernoy tseli: \<close>
  "reason_goal_prefix =
     [1057, 1086, 1086, 1090, 1074, 1077, 1090, 1089, 1090, 1074, 1091, 1077, 1090, 32, 1074, 1072,
     1096, 1077, 1081, 32, 1082, 1072, 1088, 1100, 1077, 1088, 1085, 1086, 1081, 32, 1094, 1077, 1083,
     1080, 58, 32]"
definition reason_research :: str where [str_defs]: \<comment> \<open>Sootvetstvuet vashim issledovatelskim interesam\<close>
  "reason_research =
     [1057, 1086, 1086, 1090, 1074, 1077, 1090, 1089, 1090, 1074, 1091, 1077, 1090, 32, 1074, 1072,
     1096, 1080, 1084, 32, 1080, 1089, 1089, 1083, 1077, 1076, 1086, 1074, 1072, 1090, 1077, 1083,
     1100, 1089, 1082, 1080, 1084, 32, 1080, 1085, 1090, 1077, 1088, 1077, 1089, 1072, 1084]"
definition s_realnyy :: str where [str_defs]: \<comment> \<open>realnyy\<close>
  "s_realnyy =
     [1088, 1077, 1072, 1083, 1100, 1085, 1099, 1081]"
definition reason_experience :: str where [str_defs]: \<comment> \<open>Podkhodit dlya spetsialistov s opytom raboty\<close>
  "reason_experience =
     [1055, 1086, 1076, 1093, 1086, 1076, 1080, 1090, 32, 1076, 1083, 1103, 32, 1089, 1087, 1077,
     1094, 1080, 1072, 1083, 1080, 1089, 1090, 1086, 1074, 32, 1089, 32, 1086, 1087, 1099, 1090, 1086,
     1084, 32, 1088, 1072, 1073, 1086, 1090, 1099]"
definition s_prodvinutyy :: str where [str_defs]: \<comment> \<open>prodvinutyy\<close>
  "s_prodvinutyy =
     [1087, 1088, 1086, 1076, 1074, 1080, 1085, 1091, 1090, 1099, 1081]"
definition s_uglublennyy :: str where [str_defs]: \<comment> \<open>uglublennyy\<close>
  "s_uglublennyy =
     [1091, 1075, 1083, 1091, 1073, 1083, 1077, 1085, 1085, 1099, 1081]"
definition reason_education :: str where [str_defs]: \<comment> \<open>Podkhodit dlya vashego urovnya obrazovaniya\<close>
  "reason_education =
     [1055, 1086, 1076, 1093, 1086, 1076, 1080, 1090, 32, 1076, 1083, 1103, 32, 1074, 1072, 1096,
     1077, 1075, 1086, 32, 1091, 1088, 1086, 1074, 1085, 1103, 32, 1086, 1073, 1088, 1072, 1079, 1086,
     1074, 1072, 1085, 1080, 1103]"
definition s_high :: str where [str_defs]: "s_high = ascii ''high''"
definition s_medium :: str where [str_defs]: "s_medium = ascii ''medium''"
definition s_low :: str where [str_defs]: "s_low = ascii ''low''"
definition reason_baseline :: str where [str_defs]: \<comment> \<open>Bazovyy kurs dlya vsekh studentov\<close>
  "reason_baseline =
     [1041, 1072, 1079, 1086, 1074, 1099, 1081, 32, 1082, 1091, 1088, 1089, 32, 1076, 1083, 1103, 32,
     1074, 1089, 1077, 1093, 32, 1089, 1090, 1091, 1076, 1077, 1085, 1090, 1086, 1074]"

text \<open>String literals first used in \<^verbatim>\<open>_assess_course_difficulty\<close>.\<close>

definition s_spetsialnye :: str where [str_defs]: \<comment> \<open>spetsialnye\<close>
  "s_spetsialnye =
     [1089, 1087, 1077, 1094, 1080, 1072, 1083, 1100, 1085, 1099, 1077]"

text \<open>String literals first used in \<^verbatim>\<open>_determine_learning_path\<close>.\<close>

definition path_first :: str where [str_defs]: \<comment> \<open>Rekomenduetsya izuchat v pervuyu ochered (1 semestr)\<close>
  "path_first =
     [1056, 1077, 1082, 1086, 1084, 1077, 1085, 1076, 1091, 1077, 1090, 1089, 1103, 32, 1080, 1079,
     1091, 1095, 1072, 1090, 1100, 32, 1074, 32, 1087, 1077, 1088, 1074, 1091, 1102, 32, 1086, 1095,
     1077, 1088, 1077, 1076, 1100, 32, 40, 49, 32, 1089, 1077, 1084, 1077, 1089, 1090, 1088, 41]"
definition path_second :: str where [str_defs]: \<comment> \<open>Izuchat posle osvoeniya bazovykh distsiplin (2 semestr)\<close>
  "path_second =
     [1048, 1079, 1091, 1095, 1072, 1090, 1100, 32, 1087, 1086, 1089, 1083, 1077, 32, 1086, 1089,
     1074, 1086, 1077, 1085, 1080, 1103, 32, 1073, 1072, 1079, 1086, 1074, 1099, 1093, 32, 1076, 1080,
     1089, 1094, 1080, 1087, 1083, 1080, 1085, 32, 40, 50, 32, 1089, 1077, 1084, 1077, 1089, 1090,
     1088, 41]"
definition path_third :: str where [str_defs]: \<comment> \<open>Izuchat posle osvoeniya osnovnykh distsiplin (3 semestr)\<close>
  "path_third =
     [1048, 1079, 1091, 1095, 1072, 1090, 1100, 32, 1087, 1086, 1089, 1083, 1077, 32, 1086, 1089,
     1074, 1086, 1077, 1085, 1080, 1103, 32, 1086, 1089, 1085, 1086, 1074, 1085, 1099, 1093, 32, 1076,
     1080, 1089, 1094, 1080, 1087, 1083, 1080, 1085, 32, 40, 51, 32, 1089, 1077, 1084, 1077, 1089,
     1090, 1088, 41]"
definition path_fourth :: str where [str_defs]: \<comment> \<open>Izuchat v zavershayushchem semestre (4 semestr)\<close>
  "path_fourth =
     [1048, 1079, 1091, 1095, 1072, 1090, 1100, 32, 1074, 32, 1079, 1072, 1074, 1077, 1088, 1096,
     1072, 1102, 1097, 1077, 1084, 32, 1089, 1077, 1084, 1077, 1089, 1090, 1088, 1077, 32, 40, 52, 32,
     1089, 1077, 1084, 1077, 1089, 1090, 1088, 41]"
definition path_any :: str where [str_defs]: \<comment> \<open>Mozhno izuchat v lyubom poryadke\<close>
  "path_any =
     [1052, 1086, 1078, 1085, 1086, 32, 1080, 1079, 1091, 1095, 1072, 1090, 1100, 32, 1074, 32, 1083,
     1102, 1073, 1086, 1084, 32, 1087, 1086, 1088, 1103, 1076, 1082, 1077]"

text \<open>String literals first used in \<^verbatim>\<open>_generate_concrete_recommendation_reason\<close>.\<close>

definition advice_python_ml :: str where [str_defs]: \<comment> \<open>Otlichnyy vybor dlya Python-razrabotchikov! Etot kurs dast vam prakticheskie navyki v ML\<close>
  "advice_python_ml =
     [1054, 1090, 1083, 1080, 1095, 1085, 1099, 1081, 32, 1074, 1099, 1073, 1086, 1088, 32, 1076,
     1083, 1103, 32, 80, 121, 116, 104, 111, 110, 45, 1088, 1072, 1079, 1088, 1072, 1073, 1086, 1090,
     1095, 1080, 1082, 1086, 1074, 33, 32, 1069, 1090, 1086, 1090, 32, 1082, 1091, 1088, 1089, 32,
     1076, 1072, 1089, 1090, 32, 1074, 1072, 1084, 32, 1087, 1088, 1072, 1082, 1090, 1080, 1095, 1077,
     1089, 1082, 1080, 1077, 32, 1085, 1072, 1074, 1099, 1082, 1080, 32, 1074, 32, 77, 76]"
definition advice_python_ai :: str where [str_defs]: \<comment> \<open>Idealno podkhodit dlya Python-programmistov. Vy smozhete primenit svoi navyki v AI\<close>
  "advice_python_ai =
     [1048, 1076, 1077, 1072, 1083, 1100, 1085, 1086, 32, 1087, 1086, 1076, 1093, 1086, 1076, 1080,
     1090, 32, 1076, 1083, 1103, 32, 80, 121, 116, 104, 111, 110, 45, 1087, 1088, 1086, 1075, 1088,
     1072, 1084, 1084, 1080, 1089, 1090, 1086, 1074, 46, 32, 1042, 1099, 32, 1089, 1084, 1086, 1078,
     1077, 1090, 1077, 32, 1087, 1088, 1080, 1084, 1077, 1085, 1080, 1090, 1100, 32, 1089, 1074, 1086,
     1080, 32, 1085, 1072, 1074, 1099, 1082, 1080, 32, 1074, 32, 65, 73]"
definition advice_python_algo :: str where [str_defs]: \<comment> \<open>Vash opyt v Python pomozhet bystro osvoit algoritmy i struktury dannykh\<close>
  "advice_python_algo =
     [1042, 1072, 1096, 32, 1086, 1087, 1099, 1090, 32, 1074, 32, 80, 121, 116, 104, 111, 110, 32,
     1087, 1086, 1084, 1086, 1078, 1077, 1090, 32, 1073, 1099, 1089, 1090, 1088, 1086, 32, 1086, 1089,
     1074, 1086, 1080, 1090, 1100, 32, 1072, 1083, 1075, 1086, 1088, 1080, 1090, 1084, 1099, 32, 1080,
     32, 1089, 1090, 1088, 1091, 1082, 1090, 1091, 1088, 1099, 32, 1076, 1072, 1085, 1085, 1099,
     1093]"
definition advice_java_ml :: str where [str_defs]: \<comment> \<open>Otlichnyy vybor! Java otlichno podkhodit dlya enterprise ML-resheniy\<close>
  "advice_java_ml =
     [1054, 1090, 1083, 1080, 1095, 1085, 1099, 1081, 32, 1074, 1099, 1073, 1086, 1088, 33, 32, 74,
     97, 118, 97, 32, 1086, 1090, 1083, 1080, 1095, 1085, 1086, 32, 1087, 1086, 1076, 1093, 1086,
     1076, 1080, 1090, 32, 1076, 1083, 1103, 32, 101, 110, 116, 101, 114, 112, 114, 105, 115, 101, 32,
     77, 76, 45, 1088, 1077, 1096, 1077, 1085, 1080, 1081]"
definition advice_java_algo :: str where [str_defs]: \<comment> \<open>Vashi navyki v Java pomogut effektivno realizovat algoritmy\<close>
  "advice_java_algo =
     [1042, 1072, 1096, 1080, 32, 1085, 1072, 1074, 1099, 1082, 1080, 32, 1074, 32, 74, 97, 118, 97,
     32, 1087, 1086, 1084, 1086, 1075, 1091, 1090, 32, 1101, 1092, 1092, 1077, 1082, 1090, 1080, 1074,
     1085, 1086, 32, 1088, 1077, 1072, 1083, 1080, 1079, 1086, 1074, 1072, 1090, 1100, 32, 1072, 1083,
     1075, 1086, 1088, 1080, 1090, 1084, 1099]"
definition advice_math_ml :: str where [str_defs]: \<comment> \<open>Vasha matematicheskaya baza idealna dlya ponimaniya ML-algoritmov\<close>
  "advice_math_ml =
     [1042, 1072, 1096, 1072, 32, 1084, 1072, 1090, 1077, 1084, 1072, 1090, 1080, 1095, 1077, 1089,
     1082, 1072, 1103, 32, 1073, 1072, 1079, 1072, 32, 1080, 1076, 1077, 1072, 1083, 1100, 1085, 1072,
     32, 1076, 1083, 1103, 32, 1087, 1086, 1085, 1080, 1084, 1072, 1085, 1080, 1103, 32, 77, 76, 45,
     1072, 1083, 1075, 1086, 1088, 1080, 1090, 1084, 1086, 1074]"
definition advice_math_stat :: str where [str_defs]: \<comment> \<open>Matematicheskoe obrazovanie pomozhet gluboko ponyat statisticheskie metody\<close>
  "advice_math_stat =
     [1052, 1072, 1090, 1077, 1084, 1072, 1090, 1080, 1095, 1077, 1089, 1082, 1086, 1077, 32, 1086,
     1073, 1088, 1072, 1079, 1086, 1074, 1072, 1085, 1080, 1077, 32, 1087, 1086, 1084, 1086, 1078,
     1077, 1090, 32, 1075, 1083, 1091, 1073, 1086, 1082, 1086, 32, 1087, 1086, 1085, 1103, 1090, 1100,
     32, 1089, 1090, 1072, 1090, 1080, 1089, 1090, 1080, 1095, 1077, 1089, 1082, 1080, 1077, 32, 1084,
     1077, 1090, 1086, 1076, 1099]"
definition advice_math_opt :: str where [str_defs]: \<comment> \<open>Matematicheskie navyki dadut vam preimushchestvo v izuchenii optimizatsii\<close>
  "advice_math_opt =
     [1052, 1072, 1090, 1077, 1084, 1072, 1090, 1080, 1095, 1077, 1089, 1082, 1080, 1077, 32, 1085,
     1072, 1074, 1099, 1082, 1080, 32, 1076, 1072, 1076, 1091, 1090, 32, 1074, 1072, 1084, 32, 1087,
     1088, 1077, 1080, 1084, 1091, 1097, 1077, 1089, 1090, 1074, 1086, 32, 1074, 32, 1080, 1079, 1091,
     1095, 1077, 1085, 1080, 1080, 32, 1086, 1087, 1090, 1080, 1084, 1080, 1079, 1072, 1094, 1080,
     1080]"
definition advice_manager_project :: str where [str_defs]: \<comment> \<open>Otlichnyy vybor dlya menedzherov! Kurs pomozhet upravlyat AI-proektami\<close>
  "advice_manager_project =
     [1054, 1090, 1083, 1080, 1095, 1085, 1099, 1081, 32, 1074, 1099, 1073, 1086, 1088, 32, 1076,
     1083, 1103, 32, 1084, 1077, 1085, 1077, 1076, 1078, 1077, 1088, 1086, 1074, 33, 32, 1050, 1091,
     1088, 1089, 32, 1087, 1086, 1084, 1086, 1078, 1077, 1090, 32, 1091, 1087, 1088, 1072, 1074, 1083,
     1103, 1090, 1100, 32, 65, 73, 45, 1087, 1088, 1086, 1077, 1082, 1090, 1072, 1084, 1080]"
definition advice_manager_business :: str where [str_defs]: \<comment> \<open>Vash biznes-opyt pomozhet ponyat, kak primenyat AI v realnykh proektakh\<close>
  "advice_manager_business =
     [1042, 1072, 1096, 32, 1073, 1080, 1079, 1085, 1077, 1089, 45, 1086, 1087, 1099, 1090, 32, 1087,
     1086, 1084, 1086, 1078, 1077, 1090, 32, 1087, 1086, 1085, 1103, 1090, 1100, 44, 32, 1082, 1072,
     1082, 32, 1087, 1088, 1080, 1084, 1077, 1085, 1103, 1090, 1100, 32, 65, 73, 32, 1074, 32, 1088,
     1077, 1072, 1083, 1100, 1085, 1099, 1093, 32, 1087, 1088, 1086, 1077, 1082, 1090, 1072, 1093]"
definition advice_goal_ml :: str where [str_defs]: \<comment> \<open>Obyazatelnyy kurs dlya ML Engineer! Dast klyuchevye navyki dlya karery\<close>
  "advice_goal_ml =
     [1054, 1073, 1103, 1079, 1072, 1090, 1077, 1083, 1100, 1085, 1099, 1081, 32, 1082, 1091, 1088,
     1089, 32, 1076, 1083, 1103, 32, 77, 76, 32, 69, 110, 103, 105, 110, 101, 101, 114, 33, 32, 1044,
     1072, 1089, 1090, 32, 1082, 1083, 1102, 1095, 1077, 1074, 1099, 1077, 32, 1085, 1072, 1074, 1099,
     1082, 1080, 32, 1076, 1083, 1103, 32, 1082, 1072, 1088, 1100, 1077, 1088, 1099]"
definition advice_goal_ml_algo :: str where [str_defs]: \<comment> \<open>Vazhno dlya ML Engineer: ponimanie algoritmov kritichno dlya razrabotki modeley\<close>
  "advice_goal_ml_algo =
     [1042, 1072, 1078, 1085, 1086, 32, 1076, 1083, 1103, 32, 77, 76, 32, 69, 110, 103, 105, 110, 101,
     101, 114, 58, 32, 1087, 1086, 1085, 1080, 1084, 1072, 1085, 1080, 1077, 32, 1072, 1083, 1075,
     1086, 1088, 1080, 1090, 1084, 1086, 1074, 32, 1082, 1088, 1080, 1090, 1080, 1095, 1085, 1086, 32,
     1076, 1083, 1103, 32, 1088, 1072, 1079, 1088, 1072, 1073, 1086, 1090, 1082, 1080, 32, 1084, 1086,
     1076, 1077, 1083, 1077, 1081]"
definition advice_goal_ds_stat :: str where [str_defs]: \<comment> \<open>Klyuchevoy kurs dlya Data Scientist! Statistika - osnova analiza dannykh\<close>
  "advice_goal_ds_stat =
     [1050, 1083, 1102, 1095, 1077, 1074, 1086, 1081, 32, 1082, 1091, 1088, 1089, 32, 1076, 1083,
     1103, 32, 68, 97, 116, 97, 32, 83, 99, 105, 101, 110, 116, 105, 115, 116, 33, 32, 1057, 1090,
     1072, 1090, 1080, 1089, 1090, 1080, 1082, 1072, 32, 45, 32, 1086, 1089, 1085, 1086, 1074, 1072,
     32, 1072, 1085, 1072, 1083, 1080, 1079, 1072, 32, 1076, 1072, 1085, 1085, 1099, 1093]"
definition advice_goal_ds_ml :: str where [str_defs]: \<comment> \<open>Obyazatelno dlya Data Scientist! ML - osnovnoy instrument v rabote\<close>
  "advice_goal_ds_ml =
     [1054, 1073, 1103, 1079, 1072, 1090, 1077, 1083, 1100, 1085, 1086, 32, 1076, 1083, 1103, 32, 68,
     97, 116, 97, 32, 83, 99, 105, 101, 110, 116, 105, 115, 116, 33, 32, 77, 76, 32, 45, 32, 1086,
     1089, 1085, 1086, 1074, 1085, 1086, 1081, 32, 1080, 1085, 1089, 1090, 1088, 1091, 1084, 1077,
     1085, 1090, 32, 1074, 32, 1088, 1072, 1073, 1086, 1090, 1077]"
definition advice_goal_pm :: str where [str_defs]: \<comment> \<open>Idealno dlya Product Manager! Pomozhet upravlyat AI-produktami\<close>
  "advice_goal_pm =
     [1048, 1076, 1077, 1072, 1083, 1100, 1085, 1086, 32, 1076, 1083, 1103, 32, 80, 114, 111, 100,
     117, 99, 116, 32, 77, 97, 110, 97, 103, 101, 114, 33, 32, 1055, 1086, 1084, 1086, 1078, 1077,
     1090, 32, 1091, 1087, 1088, 1072, 1074, 1083, 1103, 1090, 1100, 32, 65, 73, 45, 1087, 1088, 1086,
     1076, 1091, 1082, 1090, 1072, 1084, 1080]"
definition advice_goal_pm_business :: str where [str_defs]: \<comment> \<open>Vazhno dlya PM: ponimanie biznes-aspektov AI-proektov\<close>
  "advice_goal_pm_business =
     [1042, 1072, 1078, 1085, 1086, 32, 1076, 1083, 1103, 32, 80, 77, 58, 32, 1087, 1086, 1085, 1080,
     1084, 1072, 1085, 1080, 1077, 32, 1073, 1080, 1079, 1085, 1077, 1089, 45, 1072, 1089, 1087, 1077,
     1082, 1090, 1086, 1074, 32, 65, 73, 45, 1087, 1088, 1086, 1077, 1082, 1090, 1086, 1074]"
definition advice_experience_practice :: str where [str_defs]: \<comment> \<open>Vash opyt raboty pomozhet uspeshno vypolnyat prakticheskie zadaniya\<close>
  "advice_experience_practice =
     [1042, 1072, 1096, 32, 1086, 1087, 1099, 1090, 32, 1088, 1072, 1073, 1086, 1090, 1099, 32, 1087,
     1086, 1084, 1086, 1078, 1077, 1090, 32, 1091, 1089, 1087, 1077, 1096, 1085, 1086, 32, 1074, 1099,
     1087, 1086, 1083, 1085, 1103, 1090, 1100, 32, 1087, 1088, 1072, 1082, 1090, 1080, 1095, 1077,
     1089, 1082, 1080, 1077, 32, 1079, 1072, 1076, 1072, 1085, 1080, 1103]"
definition advice_experience_real :: str where [str_defs]: \<comment> \<open>Opyt raboty dast vam preimushchestvo v ponimanii realnykh primeneniy\<close>
  "advice_experience_real =
     [1054, 1087, 1099, 1090, 32, 1088, 1072, 1073, 1086, 1090, 1099, 32, 1076, 1072, 1089, 1090, 32,
     1074, 1072, 1084, 32, 1087, 1088, 1077, 1080, 1084, 1091, 1097, 1077, 1089, 1090, 1074, 1086, 32,
     1074, 32, 1087, 1086, 1085, 1080, 1084, 1072, 1085, 1080, 1080, 32, 1088, 1077, 1072, 1083, 1100,
     1085, 1099, 1093, 32, 1087, 1088, 1080, 1084, 1077, 1085, 1077, 1085, 1080, 1081]"
definition advice_master :: str where [str_defs]: \<comment> \<open>Podkhodit dlya vashego urovnya! Magistratura dast vam bazu dlya slozhnykh kursov\<close>
  "advice_master =
     [1055, 1086, 1076, 1093, 1086, 1076, 1080, 1090, 32, 1076, 1083, 1103, 32, 1074, 1072, 1096,
     1077, 1075, 1086, 32, 1091, 1088, 1086, 1074, 1085, 1103, 33, 32, 1052, 1072, 1075, 1080, 1089,
     1090, 1088, 1072, 1090, 1091, 1088, 1072, 32, 1076, 1072, 1089, 1090, 32, 1074, 1072, 1084, 32,
     1073, 1072, 1079, 1091, 32, 1076, 1083, 1103, 32, 1089, 1083, 1086, 1078, 1085, 1099, 1093, 32,
     1082, 1091, 1088, 1089, 1086, 1074]"
definition advice_fit_prog_prefix :: str where [str_defs]: \<comment> \<open>Otlichnyy vybor dlya \<close>
  "advice_fit_prog_prefix =
     [1054, 1090, 1083, 1080, 1095, 1085, 1099, 1081, 32, 1074, 1099, 1073, 1086, 1088, 32, 1076,
     1083, 1103, 32]"
definition advice_fit_prog_suffix :: str where [str_defs]: \<comment> \<open>-razrabotchika! Kurs idealno podkhodit vashemu profilyu\<close>
  "advice_fit_prog_suffix =
     [45, 1088, 1072, 1079, 1088, 1072, 1073, 1086, 1090, 1095, 1080, 1082, 1072, 33, 32, 1050, 1091,
     1088, 1089, 32, 1080, 1076, 1077, 1072, 1083, 1100, 1085, 1086, 32, 1087, 1086, 1076, 1093, 1086,
     1076, 1080, 1090, 32, 1074, 1072, 1096, 1077, 1084, 1091, 32, 1087, 1088, 1086, 1092, 1080, 1083,
     1102]"
definition advice_fit_math_prefix :: str where [str_defs]: \<comment> \<open>Otlichnyy vybor! Vashi znaniya v \<close>
  "advice_fit_math_prefix =
     [1054, 1090, 1083, 1080, 1095, 1085, 1099, 1081, 32, 1074, 1099, 1073, 1086, 1088, 33, 32, 1042,
     1072, 1096, 1080, 32, 1079, 1085, 1072, 1085, 1080, 1103, 32, 1074, 32]"
definition advice_fit_math_suffix :: str where [str_defs]: \<comment> \<open> pomogut bystro osvoit material\<close>
  "advice_fit_math_suffix =
     [32, 1087, 1086, 1084, 1086, 1075, 1091, 1090, 32, 1073, 1099, 1089, 1090, 1088, 1086, 32, 1086,
     1089, 1074, 1086, 1080, 1090, 1100, 32, 1084, 1072, 1090, 1077, 1088, 1080, 1072, 1083]"
definition advice_fit :: str where [str_defs]: \<comment> \<open>Otlichnyy vybor! Kurs khorosho sootvetstvuet vashemu profilyu\<close>
  "advice_fit =
     [1054, 1090, 1083, 1080, 1095, 1085, 1099, 1081, 32, 1074, 1099, 1073, 1086, 1088, 33, 32, 1050,
     1091, 1088, 1089, 32, 1093, 1086, 1088, 1086, 1096, 1086, 32, 1089, 1086, 1086, 1090, 1074, 1077,
     1090, 1089, 1090, 1074, 1091, 1077, 1090, 32, 1074, 1072, 1096, 1077, 1084, 1091, 32, 1087, 1088,
     1086, 1092, 1080, 1083, 1102]"
definition advice_broaden_experience :: str where [str_defs]: \<comment> \<open>Khoroshiy vybor dlya rasshireniya krugozora. Vash opyt raboty pomozhet v osvoenii\<close>
  "advice_broaden_experience =
     [1061, 1086, 1088, 1086, 1096, 1080, 1081, 32, 1074, 1099, 1073, 1086, 1088, 32, 1076, 1083,
     1103, 32, 1088, 1072, 1089, 1096, 1080, 1088, 1077, 1085, 1080, 1103, 32, 1082, 1088, 1091, 1075,
     1086, 1079, 1086, 1088, 1072, 46, 32, 1042, 1072, 1096, 32, 1086, 1087, 1099, 1090, 32, 1088,
     1072, 1073, 1086, 1090, 1099, 32, 1087, 1086, 1084, 1086, 1078, 1077, 1090, 32, 1074, 32, 1086,
     1089, 1074, 1086, 1077, 1085, 1080, 1080]"
definition advice_broaden :: str where [str_defs]: \<comment> \<open>Khoroshiy vybor dlya razvitiya novykh navykov. Rekomenduem dopolnitelnuyu podgotovku\<close>
  "advice_broaden =
     [1061, 1086, 1088, 1086, 1096, 1080, 1081, 32, 1074, 1099, 1073, 1086, 1088, 32, 1076, 1083,
     1103, 32, 1088, 1072, 1079, 1074, 1080, 1090, 1080, 1103, 32, 1085, 1086, 1074, 1099, 1093, 32,
     1085, 1072, 1074, 1099, 1082, 1086, 1074, 46, 32, 1056, 1077, 1082, 1086, 1084, 1077, 1085, 1076,
     1091, 1077, 1084, 32, 1076, 1086, 1087, 1086, 1083, 1085, 1080, 1090, 1077, 1083, 1100, 1085,
     1091, 1102, 32, 1087, 1086, 1076, 1075, 1086, 1090, 1086, 1074, 1082, 1091]"
definition advice_hard :: str where [str_defs]: \<comment> \<open>Kurs mozhet byt slozhnym dlya vashego profilya, no eto otlichnaya vozmozhnost dlya rosta!\<close>
  "advice_hard =
     [1050, 1091, 1088, 1089, 32, 1084, 1086, 1078, 1077, 1090, 32, 1073, 1099, 1090, 1100, 32, 1089,
     1083, 1086, 1078, 1085, 1099, 1084, 32, 1076, 1083, 1103, 32, 1074, 1072, 1096, 1077, 1075, 1086,
     32, 1087, 1088, 1086, 1092, 1080, 1083, 1103, 44, 32, 1085, 1086, 32, 1101, 1090, 1086, 32, 1086,
     1090, 1083, 1080, 1095, 1085, 1072, 1103, 32, 1074, 1086, 1079, 1084, 1086, 1078, 1085, 1086,
     1089, 1090, 1100, 32, 1076, 1083, 1103, 32, 1088, 1086, 1089, 1090, 1072, 33]"

section \<open>Knowledge base\<close>

text \<open>
  The cluster catalog built by \<^verbatim>\<open>_build_course_clusters\<close> (eight clusters, each with an empty
  course list), the skill map built by \<^verbatim>\<open>_build_skill_mapping\<close>, and the keyword tables that
  are local to \<^verbatim>\<open>_analyze_background\<close>. A dictionary literal is the list of its items in
  the order they are written, which is the order Python iterates it in.
\<close>

definition initial_course_clusters :: "(str \<times> CourseCluster) list" where
  "initial_course_clusters = [
    (s_ai_core, \<lparr>CourseCluster.name = s_Osnovy_iskusstvennogo_intellekta,
       CourseCluster.courses = [],
       difficulty_level = s_intermediate,
       CourseCluster.prerequisites = [s_programmirovanie, s_matematika],
       career_relevance = [s_ML_Engineer, s_AI_Developer, s_Data_Scientist]\<rparr>),
    (s_machine_learning, \<lparr>CourseCluster.name = s_Mashinnoe_obuchenie,
       CourseCluster.courses = [],
       difficulty_level = s_advanced,
       CourseCluster.prerequisites = [s_ai_core, s_statistika, s_lineynaya_algebra],
       career_relevance = [s_ML_Engineer, s_Data_Scientist, s_AI_Researcher]\<rparr>),
    (s_deep_learning, \<lparr>CourseCluster.name = s_Glubokoe_obuchenie, CourseCluster.courses = [],
       difficulty_level = s_advanced,
       CourseCluster.prerequisites = [s_machine_learning, s_neyronnye_seti],
       career_relevance = [s_ML_Engineer, s_AI_Researcher, s_Computer_Vision_Engineer]\<rparr>),
    (s_nlp, \<lparr>CourseCluster.name = s_Obrabotka_estestvennogo_yazyka,
       CourseCluster.courses = [],
       difficulty_level = s_advanced,
       CourseCluster.prerequisites = [s_machine_learning, s_lingvistika],
       career_relevance = [s_NLP_Engineer, s_AI_Developer, s_Data_Scientist]\<rparr>),
    (s_computer_vision, \<lparr>CourseCluster.name = s_Kompyuternoe_zrenie,
       CourseCluster.courses = [],
       difficulty_level = s_advanced,
       CourseCluster.prerequisites = [s_machine_learning, s_lineynaya_algebra],
       career_relevance = [s_Computer_Vision_Engineer, s_AI_Developer, s_ML_Engineer]\<rparr>),
    (s_business_ai, \<lparr>CourseCluster.name = s_AI_v_biznese, CourseCluster.courses = [],
       difficulty_level = s_intermediate,
       CourseCluster.prerequisites = [s_ai_core, s_biznes_analitika],
       career_relevance = [s_AI_Product_Manager, s_Business_Analyst, s_Product_Manager]\<rparr>),
    (s_product_management, \<lparr>CourseCluster.name = s_Upravlenie_produktami,
       CourseCluster.courses = [],
       difficulty_level = s_intermediate,
       CourseCluster.prerequisites = [s_biznes_analitika, s_menedzhment],
       career_relevance = [s_Product_Manager, s_AI_Product_Manager, s_Business_Analyst]\<rparr>),
    (s_data_analytics, \<lparr>CourseCluster.name = s_Analiz_dannykh, CourseCluster.courses = [],
       difficulty_level = s_intermediate,
       CourseCluster.prerequisites = [s_statistika, s_programmirovanie],
       career_relevance = [s_Data_Analyst, s_Business_Analyst, s_Data_Scientist]\<rparr>)]"

definition skill_mapping :: "(str \<times> SkillInfo) list" where
  "skill_mapping = [
    (s_python, \<lparr>SkillInfo.courses = [s_programmirovanie, s_python, s_kod, s_razrabotka],
       weight = 2,
       career_paths = [s_ML_Engineer, s_Data_Scientist, s_AI_Developer]\<rparr>),
    (s_java, \<lparr>SkillInfo.courses = [s_java, s_dzhava, s_programmirovanie, s_kod],
       weight = 3 / 2,
       career_paths = [s_Software_Engineer, s_Backend_Developer]\<rparr>),
    (s_javascript, \<lparr>SkillInfo.courses = [s_javascript, s_js, s_veb, s_web, s_frontend],
       weight = 3 / 2,
       career_paths = [s_Frontend_Developer, s_Full_Stack_Developer]\<rparr>),
    (s_mathematics, \<lparr>SkillInfo.courses = [s_matematika, s_algebra, s_geometriya, s_analiz],
       weight = 2,
       career_paths = [s_ML_Engineer, s_Data_Scientist, s_AI_Researcher]\<rparr>),
    (s_statistics, \<lparr>SkillInfo.courses = [s_statistika, s_veroyatnost, s_analiz_dannykh],
       weight = 5 / 2,
       career_paths = [s_Data_Scientist, s_Data_Analyst, s_ML_Engineer]\<rparr>),
    (s_linear_algebra, \<lparr>SkillInfo.courses = [s_lineynaya_algebra, s_matritsy, s_vektory],
       weight = 2,
       career_paths = [s_ML_Engineer, s_Computer_Vision_Engineer, s_AI_Researcher]\<rparr>),
    (s_business, \<lparr>SkillInfo.courses = [s_biznes, s_menedzhment, s_upravlenie, s_strategiya],
       weight = 3 / 2,
       career_paths = [s_Product_Manager, s_AI_Product_Manager, s_Business_Analyst]\<rparr>),
    (s_product_management, \<lparr>SkillInfo.courses = [s_produkt, s_product,
       s_upravlenie_produktami],
       weight = 2,
       career_paths = [s_Product_Manager, s_AI_Product_Manager]\<rparr>),
    (s_research, \<lparr>SkillInfo.courses = [s_issledovanie, s_nauka, s_analiz, s_publikatsiya],
       weight = 3 / 2,
       career_paths = [s_AI_Researcher, s_Data_Scientist, s_ML_Engineer]\<rparr>),
    (s_general, \<lparr>SkillInfo.courses = [s_tekhnicheskoe, s_tekhnicheskiy, s_inzhener,
       s_inzhenernyy, s_razrabotka, s_razrabotchik, s_programmirovanie, s_kod],
       weight = 3 / 2,
       career_paths = [s_Software_Engineer, s_ML_Engineer, s_AI_Developer]\<rparr>),
    (s_c_plus_plus, \<lparr>SkillInfo.courses = [s_c_plus_plus, s_cpp, s_si_plyus_plyus,
       s_programmirovanie, s_kod, s_razrabotka],
       weight = 3 / 2,
       career_paths = [s_Software_Engineer, s_Backend_Developer, s_ML_Engineer]\<rparr>),
    (s_web, \<lparr>SkillInfo.courses = [s_veb, s_web, s_html, s_css, s_frontend, s_backend,
       s_fullstack],
       weight = 3 / 2,
       career_paths = [s_Frontend_Developer, s_Full_Stack_Developer, s_Web_Developer]\<rparr>),
    (s_mobile, \<lparr>SkillInfo.courses = [s_mobilnaya_razrabotka, s_android, s_ios,
       s_react_native, s_flutter],
       weight = 3 / 2,
       career_paths = [s_Mobile_Developer, s_App_Developer]\<rparr>),
    (s_blockchain, \<lparr>SkillInfo.courses = [s_blokcheyn, s_blockchain, s_kriptovalyuta,
       s_smart_kontrakt, s_defi],
       weight = 3 / 2,
       career_paths = [s_Blockchain_Developer, s_Smart_Contract_Developer]\<rparr>),
    (s_ai, \<lparr>SkillInfo.courses = [s_iskusstvennyy_intellekt, s_ai, s_mashinnoe_obuchenie,
       s_neyronnye_seti, s_data_science],
       weight = 2,
       career_paths = [s_ML_Engineer, s_AI_Developer, s_Data_Scientist]\<rparr>),
    (s_data, \<lparr>SkillInfo.courses = [s_dannye, s_data, s_analiz_dannykh, s_big_data,
       s_baza_dannykh],
       weight = 2,
       career_paths = [s_Data_Scientist, s_Data_Engineer, s_Data_Analyst]\<rparr>),
    (s_devops, \<lparr>SkillInfo.courses = [s_devops, s_infrastruktura, s_docker, s_kubernetes,
       s_ci_cd],
       weight = 3 / 2,
       career_paths = [s_DevOps_Engineer, s_Infrastructure_Engineer]\<rparr>)]"

definition programming_keywords :: "(str \<times> str list) list" where
  "programming_keywords = [
    (s_python, [s_python, s_piton, s_programmiruyu_na_python, s_znayu_python, s_rabotayu_s_python]),
    (s_java, [s_java, s_dzhava, s_programmiruyu_na_java, s_znayu_java, s_rabotayu_s_java]),
    (s_c_plus_plus, [s_c_plus_plus, s_cpp, s_si_plyus_plyus, s_programmiruyu_na_c_plus_plus,
       s_znayu_c_plus_plus]),
    (s_javascript, [s_javascript, s_js, s_dzhavaskript, s_programmiruyu_na_js, s_znayu_js]),
    (s_web, [s_veb, s_web, s_html, s_css, s_frontend, s_backend, s_fullstack, s_veb_razrabotka,
       s_delayu_sayty]),
    (s_mobile, [s_mobilnaya_razrabotka, s_android, s_ios, s_react_native, s_flutter,
       s_mobilnye_prilozheniya, s_razrabatyvayu_prilozheniya]),
    (s_blockchain, [s_blokcheyn, s_blockchain, s_kriptovalyuta, s_smart_kontrakt, s_defi]),
    (s_ai, [s_iskusstvennyy_intellekt, s_ai, s_mashinnoe_obuchenie, s_neyronnye_seti,
       s_data_science]),
    (s_data, [s_dannye, s_data, s_analiz_dannykh, s_big_data, s_baza_dannykh,
       s_rabotayu_s_dannymi]),
    (s_devops, [s_devops, s_infrastruktura, s_docker, s_kubernetes, s_ci_cd, s_razvertyvanie]),
    (s_general, [s_tekhnicheskoe, s_tekhnicheskiy, s_inzhener, s_inzhenernyy, s_razrabotka,
       s_razrabotchik, s_programmirovanie, s_kod, s_programmist])]"

definition math_keywords :: "(str \<times> str list) list" where
  "math_keywords = [
    (s_matematika, [s_matematika, s_matematicheskiy, s_algebra, s_geometriya, s_analiz,
       s_matematik, s_khorosho_znayu_matematiku, s_silen_v_matematike, s_lyublyu_matematiku]),
    (s_statistika, [s_statistika, s_statisticheskiy, s_veroyatnost, s_matematicheskaya_statistika,
       s_rabotayu_so_statistikoy, s_analiziruyu_dannye]),
    (s_lineynaya_algebra, [s_lineynaya_algebra, s_matritsy, s_vektory, s_lineynye_preobrazovaniya]),
    (s_matematicheskiy_analiz, [s_matematicheskiy_analiz, s_differentsialnye_uravneniya,
       s_integraly]),
    (s_diskretnaya_matematika, [s_diskretnaya_matematika, s_kombinatorika, s_teoriya_grafov]),
    (s_algoritmy, [s_algoritm, s_algoritmy, s_struktury_dannykh, s_slozhnost, s_optimizatsiya]),
    (s_logika, [s_logika, s_logicheskiy, s_teoriya_mnozhestv, s_matematicheskaya_logika])]"

definition business_keywords :: "(str \<times> str list) list" where
  "business_keywords = [
    (s_menedzhment, [s_menedzhment, s_upravlenie, s_biznes, s_predprinimatelstvo, s_menedzher,
       s_rukovozhu, s_upravlyayu_komandoy, s_rabotayu_v_menedzhmente]),
    (s_marketing, [s_marketing, s_reklama, s_prodvizhenie, s_prodazhi, s_marketolog,
       s_rabotayu_v_marketinge, s_zanimayus_prodvizheniem]),
    (s_ekonomika, [s_ekonomika, s_ekonomicheskiy, s_finansy, s_bukhgalteriya, s_ekonomist,
       s_rabotayu_s_finansami]),
    (s_proektnoe_upravlenie, [s_proektnoe_upravlenie, s_agile, s_scrum, s_kanban,
       s_project_manager, s_upravlyayu_proektami, s_rabotayu_po_agile]),
    (s_produkt, [s_produkt, s_product, s_produktovaya_analitika, s_product_manager,
       s_rabotayu_s_produktami, s_produktovyy_menedzher]),
    (s_strategiya, [s_strategiya, s_strategicheskiy, s_planirovanie, s_analiz_rynka,
       s_strategicheskoe_planirovanie])]"

definition education_keywords :: "(str \<times> str list) list" where
  "education_keywords = [
    (s_bakalavriat, [s_bakalavr, s_bakalavriat, s_vysshee_obrazovanie]),
    (s_magistratura, [s_magistr, s_magistratura]),
    (s_aspirantura, [s_aspirant, s_aspirantura, s_kandidat_nauk]),
    (s_tekhnicheskoe, [s_tekhnicheskoe_obrazovanie, s_tekhnicheskiy, s_inzhenernoe, s_inzhenernyy,
       s_tekhnicheskoe])]"

definition career_keywords :: "(str \<times> str list) list" where
  "career_keywords = [
    (s_ML_Engineer, [s_ml_engineer, s_mashinnoe_obuchenie, s_inzhener_ml, s_ml_razrabotchik]),
    (s_Data_Scientist, [s_data_scientist, s_uchenyy_po_dannym, s_analitik_dannykh]),
    (s_AI_Developer, [s_ai_developer, s_razrabotchik_ii, s_razrabotchik_ai]),
    (s_Product_Manager, [s_product_manager, s_produkt_menedzher, s_menedzher_produkta]),
    (s_AI_Product_Manager, [s_ai_product_manager, s_produkt_menedzher_ai]),
    (s_Business_Analyst, [s_business_analyst, s_biznes_analitik, s_analitik]),
    (s_AI_Researcher, [s_ai_researcher, s_issledovatel_ii, s_uchenyy_ii])]"

definition research_keywords :: "str list" where
  "research_keywords = [s_issledovanie, s_nauka, s_publikatsiya, s_konferentsiya, s_statya,
       s_laboratoriya]"

section \<open>Cluster assignment\<close>

text \<open>
  \<^verbatim>\<open>self.course_clusters\<close> is a dictionary from cluster key to cluster; the assignment
  mutates the course list of one of its values, so the dictionary is passed in and returned.
  \<^verbatim>\<open>self.course_clusters[key].courses.append(course)\<close> raises \<^verbatim>\<open>KeyError\<close> on a
  missing key.
\<close>

type_synonym clusters = "str \<Rightarrow> CourseCluster option"

definition append_course :: "str \<Rightarrow> Course \<Rightarrow> clusters \<Rightarrow> py_error + clusters" where
  "append_course key crs course_clusters =
     (case course_clusters key of
        None \<Rightarrow> Inl KeyError
      | Some cluster \<Rightarrow>
          Inr (course_clusters(key \<mapsto>
            cluster\<lparr>CourseCluster.courses := CourseCluster.courses cluster @ [crs]\<rparr>)))"

definition assign_course_to_cluster :: "case_map \<Rightarrow> Course \<Rightarrow> clusters \<Rightarrow> py_error + clusters" where
  "assign_course_to_cluster lower crs course_clusters =
     (let course_lower = lower (Course.name crs) in
      if any_in [s_vvedenie, s_osnovy, s_bazovye] course_lower then
        (if str_in s_iskusstvennyy_intellekt course_lower \<or> str_in s_ai course_lower then
           append_course s_ai_core crs course_clusters
         else if str_in s_produkt course_lower \<or> str_in s_menedzhment course_lower then
           append_course s_product_management crs course_clusters
         else if str_in s_analiz course_lower \<or> str_in s_dannye course_lower then
           append_course s_data_analytics crs course_clusters
         else Inr course_clusters)
      else if any_in [s_mashinnoe_obuchenie, s_ml, s_machine_learning_en] course_lower then
        append_course s_machine_learning crs course_clusters
      else if any_in [s_glubokoe_obuchenie, s_deep_learning_en, s_neyronnye_seti] course_lower then
        append_course s_deep_learning crs course_clusters
      else if any_in [s_estestvennyy_yazyk, s_nlp, s_tekst] course_lower then
        append_course s_nlp crs course_clusters
      else if any_in [s_zrenie, s_vision, s_izobrazheniya] course_lower then
        append_course s_computer_vision crs course_clusters
      else if any_in [s_biznes, s_predprinimatelstvo, s_strategiya] course_lower then
        (if str_in s_ai course_lower \<or> str_in s_iskusstvennyy_intellekt course_lower then
           append_course s_business_ai crs course_clusters
         else append_course s_product_management crs course_clusters)
      else if any_in [s_analiz, s_dannye, s_statistika] course_lower then
        append_course s_data_analytics crs course_clusters
      else Inr course_clusters)"

text \<open>The two nested loops of \<^verbatim>\<open>_build_course_clusters\<close> over the courses of all programs.\<close>

fun assign_courses :: "case_map \<Rightarrow> Course list \<Rightarrow> clusters \<Rightarrow> py_error + clusters" where
  "assign_courses lower [] course_clusters = Inr course_clusters"
| "assign_courses lower (crs # rest) course_clusters =
     (case assign_course_to_cluster lower crs course_clusters of
        Inl e \<Rightarrow> Inl e
      | Inr course_clusters' \<Rightarrow> assign_courses lower rest course_clusters')"

definition build_course_clusters :: "case_map \<Rightarrow> Program list \<Rightarrow> py_error + clusters" where
  "build_course_clusters lower programs =
     assign_courses lower (concat (map Program.courses programs)) (map_of initial_course_clusters)"

text \<open>The keys of the cluster catalog.\<close>

definition cluster_keys :: "str list" where
  "cluster_keys = map fst initial_course_clusters"

text \<open>
  The order of the keyword groups as the specification words it: introductory, machine
  learning, deep learning, NLP, vision, business, analytics; the first group with a keyword in
  the lower-cased name decides. Within the introductory group and the business group a second
  test on the name picks the cluster; the introductory group has no default.
\<close>

datatype keyword_group =
  Introductory | MachineLearning | DeepLearning | NLP | Vision | Business | Analytics

definition group_order :: "keyword_group list" where
  "group_order = [Introductory, MachineLearning, DeepLearning, NLP, Vision, Business, Analytics]"

fun group_keywords :: "keyword_group \<Rightarrow> str list" where
  "group_keywords Introductory = [s_vvedenie, s_osnovy, s_bazovye]"
| "group_keywords MachineLearning = [s_mashinnoe_obuchenie, s_ml, s_machine_learning_en]"
| "group_keywords DeepLearning = [s_glubokoe_obuchenie, s_deep_learning_en, s_neyronnye_seti]"
| "group_keywords NLP = [s_estestvennyy_yazyk, s_nlp, s_tekst]"
| "group_keywords Vision = [s_zrenie, s_vision, s_izobrazheniya]"
| "group_keywords Business = [s_biznes, s_predprinimatelstvo, s_strategiya]"
| "group_keywords Analytics = [s_analiz, s_dannye, s_statistika]"

definition first_matching_group :: "str \<Rightarrow> keyword_group option" where
  "first_matching_group course_lower =
     find (\<lambda>g. any_in (group_keywords g) course_lower) group_order"

fun group_cluster :: "keyword_group \<Rightarrow> str \<Rightarrow> str option" where
  "group_cluster Introductory course_lower =
     (if str_in s_iskusstvennyy_intellekt course_lower \<or> str_in s_ai course_lower
        then Some s_ai_core
      else if str_in s_produkt course_lower \<or> str_in s_menedzhment course_lower
        then Some s_product_management
      else if str_in s_analiz course_lower \<or> str_in s_dannye course_lower
        then Some s_data_analytics
      else None)"
| "group_cluster MachineLearning course_lower = Some s_machine_learning"
| "group_cluster DeepLearning course_lower = Some s_deep_learning"
| "group_cluster NLP course_lower = Some s_nlp"
| "group_cluster Vision course_lower = Some s_computer_vision"
| "group_cluster Business course_lower =
     (if str_in s_ai course_lower \<or> str_in s_iskusstvennyy_intellekt course_lower
        then Some s_business_ai
      else Some s_product_management)"
| "group_cluster Analytics course_lower = Some s_data_analytics"

definition first_match_cluster :: "case_map \<Rightarrow> Course \<Rightarrow> str option" where
  "first_match_cluster lower crs =
     (let course_lower = lower (Course.name crs) in
      case first_matching_group course_lower of
        None \<Rightarrow> None
      | Some g \<Rightarrow> group_cluster g course_lower)"

section \<open>Profile extraction\<close>

text \<open>
  \<^verbatim>\<open>_analyze_background\<close>. Each \<^verbatim>\<open>for ... in table.items(): if ...: tags.append(tag)\<close>
  loop keeps the tags of the table, in table order, whose keyword list has a match.
\<close>

definition negations :: "str list" where
  "negations = [s_ne_znayu, s_ne_umeyu, s_ne_ponimayu, s_ne_vladeyu, s_ne_programmiruyu]"

definition matching_tags :: "(str \<times> str list) list \<Rightarrow> str \<Rightarrow> str list" where
  "matching_tags table background_lower =
     map fst (filter (\<lambda>(tag, keywords). any_in keywords background_lower) table)"

definition analyze_background :: "case_map \<Rightarrow> str \<Rightarrow> BackgroundProfile" where
  "analyze_background lower background =
     (let background_lower = lower background in
      \<lparr>programming_skills =
         map fst (filter (\<lambda>(skill, keywords).
             any_in keywords background_lower \<and> \<not> any_in negations background_lower)
           programming_keywords),
       math_skills = matching_tags math_keywords background_lower,
       business_skills = matching_tags business_keywords background_lower,
       research_interests =
         filter (\<lambda>keyword. str_in keyword background_lower) research_keywords,
       work_experience =
         (if any_in [s_rabotayu, s_rabotal, s_opyt_raboty, s_stazh, s_programmist,
               s_razrabotchik, s_inzhener, s_analitik, s_menedzher, s_spetsialist,
               s_opyt_v_razrabotke, s_opyt_razrabotki, s_opyt, s_razrabotka, s_kod,
               s_programmirovanie] background_lower
          then s_est_opyt else s_net_opyta),
       education_level =
         (case find (\<lambda>(level, keywords). any_in keywords background_lower) education_keywords of
            None \<Rightarrow> s_bakalavriat
          | Some (level, keywords) \<Rightarrow> level),
       career_goals = matching_tags career_keywords background_lower,
       learning_preferences =
         (if any_in [s_praktika, s_proekty, s_realnye_zadachi] background_lower
            then [s_praktiko_orientirovannoe] else [])
         @ (if any_in [s_teoriya, s_nauka, s_issledovanie] background_lower
            then [s_teoreticheskoe] else [])
         @ (if any_in [s_gruppa, s_komanda, s_sovmestno] background_lower
            then [s_gruppovoe] else [])
         @ (if any_in [s_individualno, s_samostoyatelno] background_lower
            then [s_individualnoe] else []),
       time_availability =
         (if any_in [s_polnyy_den, s_ochnaya, s_dnevnaya] background_lower then s_polnyy_den
          else if any_in [s_vechernyaya, s_zaochnaya, s_chastichnaya] background_lower
            then s_chastichnaya
          else s_standartnaya)\<rparr>)"

section \<open>Program-level recommendations\<close>

text \<open>
  \<^verbatim>\<open>get_course_recommendations\<close>: the archetype (\<^verbatim>\<open>user_type\<close>) of the profile, then one
  pass over the programs of the catalog that appends a line for a program of the AI topic or
  of the product topic. The two counters \<^verbatim>\<open>ai_score\<close> and \<^verbatim>\<open>product_score\<close> of the
  source are written and never read; they are left out.
\<close>

definition user_type_of :: "BackgroundProfile \<Rightarrow> str" where
  "user_type_of profile =
     (if programming_skills profile \<noteq> [] then
        (if s_python \<in> set (programming_skills profile) then s_python_dev
         else if s_java \<in> set (programming_skills profile) then s_java_dev
         else s_tech_dev)
      else if math_skills profile \<noteq> [] then s_math_background
      else if business_skills profile \<noteq> [] then s_business_background
      else s_beginner)"

definition verdict_line :: "case_map \<Rightarrow> str \<Rightarrow> Program \<Rightarrow> str" where
  "verdict_line lower user_type program =
     (let program_name = lower (Program.name program) in
      if str_in s_iskusstvennyy_intellekt program_name
         \<or> (str_in s_ai program_name \<and> \<not> str_in s_product program_name) then
        (if user_type = s_python_dev then
           msg_target @ Program.name program @ verdict_ai_python
         else if user_type = s_java_dev then
           msg_target @ Program.name program @ verdict_ai_java
         else if user_type = s_tech_dev then
           msg_target @ Program.name program @ verdict_ai_tech
         else if user_type = s_math_background then
           msg_target @ Program.name program @ verdict_ai_math
         else if user_type = s_business_background then
           msg_target @ Program.name program @ verdict_consider
         else msg_target @ Program.name program @ verdict_start)
      else if str_in s_produkt program_name \<or> str_in s_product program_name then
        (if user_type = s_business_background then
           msg_target @ Program.name program @ verdict_product_business
         else if user_type = s_tech_dev then
           msg_target @ Program.name program @ verdict_product_tech
         else if user_type = s_python_dev \<or> user_type = s_java_dev then
           msg_target @ Program.name program @ verdict_product_prog
         else if user_type = s_math_background then
           msg_target @ Program.name program @ verdict_consider
         else msg_target @ Program.name program @ verdict_start)
      else [])"

definition get_course_recommendations :: "case_map \<Rightarrow> Program list \<Rightarrow> str \<Rightarrow> str" where
  "get_course_recommendations lower programs background =
     (let profile = analyze_background lower background;
          user_type = user_type_of profile
      in foldl (\<lambda>recommendations program. recommendations @ verdict_line lower user_type program)
           msg_header programs)"

text \<open>
  The verdict lines of a report, program by program: what the loop appended for the programs
  it appended something for.
\<close>

definition verdict_lines :: "case_map \<Rightarrow> Program list \<Rightarrow> str \<Rightarrow> str list" where
  "verdict_lines lower programs background =
     filter (\<lambda>line. line \<noteq> [])
       (map (verdict_line lower (user_type_of (analyze_background lower background))) programs)"

definition has_topic :: "case_map \<Rightarrow> Program \<Rightarrow> bool" where
  "has_topic lower program =
     (let program_name = lower (Program.name program) in
      str_in s_iskusstvennyy_intellekt program_name
      \<or> (str_in s_ai program_name \<and> \<not> str_in s_product program_name)
      \<or> str_in s_produkt program_name \<or> str_in s_product program_name)"

text \<open>The nine endings a verdict line can have (best choice, good fit, possible).\<close>

definition verdict_tails :: "str list" where
  "verdict_tails =
     [verdict_ai_python, verdict_ai_java, verdict_ai_tech, verdict_ai_math, verdict_consider,
      verdict_start, verdict_product_business, verdict_product_tech, verdict_product_prog]"

section \<open>Course scoring\<close>

definition HIGH_SCORE_THRESHOLD :: real where "HIGH_SCORE_THRESHOLD = 7"
definition MEDIUM_SCORE_THRESHOLD :: real where "MEDIUM_SCORE_THRESHOLD = 4"
definition LOW_SCORE_THRESHOLD :: real where "LOW_SCORE_THRESHOLD = 2"

text \<open>
  The three locals \<^verbatim>\<open>score\<close>, \<^verbatim>\<open>compatibility_score\<close> and \<^verbatim>\<open>reasons\<close> that
  \<^verbatim>\<open>_evaluate_course_intelligently\<close> updates step by step.
\<close>

record Scoring =
  acc_score :: real
  acc_compatibility_score :: real
  acc_reasons :: "str list"

definition add_skill_match :: "real \<Rightarrow> str \<Rightarrow> Scoring \<Rightarrow> Scoring" where
  "add_skill_match w skill st =
     st\<lparr>acc_score := acc_score st + w,
        acc_compatibility_score := acc_compatibility_score st + w,
        acc_reasons := acc_reasons st @ [reason_skill_prefix @ skill]\<rparr>"

definition add_bonus :: "real \<Rightarrow> str \<Rightarrow> Scoring \<Rightarrow> Scoring" where
  "add_bonus w why st =
     st\<lparr>acc_score := acc_score st + w, acc_reasons := acc_reasons st @ [why]\<rparr>"

text \<open>
  The loop over the skills of one category, run three times in the source with another skill
  list and another list of generic keywords. Both matches end the loop (\<^verbatim>\<open>break\<close>).
\<close>

fun skill_loop :: "str list \<Rightarrow> str \<Rightarrow> str list \<Rightarrow> Scoring \<Rightarrow> Scoring" where
  "skill_loop generic_keywords course_lower [] st = st"
| "skill_loop generic_keywords course_lower (skill # skills) st =
     (case map_of skill_mapping skill of
        Some skill_info \<Rightarrow>
          (if any_in (SkillInfo.courses skill_info) course_lower then
             add_skill_match (weight skill_info) skill st
           else if any_in generic_keywords course_lower then add_skill_match 2 skill st
           else skill_loop generic_keywords course_lower skills st)
      | None \<Rightarrow>
          (if any_in generic_keywords course_lower then add_skill_match 2 skill st
           else skill_loop generic_keywords course_lower skills st))"

text \<open>
  The loop over the career goals; the inner loop over the skill map stops at the first entry
  that lists the lower-cased goal among its career paths and has a keyword in the course name.
\<close>

fun career_loop :: "case_map \<Rightarrow> str \<Rightarrow> str list \<Rightarrow> Scoring \<Rightarrow> Scoring" where
  "career_loop lower course_lower [] st = st"
| "career_loop lower course_lower (goal # goals) st =
     career_loop lower course_lower goals
       (if list_ex (\<lambda>(skill_name, skill_info).
               lower goal \<in> set (career_paths skill_info)
               \<and> any_in (SkillInfo.courses skill_info) course_lower) skill_mapping
        then add_bonus (3 / 2) (reason_goal_prefix @ goal) st
        else st)"

definition assess_course_difficulty :: "case_map \<Rightarrow> Course \<Rightarrow> BackgroundProfile \<Rightarrow> real" where
  "assess_course_difficulty lower crs profile =
     (let course_lower = lower (Course.name crs);
          base_difficulty =
            (if any_in [s_vvedenie, s_osnovy, s_bazovye] course_lower then 1
             else if any_in [s_prodvinutyy, s_uglublennyy, s_spetsialnye] course_lower then 3
             else 2);
          d0 = (0 :: real);
          d1 = (if programming_skills profile \<noteq> []
                  \<and> any_in [s_programmirovanie, s_kod, s_razrabotka] course_lower
                then d0 - 1 else d0);
          d2 = (if math_skills profile \<noteq> []
                  \<and> any_in [s_matematika, s_algebra, s_statistika] course_lower
                then d1 - 1 else d1);
          difficulty_score =
               (if business_skills profile \<noteq> []
                  \<and> any_in [s_biznes, s_menedzhment, s_upravlenie] course_lower
                then d2 - 1 else d2)
      in base_difficulty + difficulty_score)"

definition determine_learning_path :: "Course \<Rightarrow> BackgroundProfile \<Rightarrow> Program \<Rightarrow> str" where
  "determine_learning_path crs profile program =
     (if semester crs = 1 then path_first
      else if semester crs = 2 then path_second
      else if semester crs = 3 then path_third
      else if semester crs = 4 then path_fourth
      else path_any)"

text \<open>The loop over the career goals in \<^verbatim>\<open>_generate_concrete_recommendation_reason\<close>.\<close>

fun goal_advice :: "case_map \<Rightarrow> str \<Rightarrow> str list \<Rightarrow> str option" where
  "goal_advice lower course_lower [] = None"
| "goal_advice lower course_lower (goal # goals) =
     (if (str_in s_ml_engineer (lower goal) \<or> str_in s_ai_developer (lower goal))
         \<and> (str_in s_mashinnoe_obuchenie course_lower \<or> str_in s_neyronnye_seti course_lower)
        then Some advice_goal_ml
      else if (str_in s_ml_engineer (lower goal) \<or> str_in s_ai_developer (lower goal))
         \<and> str_in s_algoritm course_lower
        then Some advice_goal_ml_algo
      else if str_in s_data_scientist (lower goal)
         \<and> (str_in s_statistika course_lower \<or> str_in s_analiz course_lower)
        then Some advice_goal_ds_stat
      else if str_in s_data_scientist (lower goal) \<and> str_in s_mashinnoe_obuchenie course_lower
        then Some advice_goal_ds_ml
      else if str_in s_product_manager (lower goal)
         \<and> (str_in s_produkt course_lower \<or> str_in s_menedzhment course_lower)
        then Some advice_goal_pm
      else if str_in s_product_manager (lower goal) \<and> str_in s_biznes course_lower
        then Some advice_goal_pm_business
      else goal_advice lower course_lower goals)"

text \<open>
  The third parameter is called \<^verbatim>\<open>compatibility_score\<close> in the source; the caller
  passes the score. Every branch of the source returns, so the chain of \<^verbatim>\<open>if\<close>/\<^verbatim>\<open>elif\<close> blocks is one
  chain of alternatives in the order they are written. \<^verbatim>\<open>profile.programming_skills[0]\<close>
  and \<^verbatim>\<open>profile.math_skills[0]\<close> are read only where the list is not empty.
\<close>

definition generate_concrete_recommendation_reason ::
    "case_map \<Rightarrow> Course \<Rightarrow> BackgroundProfile \<Rightarrow> real \<Rightarrow> str" where
  "generate_concrete_recommendation_reason lower crs profile level =
     (let course_lower = lower (Course.name crs) in
      if programming_skills profile \<noteq> [] \<and> s_python \<in> set (programming_skills profile)
         \<and> (str_in s_mashinnoe_obuchenie course_lower \<or> str_in s_neyronnye_seti course_lower)
        then advice_python_ml
      else if programming_skills profile \<noteq> [] \<and> s_python \<in> set (programming_skills profile)
         \<and> (str_in s_obrabotka course_lower \<or> str_in s_zrenie course_lower)
        then advice_python_ai
      else if programming_skills profile \<noteq> [] \<and> s_python \<in> set (programming_skills profile)
         \<and> str_in s_algoritm course_lower
        then advice_python_algo
      else if programming_skills profile \<noteq> [] \<and> s_java \<in> set (programming_skills profile)
         \<and> str_in s_mashinnoe_obuchenie course_lower
        then advice_java_ml
      else if programming_skills profile \<noteq> [] \<and> s_java \<in> set (programming_skills profile)
         \<and> str_in s_algoritm course_lower
        then advice_java_algo
      else if math_skills profile \<noteq> [] \<and> s_matematika \<in> set (math_skills profile)
         \<and> (str_in s_mashinnoe_obuchenie course_lower \<or> str_in s_neyronnye_seti course_lower)
        then advice_math_ml
      else if math_skills profile \<noteq> [] \<and> s_matematika \<in> set (math_skills profile)
         \<and> str_in s_statistika course_lower
        then advice_math_stat
      else if math_skills profile \<noteq> [] \<and> s_matematika \<in> set (math_skills profile)
         \<and> str_in s_optimizatsiya course_lower
        then advice_math_opt
      else if business_skills profile \<noteq> [] \<and> s_menedzhment \<in> set (business_skills profile)
         \<and> (str_in s_produkt course_lower \<or> str_in s_proekt course_lower)
        then advice_manager_project
      else if business_skills profile \<noteq> [] \<and> s_menedzhment \<in> set (business_skills profile)
         \<and> str_in s_biznes course_lower
        then advice_manager_business
      else
        (case goal_advice lower course_lower (career_goals profile) of
           Some advice \<Rightarrow> advice
         | None \<Rightarrow>
            (if work_experience profile = s_est_opyt
                \<and> (str_in s_praktika course_lower \<or> str_in s_proekt course_lower)
               then advice_experience_practice
             else if work_experience profile = s_est_opyt \<and> str_in s_realnyy course_lower
               then advice_experience_real
             else if education_level profile = s_magistratura
                \<and> (str_in s_prodvinutyy course_lower \<or> str_in s_uglublennyy course_lower)
               then advice_master
             else if level \<ge> MEDIUM_SCORE_THRESHOLD then
               (case programming_skills profile of
                  skill # others \<Rightarrow> advice_fit_prog_prefix @ skill @ advice_fit_prog_suffix
                | [] \<Rightarrow>
                   (case math_skills profile of
                      skill # others \<Rightarrow> advice_fit_math_prefix @ skill @ advice_fit_math_suffix
                    | [] \<Rightarrow> advice_fit))
             else if level \<ge> LOW_SCORE_THRESHOLD then
               (if work_experience profile = s_est_opyt then advice_broaden_experience
                else advice_broaden)
             else advice_hard)))"

text \<open>
  The three lists of course keywords that the skill loops test beside the skill map (the
  literals at lines 760, 799 and 834 of the source).
\<close>

definition programming_course_keywords :: "str list" where
  "programming_course_keywords =
     [s_programmirovanie, s_kod, s_razrabotka, s_algoritm, s_python, s_java, s_javascript,
      s_ai, s_data, s_blockchain, s_mashinnoe_obuchenie, s_glubokoe_obuchenie,
      s_neyronnye_seti, s_obrabotka, s_zrenie, s_analiz]"

definition math_course_keywords :: "str list" where
  "math_course_keywords =
     [s_matematika, s_statistika, s_analiz, s_algoritm, s_algebra, s_geometriya,
      s_mashinnoe_obuchenie, s_glubokoe_obuchenie, s_neyronnye_seti, s_obrabotka, s_zrenie,
      s_veroyatnosti]"

definition business_course_keywords :: "str list" where
  "business_course_keywords =
     [s_menedzhment, s_biznes, s_produkt, s_proekt, s_upravlenie, s_strategiya]"

text \<open>
  The score and the other two locals as they stand after the difficulty term has been added
  (line 882 of the source), before the priority and the zero check.
\<close>

definition accumulate_score :: "case_map \<Rightarrow> Course \<Rightarrow> BackgroundProfile \<Rightarrow> Scoring" where
  "accumulate_score lower crs profile =
     (let course_lower = lower (Course.name crs);
          st0 = \<lparr>acc_score = 0, acc_compatibility_score = 0, acc_reasons = []\<rparr>;
          st1 = skill_loop programming_course_keywords course_lower
                  (programming_skills profile) st0;
          st2 = skill_loop math_course_keywords course_lower (math_skills profile) st1;
          st3 = skill_loop business_course_keywords course_lower (business_skills profile) st2;
          st4 = career_loop lower course_lower (career_goals profile) st3;
          st5 = (if research_interests profile \<noteq> []
                   \<and> any_in [s_issledovanie, s_nauka, s_analiz] course_lower
                 then add_bonus (3 / 2) reason_research st4 else st4);
          st6 = (if work_experience profile = s_est_opyt
                   \<and> any_in [s_praktika, s_proekt, s_realnyy] course_lower
                 then add_bonus 1 reason_experience st5 else st5);
          st7 = (if education_level profile \<in> set [s_magistratura, s_aspirantura]
                   \<and> any_in [s_prodvinutyy, s_uglublennyy, s_issledovanie] course_lower
                 then add_bonus 1 reason_education st6 else st6)
      in st7\<lparr>acc_score := acc_score st7 + assess_course_difficulty lower crs profile\<rparr>)"

definition priority_tier :: "real \<Rightarrow> str" where
  "priority_tier s =
     (if s \<ge> HIGH_SCORE_THRESHOLD then s_high
      else if s \<ge> MEDIUM_SCORE_THRESHOLD then s_medium
      else s_low)"

definition apply_floor :: "Scoring \<Rightarrow> Scoring" where
  "apply_floor st =
     (if acc_score st = 0
      then st\<lparr>acc_score := 1, acc_reasons := acc_reasons st @ [reason_baseline]\<rparr>
      else st)"

definition evaluate_course_intelligently ::
    "case_map \<Rightarrow> Course \<Rightarrow> BackgroundProfile \<Rightarrow> Program \<Rightarrow> Recommendation" where
  "evaluate_course_intelligently lower crs profile program =
     (let st = accumulate_score lower crs profile;
          priority = priority_tier (acc_score st);
          st' = apply_floor st;
          reason = generate_concrete_recommendation_reason lower crs profile (acc_score st');
          learning_path = determine_learning_path crs profile program
      in \<lparr>course = crs,
          score = min (acc_score st') 10,
          reason = reason,
          priority = priority,
          compatibility_score = min (acc_compatibility_score st') 10,
          learning_path = learning_path\<rparr>)"

section \<open>Program lookup and the detail report\<close>

text \<open>
  The test of \<^verbatim>\<open>_find_program_by_name\<close>:
  \<^verbatim>\<open>program_name_lower in program.name.lower()\<close>.
\<close>

definition name_matches :: "case_map \<Rightarrow> str \<Rightarrow> Program \<Rightarrow> bool" where
  "name_matches lower program_name program =
     str_in (lower program_name) (lower (Program.name program))"

fun find_program_by_name :: "case_map \<Rightarrow> Program list \<Rightarrow> str \<Rightarrow> Program option" where
  "find_program_by_name lower [] program_name = None"
| "find_program_by_name lower (program # rest) program_name =
     (if name_matches lower program_name program then Some program
      else find_program_by_name lower rest program_name)"

text \<open>
  \<^verbatim>\<open>get_detailed_program_info\<close>: the courses grouped by semester (semesters in increasing
  order), within a semester by course type (types in the order they first occur), within a
  type in catalog order. An instance of the dataclass \<open>Program\<close> is always true, so
  \<^verbatim>\<open>not program\<close> holds exactly for \<^verbatim>\<open>None\<close>.
\<close>

definition course_line :: "Course \<Rightarrow> str" where
  "course_line crs =
     msg_bullet @ Course.name crs @ msg_paren_open @ str_of_int (credits crs)
       @ msg_credits_close"

definition type_block :: "case_map \<Rightarrow> Course list \<Rightarrow> str \<Rightarrow> str" where
  "type_block title semester_courses ctype =
     msg_type_indent @ title ctype @ msg_colon_nl
       @ concat (map course_line (filter (\<lambda>crs. course_type crs = ctype) semester_courses))"

definition semester_block :: "case_map \<Rightarrow> Course list \<Rightarrow> int \<Rightarrow> str" where
  "semester_block title program_courses sem =
     (let semester_courses = filter (\<lambda>crs. semester crs = sem) program_courses in
      msg_calendar @ str_of_int sem @ msg_semester_open
        @ str_of_nat (length semester_courses) @ msg_courses_close
        @ concat (map (type_block title semester_courses)
                    (first_seen (map course_type semester_courses)))
        @ s_nl)"

definition program_report :: "case_map \<Rightarrow> Program \<Rightarrow> str" where
  "program_report title program =
     msg_target @ Program.name program @ s_nl
       @ msg_institute @ institute program @ s_nl
       @ msg_description @ take 200 (Program.description program) @ msg_ellipsis
       @ concat (map (semester_block title (Program.courses program))
                   (sort (first_seen (map semester (Program.courses program)))))"

definition get_detailed_program_info :: "case_map \<Rightarrow> case_map \<Rightarrow> Program list \<Rightarrow> str \<Rightarrow> str" where
  "get_detailed_program_info lower title programs program_name =
     (case find_program_by_name lower programs program_name of
        None \<Rightarrow> msg_not_found
      | Some program \<Rightarrow> program_report title program)"

section \<open>Courses without any keyword\<close>

text \<open>
  A course whose lower-cased name has no keyword of the skill map, none of the three lists of
  course keywords, no research, practice or advanced term and no difficulty keyword.
\<close>

definition matches_no_keyword :: "case_map \<Rightarrow> Course \<Rightarrow> bool" where
  "matches_no_keyword lower crs =
     (let course_lower = lower (Course.name crs) in
      \<not> list_ex (\<lambda>(skill_name, skill_info). any_in (SkillInfo.courses skill_info) course_lower)
          skill_mapping
      \<and> \<not> any_in programming_course_keywords course_lower
      \<and> \<not> any_in math_course_keywords course_lower
      \<and> \<not> any_in business_course_keywords course_lower
      \<and> \<not> any_in [s_issledovanie, s_nauka, s_analiz] course_lower
      \<and> \<not> any_in [s_praktika, s_proekt, s_realnyy] course_lower
      \<and> \<not> any_in [s_prodvinutyy, s_uglublennyy, s_issledovanie] course_lower
      \<and> \<not> any_in [s_vvedenie, s_osnovy, s_bazovye] course_lower
      \<and> \<not> any_in [s_prodvinutyy, s_uglublennyy, s_spetsialnye] course_lower)"

section \<open>Concrete inputs\<close>

text \<open>
  The catalog of \<^verbatim>\<open>test_analyzer\<close> at the end of the source (two programs over the same
  eleven courses), and the texts and courses of the scenarios. All of them are written in
  ASCII and Cyrillic.
\<close>

definition type_required :: str where \<comment> \<open>obyazatelnaya\<close>
  "type_required =
     [1086, 1073, 1103, 1079, 1072, 1090, 1077, 1083, 1100, 1085, 1072, 1103]"

definition type_elective :: str where \<comment> \<open>vybornaya\<close>
  "type_elective =
     [1074, 1099, 1073, 1086, 1088, 1085, 1072, 1103]"

definition type_optional :: str where \<comment> \<open>fakultativnaya\<close>
  "type_optional =
     [1092, 1072, 1082, 1091, 1083, 1100, 1090, 1072, 1090, 1080, 1074, 1085, 1072, 1103]"

definition test_ml_name :: str where \<comment> \<open>Mashinnoe obuchenie\<close>
  "test_ml_name =
     [1052, 1072, 1096, 1080, 1085, 1085, 1086, 1077, 32, 1086, 1073, 1091, 1095, 1077, 1085,
     1080, 1077]"

definition test_ml :: Course where
  "test_ml =
     \<lparr>Course.name = test_ml_name, credits = 6, semester = 1, course_type = type_required,
      Course.description = None, Course.prerequisites = None\<rparr>"

definition test_deep_learning_name :: str where \<comment> \<open>Glubokoe obuchenie\<close>
  "test_deep_learning_name =
     [1043, 1083, 1091, 1073, 1086, 1082, 1086, 1077, 32, 1086, 1073, 1091, 1095, 1077, 1085,
     1080, 1077]"

definition test_deep_learning :: Course where
  "test_deep_learning =
     \<lparr>Course.name = test_deep_learning_name, credits = 6, semester = 2, course_type = type_required,
      Course.description = None, Course.prerequisites = None\<rparr>"

definition test_nlp_name :: str where \<comment> \<open>Obrabotka estestvennogo yazyka\<close>
  "test_nlp_name =
     [1054, 1073, 1088, 1072, 1073, 1086, 1090, 1082, 1072, 32, 1077, 1089, 1090, 1077, 1089,
     1090, 1074, 1077, 1085, 1085, 1086, 1075, 1086, 32, 1103, 1079, 1099, 1082, 1072]"

definition test_nlp :: Course where
  "test_nlp =
     \<lparr>Course.name = test_nlp_name, credits = 4, semester = 2, course_type = type_elective,
      Course.description = None, Course.prerequisites = None\<rparr>"

definition test_vision_name :: str where \<comment> \<open>Kompyuternoe zrenie\<close>
  "test_vision_name =
     [1050, 1086, 1084, 1087, 1100, 1102, 1090, 1077, 1088, 1085, 1086, 1077, 32, 1079, 1088,
     1077, 1085, 1080, 1077]"

definition test_vision :: Course where
  "test_vision =
     \<lparr>Course.name = test_vision_name, credits = 4, semester = 2, course_type = type_elective,
      Course.description = None, Course.prerequisites = None\<rparr>"

definition test_data_analysis_name :: str where \<comment> \<open>Analiz dannykh\<close>
  "test_data_analysis_name =
     [1040, 1085, 1072, 1083, 1080, 1079, 32, 1076, 1072, 1085, 1085, 1099, 1093]"

definition test_data_analysis :: Course where
  "test_data_analysis =
     \<lparr>Course.name = test_data_analysis_name, credits = 4, semester = 1, course_type = type_required,
      Course.description = None, Course.prerequisites = None\<rparr>"

definition test_statistics_name :: str where \<comment> \<open>Statistika i veroyatnosti\<close>
  "test_statistics_name =
     [1057, 1090, 1072, 1090, 1080, 1089, 1090, 1080, 1082, 1072, 32, 1080, 32, 1074, 1077, 1088,
     1086, 1103, 1090, 1085, 1086, 1089, 1090, 1080]"

definition test_statistics :: Course where
  "test_statistics =
     \<lparr>Course.name = test_statistics_name, credits = 4, semester = 1, course_type = type_required,
      Course.description = None, Course.prerequisites = None\<rparr>"

definition test_python_name :: str where \<comment> \<open>Programmirovanie na Python\<close>
  "test_python_name =
     [1055, 1088, 1086, 1075, 1088, 1072, 1084, 1084, 1080, 1088, 1086, 1074, 1072, 1085, 1080,
     1077, 32, 1085, 1072, 32, 80, 121, 116, 104, 111, 110]"

definition test_python :: Course where
  "test_python =
     \<lparr>Course.name = test_python_name, credits = 4, semester = 1, course_type = type_required,
      Course.description = None, Course.prerequisites = None\<rparr>"

definition test_neural_networks_name :: str where \<comment> \<open>Neyronnye seti\<close>
  "test_neural_networks_name =
     [1053, 1077, 1081, 1088, 1086, 1085, 1085, 1099, 1077, 32, 1089, 1077, 1090, 1080]"

definition test_neural_networks :: Course where
  "test_neural_networks =
     \<lparr>Course.name = test_neural_networks_name, credits = 6, semester = 2, course_type = type_required,
      Course.description = None, Course.prerequisites = None\<rparr>"

definition test_ethics_name :: str where \<comment> \<open>Etika II\<close>
  "test_ethics_name =
     [1069, 1090, 1080, 1082, 1072, 32, 1048, 1048]"

definition test_ethics :: Course where
  "test_ethics =
     \<lparr>Course.name = test_ethics_name, credits = 2, semester = 3, course_type = type_optional,
      Course.description = None, Course.prerequisites = None\<rparr>"

definition test_project_name :: str where \<comment> \<open>Proektnaya rabota\<close>
  "test_project_name =
     [1055, 1088, 1086, 1077, 1082, 1090, 1085, 1072, 1103, 32, 1088, 1072, 1073, 1086, 1090,
     1072]"

definition test_project :: Course where
  "test_project =
     \<lparr>Course.name = test_project_name, credits = 8, semester = 3, course_type = type_required,
      Course.description = None, Course.prerequisites = None\<rparr>"

definition test_thesis_name :: str where \<comment> \<open>Magisterskaya dissertatsiya\<close>
  "test_thesis_name =
     [1052, 1072, 1075, 1080, 1089, 1090, 1077, 1088, 1089, 1082, 1072, 1103, 32, 1076, 1080,
     1089, 1089, 1077, 1088, 1090, 1072, 1094, 1080, 1103]"

definition test_thesis :: Course where
  "test_thesis =
     \<lparr>Course.name = test_thesis_name, credits = 12, semester = 4, course_type = type_required,
      Course.description = None, Course.prerequisites = None\<rparr>"

definition test_courses :: "Course list" where
  "test_courses =
     [test_ml, test_deep_learning, test_nlp, test_vision, test_data_analysis,
      test_statistics, test_python, test_neural_networks, test_ethics, test_project,
      test_thesis]"

definition test_institute :: str where \<comment> \<open>Institut prikladnykh kompyuternykh nauk\<close>
  "test_institute =
     [1048, 1085, 1089, 1090, 1080, 1090, 1091, 1090, 32, 1087, 1088, 1080, 1082, 1083, 1072,
     1076, 1085, 1099, 1093, 32, 1082, 1086, 1084, 1087, 1100, 1102, 1090, 1077, 1088, 1085, 1099,
     1093, 32, 1085, 1072, 1091, 1082]"

definition test_form :: str where \<comment> \<open>ochnaya\<close>
  "test_form =
     [1086, 1095, 1085, 1072, 1103]"

definition test_language :: str where \<comment> \<open>russkiy\<close>
  "test_language =
     [1088, 1091, 1089, 1089, 1082, 1080, 1081]"

definition test_cost :: str where \<comment> \<open>599 000 <U+20BD>\<close>
  "test_cost =
     [53, 57, 57, 32, 48, 48, 48, 32, 8381]"

definition program_ai_name :: str where \<comment> \<open>Magistratura 'Iskusstvennyy intellekt'\<close>
  "program_ai_name =
     [1052, 1072, 1075, 1080, 1089, 1090, 1088, 1072, 1090, 1091, 1088, 1072, 32, 39, 1048, 1089,
     1082, 1091, 1089, 1089, 1090, 1074, 1077, 1085, 1085, 1099, 1081, 32, 1080, 1085, 1090, 1077,
     1083, 1083, 1077, 1082, 1090, 39]"

definition program_ai_description :: str where \<comment> \<open>Sozdavayte AI-produkty i tekhnologii, kotorye menyayut mir.\<close>
  "program_ai_description =
     [1057, 1086, 1079, 1076, 1072, 1074, 1072, 1081, 1090, 1077, 32, 65, 73, 45, 1087, 1088,
     1086, 1076, 1091, 1082, 1090, 1099, 32, 1080, 32, 1090, 1077, 1093, 1085, 1086, 1083, 1086,
     1075, 1080, 1080, 44, 32, 1082, 1086, 1090, 1086, 1088, 1099, 1077, 32, 1084, 1077, 1085,
     1103, 1102, 1090, 32, 1084, 1080, 1088, 46]"

definition program_ai :: Program where
  "program_ai =
     \<lparr>Program.name = program_ai_name, url = ascii ''https://abit.itmo.ru/program/master/ai'',
      Program.description = program_ai_description, duration = 4,
      Program.courses = test_courses, total_credits = 60, institute = test_institute,
      form = test_form, language = test_language, cost = Some test_cost, dormitory = True,
      military_center = True, accreditation = True\<rparr>"

definition program_ai_product_name :: str where \<comment> \<open>Magistratura 'AI Product Management'\<close>
  "program_ai_product_name =
     [1052, 1072, 1075, 1080, 1089, 1090, 1088, 1072, 1090, 1091, 1088, 1072, 32, 39, 65, 73, 32,
     80, 114, 111, 100, 117, 99, 116, 32, 77, 97, 110, 97, 103, 101, 109, 101, 110, 116, 39]"

definition program_ai_product_description :: str where \<comment> \<open>Upravlyayte AI-produktami i biznes-protsessami.\<close>
  "program_ai_product_description =
     [1059, 1087, 1088, 1072, 1074, 1083, 1103, 1081, 1090, 1077, 32, 65, 73, 45, 1087, 1088,
     1086, 1076, 1091, 1082, 1090, 1072, 1084, 1080, 32, 1080, 32, 1073, 1080, 1079, 1085, 1077,
     1089, 45, 1087, 1088, 1086, 1094, 1077, 1089, 1089, 1072, 1084, 1080, 46]"

definition program_ai_product :: Program where
  "program_ai_product =
     \<lparr>Program.name = program_ai_product_name, url = ascii ''https://abit.itmo.ru/program/master/ai_product'',
      Program.description = program_ai_product_description, duration = 4,
      Program.courses = test_courses, total_credits = 60, institute = test_institute,
      form = test_form, language = test_language, cost = Some test_cost, dormitory = True,
      military_center = True, accreditation = True\<rparr>"

text \<open>A program of neither topic: its name has none of the four topic keywords.\<close>

definition program_robotics_name :: str where \<comment> \<open>Magistratura 'Robototekhnika'\<close>
  "program_robotics_name =
     [1052, 1072, 1075, 1080, 1089, 1090, 1088, 1072, 1090, 1091, 1088, 1072, 32, 39, 1056, 1086,
     1073, 1086, 1090, 1086, 1090, 1077, 1093, 1085, 1080, 1082, 1072, 39]"

definition program_robotics_description :: str where \<comment> \<open>Roboty i mekhatronika.\<close>
  "program_robotics_description =
     [1056, 1086, 1073, 1086, 1090, 1099, 32, 1080, 32, 1084, 1077, 1093, 1072, 1090, 1088, 1086,
     1085, 1080, 1082, 1072, 46]"

definition program_robotics :: Program where
  "program_robotics =
     \<lparr>Program.name = program_robotics_name, url = ascii ''https://abit.itmo.ru/program/master/robotics'',
      Program.description = program_robotics_description, duration = 4,
      Program.courses = test_courses, total_credits = 60, institute = test_institute,
      form = test_form, language = test_language, cost = Some test_cost, dormitory = True,
      military_center = True, accreditation = True\<rparr>"

text \<open>The texts and the courses of the scenarios.\<close>

definition scenario_background :: str where \<comment> \<open>U menya est opyt v programmirovanii na Python i matematike\<close>
  "scenario_background =
     [1059, 32, 1084, 1077, 1085, 1103, 32, 1077, 1089, 1090, 1100, 32, 1086, 1087, 1099, 1090,
     32, 1074, 32, 1087, 1088, 1086, 1075, 1088, 1072, 1084, 1084, 1080, 1088, 1086, 1074, 1072,
     1085, 1080, 1080, 32, 1085, 1072, 32, 80, 121, 116, 104, 111, 110, 32, 1080, 32, 1084, 1072,
     1090, 1077, 1084, 1072, 1090, 1080, 1082, 1077]"

text \<open>What \<^verbatim>\<open>.lower()\<close> returns for the text of scenario 1.\<close>

definition scenario_background_lowered :: str where \<comment> \<open>u menya est opyt v programmirovanii na python i matematike\<close>
  "scenario_background_lowered =
     [1091, 32, 1084, 1077, 1085, 1103, 32, 1077, 1089, 1090, 1100, 32, 1086, 1087, 1099, 1090,
     32, 1074, 32, 1087, 1088, 1086, 1075, 1088, 1072, 1084, 1084, 1080, 1088, 1086, 1074, 1072,
     1085, 1080, 1080, 32, 1085, 1072, 32, 112, 121, 116, 104, 111, 110, 32, 1080, 32, 1084, 1072,
     1090, 1077, 1084, 1072, 1090, 1080, 1082, 1077]"

definition scenario_course_name :: str where \<comment> \<open>Mashinnoe obuchenie\<close>
  "scenario_course_name =
     [1052, 1072, 1096, 1080, 1085, 1085, 1086, 1077, 32, 1086, 1073, 1091, 1095, 1077, 1085,
     1080, 1077]"

definition scenario_course :: Course where
  "scenario_course =
     \<lparr>Course.name = scenario_course_name, credits = 6, semester = 2, course_type = type_elective,
      Course.description = None, Course.prerequisites = None\<rparr>"

definition negation_background :: str where \<comment> \<open>ya ne znayu piton, no khorosho pishu na java\<close>
  "negation_background =
     [1103, 32, 1085, 1077, 32, 1079, 1085, 1072, 1102, 32, 1087, 1080, 1090, 1086, 1085, 44, 32,
     1085, 1086, 32, 1093, 1086, 1088, 1086, 1096, 1086, 32, 1087, 1080, 1096, 1091, 32, 1085,
     1072, 32, 106, 97, 118, 97]"

definition query_ai :: str where \<comment> \<open>Iskusstvennyy intellekt\<close>
  "query_ai =
     [1048, 1089, 1082, 1091, 1089, 1089, 1090, 1074, 1077, 1085, 1085, 1099, 1081, 32, 1080,
     1085, 1090, 1077, 1083, 1083, 1077, 1082, 1090]"

definition query_product :: str where "query_product = ascii ''PRODUCT''"

definition optimisation_course_name :: str where \<comment> \<open>Optimizatsiya\<close>
  "optimisation_course_name =
     [1054, 1087, 1090, 1080, 1084, 1080, 1079, 1072, 1094, 1080, 1103]"

definition optimisation_course :: Course where
  "optimisation_course =
     \<lparr>Course.name = optimisation_course_name, credits = 4, semester = 2, course_type = type_elective,
      Course.description = None, Course.prerequisites = None\<rparr>"

definition intro_ml_course_name :: str where \<comment> \<open>Vvedenie v mashinnoe obuchenie\<close>
  "intro_ml_course_name =
     [1042, 1074, 1077, 1076, 1077, 1085, 1080, 1077, 32, 1074, 32, 1084, 1072, 1096, 1080, 1085,
     1085, 1086, 1077, 32, 1086, 1073, 1091, 1095, 1077, 1085, 1080, 1077]"

definition intro_ml_course :: Course where
  "intro_ml_course =
     \<lparr>Course.name = intro_ml_course_name, credits = 4, semester = 1, course_type = type_required,
      Course.description = None, Course.prerequisites = None\<rparr>"

text \<open>A course of the fallback catalog of \<^verbatim>\<open>web_parser.py\<close> (\<^verbatim>\<open>_create_basic_courses\<close>).\<close>

definition catalog_intro_ai_name :: str where \<comment> \<open>Vvedenie v II\<close>
  "catalog_intro_ai_name =
     [1042, 1074, 1077, 1076, 1077, 1085, 1080, 1077, 32, 1074, 32, 1048, 1048]"

definition catalog_intro_ai :: Course where
  "catalog_intro_ai =
     \<lparr>Course.name = catalog_intro_ai_name, credits = 3, semester = 1, course_type = type_required,
      Course.description = None, Course.prerequisites = None\<rparr>"

text \<open>A profile with a programming skill, a math skill and work experience.\<close>

definition experienced_profile :: BackgroundProfile where
  "experienced_profile =
     \<lparr>programming_skills = [s_python], math_skills = [s_matematika], business_skills = [],
      research_interests = [], work_experience = s_est_opyt,
      education_level = s_bakalavriat, career_goals = [], learning_preferences = [],
      time_availability = s_standartnaya\<rparr>"

section \<open>Basic facts about the string operations\<close>

text \<open>
  \<open>str_in\<close> is the contiguous-sublist relation of the library, and it is kept by any
  mapping of the code points.
\<close>


lemma starts_with_iff_prefix: "starts_with sub s = prefix sub s"
  by (induction sub s rule: starts_with.induct) simp_all

lemma str_in_iff_sublist: "str_in sub s = sublist sub s"
  by (induction s) (simp_all add: starts_with_iff_prefix sublist_Cons_right)

lemma starts_with_map: "starts_with sub s \<Longrightarrow> starts_with (map f sub) (map f s)"
  by (induction sub s rule: starts_with.induct) simp_all

lemma str_in_map: "str_in sub s \<Longrightarrow> str_in (map f sub) (map f s)"
proof (induction s)
  case Nil
  then show ?case by simp
next
  case (Cons c cs)
  then show ?case using starts_with_map [of sub "c # cs" f] by auto
qed

lemmas keyword_tables = programming_keywords_def math_keywords_def business_keywords_def
  research_keywords_def education_keywords_def career_keywords_def negations_def

lemma any_in_Nil [simp]: "any_in [] s = False"
  by (simp add: any_in_def)

lemma any_in_Cons [simp]: "any_in (k # ks) s = (str_in k s \<or> any_in ks s)"
  by (simp add: any_in_def)

section \<open>The score is at least one\<close>

text \<open>Every weight of the skill map is at least 1.5.\<close>

lemma skill_weight_lower_bound:
  "map_of skill_mapping skill = Some skill_info \<Longrightarrow> 3 / 2 \<le> weight skill_info"
  by (auto simp: skill_mapping_def split: if_splits)

lemma skill_loop_score_mono:
  "acc_score st \<le> acc_score (skill_loop generic cl skills st)"
proof (induction skills)
  case Nil
  show ?case by simp
next
  case (Cons skill skills)
  show ?case
  proof (cases "map_of skill_mapping skill")
    case None
    with Cons show ?thesis by (simp add: add_skill_match_def)
  next
    case (Some skill_info)
    from skill_weight_lower_bound [OF Some] have "0 \<le> weight skill_info" by simp
    with Some Cons show ?thesis by (simp add: add_skill_match_def)
  qed
qed

lemma skill_loop_compat_mono:
  "acc_compatibility_score st \<le> acc_compatibility_score (skill_loop generic cl skills st)"
proof (induction skills)
  case Nil
  show ?case by simp
next
  case (Cons skill skills)
  show ?case
  proof (cases "map_of skill_mapping skill")
    case None
    with Cons show ?thesis by (simp add: add_skill_match_def)
  next
    case (Some skill_info)
    from skill_weight_lower_bound [OF Some] have "0 \<le> weight skill_info" by simp
    with Some Cons show ?thesis by (simp add: add_skill_match_def)
  qed
qed

text \<open>
  When the list of course keywords has a match, the first skill of a non-empty list ends the
  loop with the weight of its entry or with 2.0.
\<close>

lemma skill_loop_generic_match:
  assumes "skills \<noteq> []" and "any_in generic cl"
  shows "acc_score st + 3 / 2 \<le> acc_score (skill_loop generic cl skills st)"
proof (cases skills)
  case Nil
  with assms show ?thesis by simp
next
  case (Cons skill rest)
  show ?thesis
  proof (cases "map_of skill_mapping skill")
    case None
    with Cons assms show ?thesis by (simp add: add_skill_match_def)
  next
    case (Some skill_info)
    from skill_weight_lower_bound [OF Some] Some Cons assms show ?thesis
      by (simp add: add_skill_match_def)
  qed
qed

lemma career_loop_score_mono: "acc_score st \<le> acc_score (career_loop lower cl goals st)"
proof (induction goals arbitrary: st)
  case Nil
  show ?case by simp
next
  case (Cons goal goals)
  have "acc_score st \<le> acc_score (if list_ex (\<lambda>(skill_name, skill_info).
               lower goal \<in> set (career_paths skill_info)
               \<and> any_in (SkillInfo.courses skill_info) cl) skill_mapping
        then add_bonus (3 / 2) (reason_goal_prefix @ goal) st
        else st)" (is "_ \<le> acc_score ?st'")
    by (simp add: add_bonus_def)
  also have "\<dots> \<le> acc_score (career_loop lower cl goals ?st')" by (rule Cons.IH)
  finally show ?case by simp
qed

lemma career_loop_compat [simp]:
  "acc_compatibility_score (career_loop lower cl goals st) = acc_compatibility_score st"
  by (induction goals arbitrary: st) (simp_all add: add_bonus_def)

lemma difficulty_lower_bound:
  "1 - (if programming_skills profile \<noteq> [] \<and> any_in [s_programmirovanie, s_kod, s_razrabotka] (lower (Course.name crs)) then 1 else 0)
     - (if math_skills profile \<noteq> [] \<and> any_in [s_matematika, s_algebra, s_statistika] (lower (Course.name crs)) then 1 else 0)
     - (if business_skills profile \<noteq> [] \<and> any_in [s_biznes, s_menedzhment, s_upravlenie] (lower (Course.name crs)) then 1 else 0)
   \<le> assess_course_difficulty lower crs profile"
  by (simp add: assess_course_difficulty_def Let_def)

text \<open>
  A reduction of the difficulty by 1.0 needs a non-empty skill list and one of three keywords
  that the list of course keywords of the same category contains too, so the skill loop of
  that category has added at least 1.5 before.
\<close>

lemma accumulate_score_lower_bound: "1 \<le> acc_score (accumulate_score lower crs profile)"
proof -
  define cl where "cl = lower (Course.name crs)"
  define st0 where "st0 = \<lparr>acc_score = 0, acc_compatibility_score = 0, acc_reasons = []\<rparr>"
  define st1 where "st1 = skill_loop programming_course_keywords cl (programming_skills profile) st0"
  define st2 where "st2 = skill_loop math_course_keywords cl (math_skills profile) st1"
  define st3 where "st3 = skill_loop business_course_keywords cl (business_skills profile) st2"
  define st4 where "st4 = career_loop lower cl (career_goals profile) st3"
  define p where "p = (if programming_skills profile \<noteq> [] \<and> any_in [s_programmirovanie, s_kod, s_razrabotka] cl then 1 else (0::real))"
  define m where "m = (if math_skills profile \<noteq> [] \<and> any_in [s_matematika, s_algebra, s_statistika] cl then 1 else (0::real))"
  define b where "b = (if business_skills profile \<noteq> [] \<and> any_in [s_biznes, s_menedzhment, s_upravlenie] cl then 1 else (0::real))"
  have s1: "acc_score st0 + p \<le> acc_score st1"
  proof (cases "programming_skills profile \<noteq> [] \<and> any_in [s_programmirovanie, s_kod, s_razrabotka] cl")
    case True
    then have "any_in programming_course_keywords cl" by (auto simp: programming_course_keywords_def)
    with True have "acc_score st0 + 3 / 2 \<le> acc_score st1"
      unfolding st1_def by (intro skill_loop_generic_match) simp_all
    with True show ?thesis by (simp add: p_def)
  next
    case False
    then have "p = 0" by (simp add: p_def)
    then show ?thesis unfolding st1_def using skill_loop_score_mono [of st0] by simp
  qed
  have s2: "acc_score st1 + m \<le> acc_score st2"
  proof (cases "math_skills profile \<noteq> [] \<and> any_in [s_matematika, s_algebra, s_statistika] cl")
    case True
    then have "any_in math_course_keywords cl" by (auto simp: math_course_keywords_def)
    with True have "acc_score st1 + 3 / 2 \<le> acc_score st2"
      unfolding st2_def by (intro skill_loop_generic_match) simp_all
    with True show ?thesis by (simp add: m_def)
  next
    case False
    then have "m = 0" by (simp add: m_def)
    then show ?thesis unfolding st2_def using skill_loop_score_mono [of st1] by simp
  qed
  have s3: "acc_score st2 + b \<le> acc_score st3"
  proof (cases "business_skills profile \<noteq> [] \<and> any_in [s_biznes, s_menedzhment, s_upravlenie] cl")
    case True
    then have "any_in business_course_keywords cl" by (auto simp: business_course_keywords_def)
    with True have "acc_score st2 + 3 / 2 \<le> acc_score st3"
      unfolding st3_def by (intro skill_loop_generic_match) simp_all
    with True show ?thesis by (simp add: b_def)
  next
    case False
    then have "b = 0" by (simp add: b_def)
    then show ?thesis unfolding st3_def using skill_loop_score_mono [of st2] by simp
  qed
  have s4: "acc_score st3 \<le> acc_score st4"
    unfolding st4_def by (rule career_loop_score_mono)
  have d: "1 - p - m - b \<le> assess_course_difficulty lower crs profile"
    unfolding p_def m_def b_def cl_def by (rule difficulty_lower_bound)
  have tail: "acc_score st4 + assess_course_difficulty lower crs profile \<le> acc_score (accumulate_score lower crs profile)"
    by (simp add: accumulate_score_def Let_def add_bonus_def st4_def st3_def st2_def st1_def st0_def cl_def)
  have "acc_score st0 = 0" by (simp add: st0_def)
  with s1 s2 s3 s4 d tail show ?thesis by linarith
qed


lemma accumulate_compat_nonneg: "0 \<le> acc_compatibility_score (accumulate_score lower crs profile)"
proof -
  define cl where "cl = lower (Course.name crs)"
  define st0 where "st0 = \<lparr>acc_score = 0, acc_compatibility_score = 0, acc_reasons = []\<rparr>"
  define st1 where "st1 = skill_loop programming_course_keywords cl (programming_skills profile) st0"
  define st2 where "st2 = skill_loop math_course_keywords cl (math_skills profile) st1"
  define st3 where "st3 = skill_loop business_course_keywords cl (business_skills profile) st2"
  have "acc_compatibility_score st0 \<le> acc_compatibility_score st1"
    unfolding st1_def by (rule skill_loop_compat_mono)
  also have "\<dots> \<le> acc_compatibility_score st2"
    unfolding st2_def by (rule skill_loop_compat_mono)
  also have "\<dots> \<le> acc_compatibility_score st3"
    unfolding st3_def by (rule skill_loop_compat_mono)
  also have "\<dots> = acc_compatibility_score (accumulate_score lower crs profile)"
    by (simp add: accumulate_score_def Let_def add_bonus_def st3_def st2_def st1_def st0_def cl_def)
  finally show ?thesis by (simp add: st0_def)
qed

lemma apply_floor_accumulate: "apply_floor (accumulate_score lower crs profile) = accumulate_score lower crs profile"
  using accumulate_score_lower_bound [of lower crs profile] by (simp add: apply_floor_def)

lemma tier_names_distinct: "s_high \<noteq> s_medium" "s_high \<noteq> s_low" "s_medium \<noteq> s_low"
  by (simp_all add: str_defs ascii_def)

text \<open>
  C3. For every course and every profile (and every case mapping) the returned
  recommendation has its score and its compatibility score between 0 and 10.
\<close>

theorem scores_clamped:
  "0 \<le> score (evaluate_course_intelligently lower crs profile program)
   \<and> score (evaluate_course_intelligently lower crs profile program) \<le> 10
   \<and> 0 \<le> compatibility_score (evaluate_course_intelligently lower crs profile program)
   \<and> compatibility_score (evaluate_course_intelligently lower crs profile program) \<le> 10"
  using accumulate_score_lower_bound [of lower crs profile] accumulate_compat_nonneg [of lower crs profile]
  by (simp add: evaluate_course_intelligently_def Let_def apply_floor_accumulate)

text \<open>
  C7. For every course and every profile (and every case mapping) the priority of the
  returned recommendation follows the score as it stands right before the clamp to 10: it is high exactly when that score is at least 7.0, medium exactly when the
  score is at least 4.0 and below 7.0, and low exactly when it is below 4.0; 6.999 is medium
  and 7.0 is high.
\<close>

theorem priority_thresholds:
  "score (evaluate_course_intelligently lower crs profile program)
     = min (acc_score (apply_floor (accumulate_score lower crs profile))) 10
   \<and> (priority (evaluate_course_intelligently lower crs profile program) = s_high)
       = (7 \<le> acc_score (apply_floor (accumulate_score lower crs profile)))
   \<and> (priority (evaluate_course_intelligently lower crs profile program) = s_medium)
       = (4 \<le> acc_score (apply_floor (accumulate_score lower crs profile))
          \<and> acc_score (apply_floor (accumulate_score lower crs profile)) < 7)
   \<and> (priority (evaluate_course_intelligently lower crs profile program) = s_low)
       = (acc_score (apply_floor (accumulate_score lower crs profile)) < 4)
   \<and> priority_tier (6999 / 1000) = s_medium
   \<and> priority_tier 7 = s_high"
  using tier_names_distinct
  by (auto simp: evaluate_course_intelligently_def Let_def apply_floor_accumulate
      priority_tier_def HIGH_SCORE_THRESHOLD_def MEDIUM_SCORE_THRESHOLD_def)

text \<open>
  C10. The score accumulated before the zero check is at least 1.0 for every course and every
  profile (and every case mapping), so the branch that forces a zero score to 1.0 is never taken, and the returned
  score is at least 1.0.
\<close>

theorem floor_branch_unreachable:
  "1 \<le> acc_score (accumulate_score lower crs profile)
   \<and> acc_score (accumulate_score lower crs profile) \<noteq> 0
   \<and> apply_floor (accumulate_score lower crs profile) = accumulate_score lower crs profile
   \<and> 1 \<le> score (evaluate_course_intelligently lower crs profile program)"
  using accumulate_score_lower_bound [of lower crs profile]
  by (simp add: evaluate_course_intelligently_def Let_def apply_floor_accumulate)

section \<open>The concrete inputs are in the two scripts\<close>

text \<open>
  Every concrete string that is lower-cased below is made of ASCII and Cyrillic code points, so
  \<open>script_lower\<close> returns for it what \<^verbatim>\<open>str.lower()\<close> returns.
\<close>

lemma concrete_inputs_in_scripts:
  "in_scripts (Program.name program_ai)"
  "in_scripts (Program.name program_ai_product)"
  "in_scripts (Program.name program_robotics)"
  "in_scripts query_ai"
  "in_scripts query_product"
  "in_scripts scenario_background"
  "in_scripts negation_background"
  "in_scripts (Course.name scenario_course)"
  "in_scripts (Course.name intro_ml_course)"
  "in_scripts (Course.name catalog_intro_ai)"
  "in_scripts (Course.name test_ethics)"
  "in_scripts (Course.name optimisation_course)"
  by (simp_all add: in_scripts_def program_ai_def program_ai_name_def program_ai_product_def
      program_ai_product_name_def program_robotics_def program_robotics_name_def query_ai_def
      query_product_def scenario_background_def negation_background_def scenario_course_def
      scenario_course_name_def intro_ml_course_def intro_ml_course_name_def
      catalog_intro_ai_def catalog_intro_ai_name_def test_ethics_def test_ethics_name_def
      optimisation_course_def optimisation_course_name_def
      ascii_def)

lemma program_names_lower:
  "script_lower (Program.name program_ai) =
     [1084, 1072, 1075, 1080, 1089, 1090, 1088, 1072, 1090, 1091, 1088, 1072, 32, 39, 1080,
      1089, 1082, 1091, 1089, 1089, 1090, 1074, 1077, 1085, 1085, 1099, 1081, 32, 1080, 1085,
      1090, 1077, 1083, 1083, 1077, 1082, 1090, 39]"
  "script_lower (Program.name program_ai_product) =
     [1084, 1072, 1075, 1080, 1089, 1090, 1088, 1072, 1090, 1091, 1088, 1072, 32, 39, 97, 105,
      32, 112, 114, 111, 100, 117, 99, 116, 32, 109, 97, 110, 97, 103, 101, 109, 101, 110, 116,
      39]"
  "script_lower (Program.name program_robotics) =
     [1084, 1072, 1075, 1080, 1089, 1090, 1088, 1072, 1090, 1091, 1088, 1072, 32, 39, 1088,
      1086, 1073, 1086, 1090, 1086, 1090, 1077, 1093, 1085, 1080, 1082, 1072, 39]"
  by (simp_all add: script_lower_def lower_cp_def program_ai_def program_ai_name_def
      program_ai_product_def program_ai_product_name_def program_robotics_def
      program_robotics_name_def)

section \<open>Profile extraction: defaults and negation\<close>

text \<open>
  C9. The profile extracted from the empty string has empty lists of programming, math and
  business skills, research interests, career goals and learning preferences, the education
  level \<open>bakalavriat\<close>, the work experience \<open>net opyta\<close> and the time availability
  \<open>standartnaya\<close>; its archetype is \<open>beginner\<close>. This holds for every case mapping that
  maps the empty string to the empty string, as \<^verbatim>\<open>''.lower()\<close> does. The extractor is a
  total function, so it fails on no input.
\<close>

theorem empty_input_defaults:
  assumes "lower [] = []"
  shows "analyze_background lower [] =
     \<lparr>programming_skills = [], math_skills = [], business_skills = [],
      research_interests = [], work_experience = s_net_opyta,
      education_level = s_bakalavriat, career_goals = [], learning_preferences = [],
      time_availability = s_standartnaya\<rparr>
   \<and> user_type_of (analyze_background lower []) = s_beginner"
  using assms
  by (simp add: analyze_background_def user_type_of_def matching_tags_def
      keyword_tables str_defs ascii_def)

text \<open>The same with the lower-casing of the two scripts.\<close>

theorem empty_input_defaults_witness:
  "script_lower [] = []
   \<and> analyze_background script_lower [] =
     \<lparr>programming_skills = [], math_skills = [], business_skills = [],
      research_interests = [], work_experience = s_net_opyta,
      education_level = s_bakalavriat, career_goals = [], learning_preferences = [],
      time_availability = s_standartnaya\<rparr>
   \<and> user_type_of (analyze_background script_lower []) = s_beginner"
proof -
  have empty: "script_lower [] = []" by (simp add: script_lower_def)
  from empty_input_defaults [of script_lower] empty show ?thesis by blast
qed

text \<open>
  The negation test is global: with a negation phrase in the lower-cased text no keyword of any
  programming skill counts.
\<close>

lemma negation_in_lowered_text:
  assumes "any_in negations (lower background)"
  shows "programming_skills (analyze_background lower background) = []"
  using assms by (simp add: analyze_background_def Let_def)

text \<open>
  The five phrases are in lower case already, so \<open>script_lower\<close> keeps every occurrence of
  them, as \<^verbatim>\<open>str.lower()\<close> does.
\<close>

lemma negations_lower_case: "neg \<in> set negations \<Longrightarrow> map lower_cp neg = neg"
  by (auto simp: negations_def str_defs lower_cp_def)

lemma script_lower_keeps_negations:
  assumes "neg \<in> set negations" and "str_in neg s"
  shows "str_in neg (script_lower s)"
  using str_in_map [OF assms(2), of lower_cp] negations_lower_case [OF assms(1)]
  by (simp add: script_lower_def)

lemma keeps_negations_any_in:
  assumes "\<forall>neg \<in> set negations. \<forall>s. str_in neg s \<longrightarrow> str_in neg (lower s)"
    and "any_in negations background"
  shows "any_in negations (lower background)"
  using assms by (auto simp: any_in_def list_ex_iff)

lemma negation_suppresses_script_lower:
  assumes "any_in negations background \<or> any_in negations (script_lower background)"
  shows "programming_skills (analyze_background script_lower background) = []"
proof -
  have "\<forall>neg \<in> set negations. \<forall>s. str_in neg s \<longrightarrow> str_in neg (script_lower s)"
    using script_lower_keeps_negations by blast
  with assms keeps_negations_any_in have "any_in negations (script_lower background)"
    by blast
  then show ?thesis by (rule negation_in_lowered_text)
qed

text \<open>
  C5. A text that contains one of the five negation phrases anywhere (as it is written, or
  after lower-casing) yields a profile with no programming skill at all. The case mapping is
  any mapping under which an occurrence of a negation phrase stays an occurrence, which holds
  for \<^verbatim>\<open>str.lower()\<close>: the phrases are made of small Cyrillic letters and a space, and
  lower-casing maps each of these code points to itself wherever it stands.
\<close>

theorem negation_suppresses_programming_skills:
  assumes "\<forall>neg \<in> set negations. \<forall>s. str_in neg s \<longrightarrow> str_in neg (lower s)"
    and "any_in negations background \<or> any_in negations (lower background)"
  shows "programming_skills (analyze_background lower background) = []"
proof -
  from assms keeps_negations_any_in have "any_in negations (lower background)" by blast
  then show ?thesis by (rule negation_in_lowered_text)
qed

lemma negation_background_lower:
  "script_lower negation_background = negation_background"
  by (simp add: script_lower_def negation_background_def lower_cp_def)

text \<open>
  The example of the specification: the text names \<open>piton\<close> and \<open>java\<close> and has the
  phrase \<open>ne znayu\<close>, so neither tag is extracted.
\<close>

theorem negation_example:
  "any_in negations negation_background
   \<and> str_in s_piton (script_lower negation_background)
   \<and> str_in s_java (script_lower negation_background)
   \<and> programming_skills (analyze_background script_lower negation_background) = []
   \<and> s_python \<notin> set (programming_skills (analyze_background script_lower negation_background))"
proof -
  have neg: "any_in negations negation_background"
    by (simp add: any_in_def negations_def negation_background_def str_defs)
  have kw: "str_in s_piton (script_lower negation_background)"
    "str_in s_java (script_lower negation_background)"
    by (simp_all add: negation_background_lower)
       (simp_all add: negation_background_def str_defs ascii_def)
  have keeps: "\<forall>neg \<in> set negations. \<forall>s. str_in neg s \<longrightarrow> str_in neg (script_lower s)"
    using script_lower_keeps_negations by blast
  from neg have "any_in negations negation_background
      \<or> any_in negations (script_lower negation_background)"
    by simp
  from negation_suppresses_programming_skills [OF keeps this] neg kw show ?thesis by simp
qed

section \<open>Program lookup\<close>

lemma find_program_by_name_find:
  "find_program_by_name lower programs q = find (name_matches lower q) programs"
  by (induction programs) simp_all

lemma program_report_not_sentinel: "program_report title program \<noteq> msg_not_found"
  by (simp add: program_report_def msg_target_def msg_not_found_def)

lemma find_program_first_match:
  assumes "\<forall>b \<in> set before. \<not> name_matches lower q b" and "name_matches lower q p"
  shows "find_program_by_name lower (before @ p # after) q = Some p"
  using assms by (induction before) simp_all

lemma not_found_iff:
  "(get_detailed_program_info lower title programs q = msg_not_found)
     = (\<forall>p \<in> set programs. \<not> name_matches lower q p)"
proof (cases "find_program_by_name lower programs q")
  case None
  then have "get_detailed_program_info lower title programs q = msg_not_found"
    by (simp add: get_detailed_program_info_def)
  moreover from None have "\<forall>p \<in> set programs. \<not> name_matches lower q p"
    by (simp add: find_program_by_name_find find_None_iff)
  ultimately show ?thesis by simp
next
  case (Some p)
  then have "\<exists>p \<in> set programs. name_matches lower q p"
    by (auto simp: find_program_by_name_find find_Some_iff)
  with Some show ?thesis
    by (auto simp: get_detailed_program_info_def program_report_not_sentinel)
qed

text \<open>
  C8. For every catalog, every query and every case mapping, the detail operation returns the
  not-found sentinel exactly when no program of the catalog has a name whose lower-cased form
  contains the lower-cased query. Otherwise it reports the first such program in catalog
  order: the report is the target mark and the name of that program, its institute, the first
  200 code points of its description and its courses semester by semester. It is a total
  function: no input makes it fail.
\<close>

theorem program_not_found:
  "((get_detailed_program_info lower title programs q = msg_not_found)
      = (\<forall>p \<in> set programs. \<not> str_in (lower q) (lower (Program.name p))))
   \<and> (\<forall>before p after.
         programs = before @ p # after
           \<and> (\<forall>b \<in> set before. \<not> str_in (lower q) (lower (Program.name b)))
           \<and> str_in (lower q) (lower (Program.name p))
         \<longrightarrow> get_detailed_program_info lower title programs q
               = msg_target @ Program.name p @ s_nl
                 @ msg_institute @ institute p @ s_nl
                 @ msg_description @ take 200 (Program.description p) @ msg_ellipsis
                 @ concat (map (semester_block title (Program.courses p))
                             (sort (first_seen (map semester (Program.courses p))))))"
proof (intro conjI allI impI)
  show "(get_detailed_program_info lower title programs q = msg_not_found)
      = (\<forall>p \<in> set programs. \<not> str_in (lower q) (lower (Program.name p)))"
    using not_found_iff [of lower title programs q] by (simp add: name_matches_def)
next
  fix before p after
  assume "programs = before @ p # after
           \<and> (\<forall>b \<in> set before. \<not> str_in (lower q) (lower (Program.name b)))
           \<and> str_in (lower q) (lower (Program.name p))"
  then have "find_program_by_name lower programs q = Some p"
    by (simp add: find_program_first_match name_matches_def)
  then show "get_detailed_program_info lower title programs q
               = msg_target @ Program.name p @ s_nl
                 @ msg_institute @ institute p @ s_nl
                 @ msg_description @ take 200 (Program.description p) @ msg_ellipsis
                 @ concat (map (semester_block title (Program.courses p))
                             (sort (first_seen (map semester (Program.courses p)))))"
    by (simp add: get_detailed_program_info_def program_report_def)
qed

lemma query_lower:
  "script_lower query_ai = s_iskusstvennyy_intellekt"
  "script_lower query_product = s_product"
  by (simp_all add: script_lower_def lower_cp_def query_ai_def query_product_def
      s_iskusstvennyy_intellekt_def s_product_def ascii_def)

lemma test_queries:
  "\<not> str_in (script_lower query_ai) (script_lower (Program.name program_ai_product))"
  "\<not> str_in (script_lower query_product) (script_lower (Program.name program_ai))"
  "str_in (script_lower query_product) (script_lower (Program.name program_ai_product))"
  "\<not> str_in query_product (Program.name program_ai_product)"
  "\<not> str_in query_product (script_lower (Program.name program_ai_product))"
  by (simp_all add: program_names_lower query_lower)
     (simp_all add: s_iskusstvennyy_intellekt_def s_product_def query_product_def
       program_ai_product_def program_ai_product_name_def ascii_def)

text \<open>
  Scenario 4 of the specification (the query for the AI program against a catalog without
  it), and the query \<open>PRODUCT\<close>: as it is written it occurs neither in the name of the second
  program nor in the lower-cased name, lower-cased it occurs in the lower-cased name, and the
  second program of the catalog is the first to match.
\<close>

theorem program_not_found_witness:
  "get_detailed_program_info script_lower script_title [program_ai_product] query_ai
     = msg_not_found
   \<and> \<not> str_in query_product (Program.name program_ai_product)
   \<and> \<not> str_in query_product (script_lower (Program.name program_ai_product))
   \<and> get_detailed_program_info script_lower script_title [program_ai, program_ai_product]
         query_product
       = msg_target @ Program.name program_ai_product @ s_nl
         @ msg_institute @ institute program_ai_product @ s_nl
         @ msg_description @ take 200 (Program.description program_ai_product) @ msg_ellipsis
         @ concat (map (semester_block script_title (Program.courses program_ai_product))
                     (sort (first_seen (map semester (Program.courses program_ai_product)))))"
proof -
  have "\<forall>p \<in> set [program_ai_product].
          \<not> str_in (script_lower query_ai) (script_lower (Program.name p))"
    by (simp add: test_queries)
  with program_not_found [of script_lower script_title "[program_ai_product]" query_ai]
  have 1: "get_detailed_program_info script_lower script_title [program_ai_product] query_ai
             = msg_not_found"
    by blast
  have "[program_ai, program_ai_product] = [program_ai] @ program_ai_product # []
        \<and> (\<forall>b \<in> set [program_ai].
               \<not> str_in (script_lower query_product) (script_lower (Program.name b)))
        \<and> str_in (script_lower query_product) (script_lower (Program.name program_ai_product))"
    by (simp add: test_queries)
  with program_not_found
         [of script_lower script_title "[program_ai, program_ai_product]" query_product]
  have 2: "get_detailed_program_info script_lower script_title
             [program_ai, program_ai_product] query_product
       = msg_target @ Program.name program_ai_product @ s_nl
         @ msg_institute @ institute program_ai_product @ s_nl
         @ msg_description @ take 200 (Program.description program_ai_product) @ msg_ellipsis
         @ concat (map (semester_block script_title (Program.courses program_ai_product))
                     (sort (first_seen (map semester (Program.courses program_ai_product)))))"
    by blast
  from 1 2 test_queries(4,5) show ?thesis by simp
qed

section \<open>Verdict lines\<close>

text \<open>
  The loop of \<^verbatim>\<open>get_course_recommendations\<close> appends one line for a program of the AI
  topic or the product topic and nothing for any other program: its \<^verbatim>\<open>if\<close>/\<^verbatim>\<open>elif\<close>
  on the program name has no \<^verbatim>\<open>else\<close>.
\<close>

lemma foldl_append_lines:
  "foldl (\<lambda>acc x. acc @ f x) start xs = start @ concat (map f xs)"
  by (induction xs arbitrary: start) simp_all

lemma concat_filter_nonempty: "concat (filter (\<lambda>line. line \<noteq> []) ls) = concat ls"
  by (induction ls) simp_all

lemma verdict_line_no_topic:
  assumes "\<not> has_topic lower p"
  shows "verdict_line lower ut p = []"
proof -
  define n where "n = lower (Program.name p)"
  from assms have "\<not> str_in s_iskusstvennyy_intellekt n" "\<not> str_in s_produkt n"
    "\<not> str_in s_product n" "\<not> str_in s_ai n"
    by (auto simp: has_topic_def Let_def n_def)
  then show ?thesis by (simp add: verdict_line_def Let_def n_def [symmetric])
qed

lemma verdict_line_topic:
  assumes "has_topic lower p"
  shows "\<exists>tail \<in> set verdict_tails. verdict_line lower ut p = msg_target @ Program.name p @ tail"
proof -
  define n where "n = lower (Program.name p)"
  define ai where "ai = (str_in s_iskusstvennyy_intellekt n \<or> (str_in s_ai n \<and> \<not> str_in s_product n))"
  define pr where "pr = (str_in s_produkt n \<or> str_in s_product n)"
  from assms have topic: "ai \<or> pr" by (auto simp: has_topic_def Let_def n_def ai_def pr_def)
  have line: "verdict_line lower ut p =
     (if ai then
        (if ut = s_python_dev then msg_target @ Program.name p @ verdict_ai_python
         else if ut = s_java_dev then msg_target @ Program.name p @ verdict_ai_java
         else if ut = s_tech_dev then msg_target @ Program.name p @ verdict_ai_tech
         else if ut = s_math_background then msg_target @ Program.name p @ verdict_ai_math
         else if ut = s_business_background then msg_target @ Program.name p @ verdict_consider
         else msg_target @ Program.name p @ verdict_start)
      else if pr then
        (if ut = s_business_background then msg_target @ Program.name p @ verdict_product_business
         else if ut = s_tech_dev then msg_target @ Program.name p @ verdict_product_tech
         else if ut = s_python_dev \<or> ut = s_java_dev then msg_target @ Program.name p @ verdict_product_prog
         else if ut = s_math_background then msg_target @ Program.name p @ verdict_consider
         else msg_target @ Program.name p @ verdict_start)
      else [])"
    unfolding verdict_line_def Let_def n_def ai_def pr_def by (rule refl)
  show ?thesis
  proof (cases ai)
    case True
    then show ?thesis unfolding line by (simp add: verdict_tails_def)
  next
    case False
    with topic have pr by simp
    with False show ?thesis unfolding line by (simp add: verdict_tails_def)
  qed
qed

lemma msg_target_nonempty: "msg_target \<noteq> []"
  by (simp add: msg_target_def)

lemma verdict_line_nonempty_iff: "(verdict_line lower ut p \<noteq> []) = has_topic lower p"
  using verdict_line_no_topic [of lower p ut] verdict_line_topic [of lower p ut] msg_target_nonempty
  by (cases "has_topic lower p") auto

lemma verdict_lines_filter:
  "verdict_lines lower programs background =
     map (verdict_line lower (user_type_of (analyze_background lower background))) (filter (has_topic lower) programs)"
  by (simp add: verdict_lines_def filter_map o_def verdict_line_nonempty_iff)

lemma msg_header_report:
  "get_course_recommendations lower programs background =
     msg_header @ concat (verdict_lines lower programs background)"
  by (simp add: get_course_recommendations_def Let_def foldl_append_lines verdict_lines_def
      concat_filter_nonempty)

lemma test_topic_keywords:
  "str_in s_iskusstvennyy_intellekt (script_lower (Program.name program_ai))"
  "\<not> str_in s_iskusstvennyy_intellekt (script_lower (Program.name program_ai_product))"
  "str_in s_ai (script_lower (Program.name program_ai_product))"
  "str_in s_product (script_lower (Program.name program_ai_product))"
  "\<not> str_in s_iskusstvennyy_intellekt (script_lower (Program.name program_robotics))"
  "\<not> str_in s_ai (script_lower (Program.name program_robotics))"
  "\<not> str_in s_produkt (script_lower (Program.name program_robotics))"
  "\<not> str_in s_product (script_lower (Program.name program_robotics))"
  by (simp_all add: program_names_lower s_iskusstvennyy_intellekt_def s_ai_def s_product_def
      s_produkt_def ascii_def)

lemma test_topics:
  "has_topic script_lower program_ai" "has_topic script_lower program_ai_product"
  "\<not> has_topic script_lower program_robotics"
  by (simp_all add: has_topic_def Let_def test_topic_keywords)

text \<open>
  C6. The claim fails in the code. For a catalog of one program of neither topic and the empty
  background the report is the header alone: it has no verdict line for the program. For the
  catalog of the source's test with this program as a third one the report has two verdict
  lines for three programs.
\<close>

theorem robotics_has_no_verdict_line:
  "verdict_line script_lower (user_type_of (analyze_background script_lower []))
       program_robotics = []
   \<and> verdict_lines script_lower [program_robotics] [] = []
   \<and> get_course_recommendations script_lower [program_robotics] [] = msg_header
   \<and> length (verdict_lines script_lower
         [program_ai, program_ai_product, program_robotics] []) = 2"
  by (simp add: msg_header_report verdict_lines_filter test_topics verdict_line_no_topic)

section \<open>Cluster assignment follows the first matching group\<close>

text \<open>
  The nested conditionals of \<^verbatim>\<open>_assign_course_to_cluster\<close> are the ordered list of
  groups: the course goes to the cluster that the first matching group names, if it names one.
\<close>

lemma assign_first_match:
  "assign_course_to_cluster lower crs cs =
     (case first_match_cluster lower crs of
        None \<Rightarrow> Inr cs
      | Some k \<Rightarrow> append_course k crs cs)"
  by (simp add: assign_course_to_cluster_def first_match_cluster_def first_matching_group_def
      group_order_def Let_def)

lemma first_match_cluster_key:
  "first_match_cluster lower crs = Some k \<Longrightarrow> k \<in> set cluster_keys"
  by (auto simp: first_match_cluster_def first_matching_group_def group_order_def Let_def
      cluster_keys_def initial_course_clusters_def split: if_splits)

text \<open>
  Every group but the introductory one names a cluster, so on these branches the course is
  appended to exactly one cluster, the one of the first matching group; the business branch
  has a default for it.
\<close>

lemma first_match_cluster_total:
  assumes "first_matching_group (lower (Course.name crs)) = Some g" and "g \<noteq> Introductory"
  shows "first_match_cluster lower crs = group_cluster g (lower (Course.name crs))
         \<and> group_cluster g (lower (Course.name crs)) \<noteq> None"
  using assms by (cases g) (simp_all add: first_match_cluster_def)

lemma assign_other_groups:
  assumes "\<forall>k \<in> set cluster_keys. cs k \<noteq> None"
    and "first_matching_group (lower (Course.name crs)) = Some g" and "g \<noteq> Introductory"
  shows "\<exists>k cluster. group_cluster g (lower (Course.name crs)) = Some k
           \<and> cs k = Some cluster
           \<and> assign_course_to_cluster lower crs cs
               = Inr (cs(k \<mapsto> cluster\<lparr>CourseCluster.courses :=
                                   CourseCluster.courses cluster @ [crs]\<rparr>))"
proof -
  from first_match_cluster_total [of lower crs g] assms(2,3) obtain k where
    k: "first_match_cluster lower crs = Some k"
       "group_cluster g (lower (Course.name crs)) = Some k"
    by auto
  from first_match_cluster_key [OF k(1)] assms(1) obtain cluster where "cs k = Some cluster"
    by auto
  with k show ?thesis by (simp add: assign_first_match append_course_def)
qed

lemma initial_clusters_complete:
  "\<forall>k \<in> set cluster_keys. map_of initial_course_clusters k \<noteq> None"
  by (simp add: cluster_keys_def map_of_eq_None_iff)

lemma cluster_course_names_lower:
  "script_lower (Course.name intro_ml_course) =
     [1074, 1074, 1077, 1076, 1077, 1085, 1080, 1077, 32, 1074, 32, 1084, 1072, 1096, 1080, 1085,
      1085, 1086, 1077, 32, 1086, 1073, 1091, 1095, 1077, 1085, 1080, 1077]"
  "script_lower (Course.name catalog_intro_ai) =
     [1074, 1074, 1077, 1076, 1077, 1085, 1080, 1077, 32, 1074, 32, 1080, 1080]"
  by (simp_all add: script_lower_def lower_cp_def intro_ml_course_def intro_ml_course_name_def
      catalog_intro_ai_def catalog_intro_ai_name_def)

lemma intro_ml_keywords:
  "str_in s_vvedenie (script_lower (Course.name intro_ml_course))"
  "str_in s_mashinnoe_obuchenie (script_lower (Course.name intro_ml_course))"
  "\<not> str_in s_iskusstvennyy_intellekt (script_lower (Course.name intro_ml_course))"
  "\<not> str_in s_ai (script_lower (Course.name intro_ml_course))"
  "\<not> str_in s_produkt (script_lower (Course.name intro_ml_course))"
  "\<not> str_in s_menedzhment (script_lower (Course.name intro_ml_course))"
  "\<not> str_in s_analiz (script_lower (Course.name intro_ml_course))"
  "\<not> str_in s_dannye (script_lower (Course.name intro_ml_course))"
  by (simp_all add: cluster_course_names_lower s_vvedenie_def s_mashinnoe_obuchenie_def
      s_iskusstvennyy_intellekt_def s_ai_def s_produkt_def s_menedzhment_def s_analiz_def
      s_dannye_def ascii_def)

lemma catalog_intro_ai_keywords:
  "str_in s_vvedenie (script_lower (Course.name catalog_intro_ai))"
  "\<not> str_in s_iskusstvennyy_intellekt (script_lower (Course.name catalog_intro_ai))"
  "\<not> str_in s_ai (script_lower (Course.name catalog_intro_ai))"
  "\<not> str_in s_produkt (script_lower (Course.name catalog_intro_ai))"
  "\<not> str_in s_menedzhment (script_lower (Course.name catalog_intro_ai))"
  "\<not> str_in s_analiz (script_lower (Course.name catalog_intro_ai))"
  "\<not> str_in s_dannye (script_lower (Course.name catalog_intro_ai))"
  by (simp_all add: cluster_course_names_lower s_vvedenie_def
      s_iskusstvennyy_intellekt_def s_ai_def s_produkt_def s_menedzhment_def s_analiz_def
      s_dannye_def ascii_def)

text \<open>
  C4. The claim fails in the code on the introductory branch, which has no default. The
  course \<open>Vvedenie v II\<close> of the repository's own fallback catalog matches the introductory
  group, and the assignment leaves every cluster as it was: the course is appended to no
  cluster. The same holds for \<open>Vvedenie v mashinnoe obuchenie\<close>, which also matches the
  machine-learning group.
\<close>

theorem introductory_course_dropped:
  "first_matching_group (script_lower (Course.name catalog_intro_ai)) = Some Introductory
   \<and> assign_course_to_cluster script_lower catalog_intro_ai (map_of initial_course_clusters)
       = Inr (map_of initial_course_clusters)
   \<and> first_matching_group (script_lower (Course.name intro_ml_course)) = Some Introductory
   \<and> any_in (group_keywords MachineLearning) (script_lower (Course.name intro_ml_course))
   \<and> assign_course_to_cluster script_lower intro_ml_course (map_of initial_course_clusters)
       = Inr (map_of initial_course_clusters)"
  by (simp add: first_matching_group_def group_order_def assign_course_to_cluster_def Let_def
      intro_ml_keywords catalog_intro_ai_keywords)

text \<open>With the catalog of eight clusters no assignment raises \<^verbatim>\<open>KeyError\<close>.\<close>

lemma assign_keeps_keys:
  assumes "\<forall>k \<in> set cluster_keys. cs k \<noteq> None"
  shows "\<exists>cs'. assign_course_to_cluster lower crs cs = Inr cs'
           \<and> (\<forall>k \<in> set cluster_keys. cs' k \<noteq> None)"
proof (cases "first_match_cluster lower crs")
  case None
  with assms show ?thesis by (simp add: assign_first_match)
next
  case (Some k)
  from first_match_cluster_key [OF Some] assms obtain cluster where "cs k = Some cluster"
    by auto
  with Some assms show ?thesis by (simp add: assign_first_match append_course_def)
qed

lemma assign_courses_total:
  "\<forall>k \<in> set cluster_keys. cs k \<noteq> None \<Longrightarrow> \<exists>cs'. assign_courses lower cs_list cs = Inr cs'"
proof (induction cs_list arbitrary: cs)
  case Nil
  show ?case by simp
next
  case (Cons crs rest)
  from assign_keeps_keys [OF Cons.prems, of lower crs] obtain cs1 where
    "assign_course_to_cluster lower crs cs = Inr cs1" "\<forall>k \<in> set cluster_keys. cs1 k \<noteq> None"
    by blast
  with Cons.IH [of cs1] show ?case by simp
qed

lemma build_course_clusters_total: "\<exists>cs. build_course_clusters lower programs = Inr cs"
  unfolding build_course_clusters_def
  by (rule assign_courses_total [OF initial_clusters_complete])

section \<open>Scenario 1: a Python and math background and the machine-learning course\<close>

text \<open>
  The scenario is computed for every case mapping that lower-cases the two strings of the
  scenario as \<^verbatim>\<open>str.lower()\<close> does: the text to \<open>scenario_background_lowered\<close> and the
  name of the course to \<open>mashinnoe obuchenie\<close>.
\<close>

lemma scenario_profile:
  assumes "lower scenario_background = scenario_background_lowered"
  shows "analyze_background lower scenario_background =
     \<lparr>programming_skills = [s_python], math_skills = [s_matematika], business_skills = [],
      research_interests = [], work_experience = s_est_opyt,
      education_level = s_bakalavriat, career_goals = [], learning_preferences = [],
      time_availability = s_standartnaya\<rparr>"
  by (simp add: analyze_background_def Let_def assms scenario_background_lowered_def
      matching_tags_def keyword_tables str_defs ascii_def)

lemma scenario_skill_map:
  "map_of skill_mapping s_python =
     Some \<lparr>SkillInfo.courses = [s_programmirovanie, s_python, s_kod, s_razrabotka],
           weight = 2, career_paths = [s_ML_Engineer, s_Data_Scientist, s_AI_Developer]\<rparr>"
  "map_of skill_mapping s_matematika = None"
  by (simp_all add: skill_mapping_def)
     (simp_all add: str_defs ascii_def)

lemma scenario_keywords:
  "\<not> any_in [s_programmirovanie, s_python, s_kod, s_razrabotka] s_mashinnoe_obuchenie"
  "any_in programming_course_keywords s_mashinnoe_obuchenie"
  "any_in math_course_keywords s_mashinnoe_obuchenie"
  "\<not> any_in [s_praktika, s_proekt, s_realnyy] s_mashinnoe_obuchenie"
  "\<not> any_in [s_vvedenie, s_osnovy, s_bazovye] s_mashinnoe_obuchenie"
  "\<not> any_in [s_prodvinutyy, s_uglublennyy, s_spetsialnye] s_mashinnoe_obuchenie"
  "\<not> any_in [s_programmirovanie, s_kod, s_razrabotka] s_mashinnoe_obuchenie"
  "\<not> any_in [s_matematika, s_algebra, s_statistika] s_mashinnoe_obuchenie"
  by (simp_all add: programming_course_keywords_def math_course_keywords_def str_defs ascii_def)

lemma education_levels_distinct:
  "s_bakalavriat \<noteq> s_magistratura" "s_bakalavriat \<noteq> s_aspirantura"
  by (simp_all add: s_bakalavriat_def s_magistratura_def s_aspirantura_def)

lemma scenario_difficulty:
  assumes "lower scenario_background = scenario_background_lowered"
    and "lower (Course.name scenario_course) = s_mashinnoe_obuchenie"
  shows "assess_course_difficulty lower scenario_course
           (analyze_background lower scenario_background) = 2"
  by (simp add: assess_course_difficulty_def Let_def assms(2) scenario_profile [of lower, OF assms(1)]
      scenario_keywords del: any_in_Cons)

lemma scenario_accumulate:
  assumes "lower scenario_background = scenario_background_lowered"
    and "lower (Course.name scenario_course) = s_mashinnoe_obuchenie"
  shows "accumulate_score lower scenario_course (analyze_background lower scenario_background) =
     \<lparr>acc_score = 6, acc_compatibility_score = 4,
      acc_reasons = [reason_skill_prefix @ s_python, reason_skill_prefix @ s_matematika]\<rparr>"
  unfolding accumulate_score_def Let_def assms(2) scenario_difficulty [of lower, OF assms]
  by (simp add: scenario_profile [of lower, OF assms(1)] scenario_skill_map scenario_keywords
       add_skill_match_def education_levels_distinct del: any_in_Cons)

lemma scenario_recommendation:
  assumes "lower scenario_background = scenario_background_lowered"
    and "lower (Course.name scenario_course) = s_mashinnoe_obuchenie"
  shows "score (evaluate_course_intelligently lower scenario_course
            (analyze_background lower scenario_background) program) = 6"
    and "compatibility_score (evaluate_course_intelligently lower scenario_course
            (analyze_background lower scenario_background) program) = 4"
    and "priority (evaluate_course_intelligently lower scenario_course
            (analyze_background lower scenario_background) program) = s_medium"
  by (simp_all add: evaluate_course_intelligently_def Let_def scenario_accumulate [of lower, OF assms]
      apply_floor_def priority_tier_def HIGH_SCORE_THRESHOLD_def MEDIUM_SCORE_THRESHOLD_def)

lemma scenario_script_lower:
  "script_lower scenario_background = scenario_background_lowered"
  "script_lower (Course.name scenario_course) = s_mashinnoe_obuchenie"
  by (simp_all add: script_lower_def lower_cp_def scenario_background_def
      scenario_background_lowered_def scenario_course_def scenario_course_name_def
      s_mashinnoe_obuchenie_def)

text \<open>
  C2, as the code has it. The text of scenario 1 yields the programming tag \<open>python\<close> and
  the math tag \<open>matematika\<close>. For the course \<open>Mashinnoe obuchenie\<close> no keyword of the skill
  map's \<open>python\<close> entry matches and \<open>matematika\<close> is no key of the skill map, so no skill
  weight is added; the programming and the math list of course keywords each add 2.0, and the
  difficulty adds its base 2.0 with no reduction. The score is 6.0, the compatibility score
  4.0 and the priority is medium.
\<close>

theorem scenario_one_scores_medium:
  assumes "lower scenario_background = scenario_background_lowered"
    and "lower (Course.name scenario_course) = s_mashinnoe_obuchenie"
  shows "programming_skills (analyze_background lower scenario_background) = [s_python]
   \<and> math_skills (analyze_background lower scenario_background) = [s_matematika]
   \<and> \<not> any_in (SkillInfo.courses (the (map_of skill_mapping s_python)))
         (lower (Course.name scenario_course))
   \<and> map_of skill_mapping s_matematika = None
   \<and> any_in programming_course_keywords (lower (Course.name scenario_course))
   \<and> any_in math_course_keywords (lower (Course.name scenario_course))
   \<and> assess_course_difficulty lower scenario_course
         (analyze_background lower scenario_background) = 2
   \<and> acc_score (accumulate_score lower scenario_course
         (analyze_background lower scenario_background)) = 6
   \<and> score (evaluate_course_intelligently lower scenario_course
               (analyze_background lower scenario_background) program) = 6
   \<and> compatibility_score (evaluate_course_intelligently lower scenario_course
               (analyze_background lower scenario_background) program) = 4
   \<and> priority (evaluate_course_intelligently lower scenario_course
               (analyze_background lower scenario_background) program) = s_medium"
proof -
  have "programming_skills (analyze_background lower scenario_background) = [s_python]"
    and "math_skills (analyze_background lower scenario_background) = [s_matematika]"
    by (simp_all add: scenario_profile [of lower, OF assms(1)])
  moreover have "\<not> any_in (SkillInfo.courses (the (map_of skill_mapping s_python)))
         (lower (Course.name scenario_course))"
    and "any_in programming_course_keywords (lower (Course.name scenario_course))"
    and "any_in math_course_keywords (lower (Course.name scenario_course))"
    by (simp_all add: assms(2) scenario_skill_map scenario_keywords del: any_in_Cons)
  moreover have "acc_score (accumulate_score lower scenario_course
         (analyze_background lower scenario_background)) = 6"
    by (simp add: scenario_accumulate [of lower, OF assms])
  ultimately show ?thesis
    using scenario_skill_map(2) scenario_difficulty [of lower, OF assms]
      scenario_recommendation [of lower program, OF assms]
    by blast
qed

text \<open>Scenario 1 with the lower-casing of the two scripts and the AI program of the test.\<close>

theorem scenario_one_scores_medium_witness:
  "programming_skills (analyze_background script_lower scenario_background) = [s_python]
   \<and> math_skills (analyze_background script_lower scenario_background) = [s_matematika]
   \<and> assess_course_difficulty script_lower scenario_course
         (analyze_background script_lower scenario_background) = 2
   \<and> acc_score (accumulate_score script_lower scenario_course
         (analyze_background script_lower scenario_background)) = 6
   \<and> score (evaluate_course_intelligently script_lower scenario_course
               (analyze_background script_lower scenario_background) program_ai) = 6
   \<and> compatibility_score (evaluate_course_intelligently script_lower scenario_course
               (analyze_background script_lower scenario_background) program_ai) = 4
   \<and> priority (evaluate_course_intelligently script_lower scenario_course
               (analyze_background script_lower scenario_background) program_ai) = s_medium"
  using scenario_one_scores_medium [of script_lower program_ai] scenario_script_lower
  by blast

text \<open>C2 as stated fails: the priority of scenario 1 is not high.\<close>

theorem scenario_one_not_high:
  "s_python \<in> set (programming_skills (analyze_background script_lower scenario_background))
   \<and> s_matematika \<in> set (math_skills (analyze_background script_lower scenario_background))
   \<and> priority (evaluate_course_intelligently script_lower scenario_course
               (analyze_background script_lower scenario_background) program_ai) \<noteq> s_high"
  using tier_names_distinct
  by (simp add: scenario_recommendation [of script_lower program_ai, OF scenario_script_lower])
     (simp add: scenario_profile [of script_lower, OF scenario_script_lower(1)])

section \<open>A course that matches no keyword\<close>

lemma skill_loop_no_match:
  assumes "\<not> list_ex (\<lambda>(skill_name, skill_info). any_in (SkillInfo.courses skill_info) cl) skill_mapping"
    and "\<not> any_in generic cl"
  shows "skill_loop generic cl skills st = st"
proof (induction skills)
  case Nil
  show ?case by simp
next
  case (Cons skill skills)
  show ?case
  proof (cases "map_of skill_mapping skill")
    case None
    with Cons assms(2) show ?thesis by simp
  next
    case (Some skill_info)
    then have "(skill, skill_info) \<in> set skill_mapping" by (rule map_of_SomeD)
    with assms(1) have "\<not> any_in (SkillInfo.courses skill_info) cl"
      by (auto simp: list_ex_iff)
    with Some Cons assms(2) show ?thesis by simp
  qed
qed

lemma career_loop_no_match:
  assumes "\<not> list_ex (\<lambda>(skill_name, skill_info). any_in (SkillInfo.courses skill_info) cl) skill_mapping"
  shows "career_loop lower cl goals st = st"
proof (induction goals)
  case Nil
  show ?case by simp
next
  case (Cons goal goals)
  from assms have "\<not> list_ex (\<lambda>(skill_name, skill_info).
               lower goal \<in> set (career_paths skill_info)
               \<and> any_in (SkillInfo.courses skill_info) cl) skill_mapping"
    by (auto simp: list_ex_iff)
  with Cons show ?case by simp
qed

lemma goal_advice_no_match:
  assumes "\<not> str_in s_mashinnoe_obuchenie cl" "\<not> str_in s_neyronnye_seti cl"
    "\<not> str_in s_algoritm cl" "\<not> str_in s_statistika cl" "\<not> str_in s_analiz cl"
    "\<not> str_in s_produkt cl" "\<not> str_in s_menedzhment cl" "\<not> str_in s_biznes cl"
  shows "goal_advice lower cl goals = None"
  using assms by (induction goals) simp_all

lemma unmatched_keywords:
  assumes "matches_no_keyword lower crs"
  shows "\<not> any_in programming_course_keywords (lower (Course.name crs))"
    "\<not> any_in math_course_keywords (lower (Course.name crs))"
    "\<not> any_in business_course_keywords (lower (Course.name crs))"
    "\<not> list_ex (\<lambda>(skill_name, skill_info).
          any_in (SkillInfo.courses skill_info) (lower (Course.name crs))) skill_mapping"
    "\<not> str_in s_programmirovanie (lower (Course.name crs))"
    "\<not> str_in s_kod (lower (Course.name crs))"
    "\<not> str_in s_razrabotka (lower (Course.name crs))"
    "\<not> str_in s_algoritm (lower (Course.name crs))"
    "\<not> str_in s_mashinnoe_obuchenie (lower (Course.name crs))"
    "\<not> str_in s_neyronnye_seti (lower (Course.name crs))"
    "\<not> str_in s_obrabotka (lower (Course.name crs))"
    "\<not> str_in s_zrenie (lower (Course.name crs))"
    "\<not> str_in s_analiz (lower (Course.name crs))"
    "\<not> str_in s_matematika (lower (Course.name crs))"
    "\<not> str_in s_statistika (lower (Course.name crs))"
    "\<not> str_in s_algebra (lower (Course.name crs))"
    "\<not> str_in s_menedzhment (lower (Course.name crs))"
    "\<not> str_in s_biznes (lower (Course.name crs))"
    "\<not> str_in s_produkt (lower (Course.name crs))"
    "\<not> str_in s_proekt (lower (Course.name crs))"
    "\<not> str_in s_upravlenie (lower (Course.name crs))"
    "\<not> str_in s_issledovanie (lower (Course.name crs))"
    "\<not> str_in s_nauka (lower (Course.name crs))"
    "\<not> str_in s_praktika (lower (Course.name crs))"
    "\<not> str_in s_realnyy (lower (Course.name crs))"
    "\<not> str_in s_prodvinutyy (lower (Course.name crs))"
    "\<not> str_in s_uglublennyy (lower (Course.name crs))"
    "\<not> str_in s_spetsialnye (lower (Course.name crs))"
    "\<not> str_in s_vvedenie (lower (Course.name crs))"
    "\<not> str_in s_osnovy (lower (Course.name crs))"
    "\<not> str_in s_bazovye (lower (Course.name crs))"
  using assms
  by (simp_all add: matches_no_keyword_def Let_def programming_course_keywords_def
      math_course_keywords_def business_course_keywords_def)

lemma unmatched_accumulate:
  assumes "matches_no_keyword lower crs"
  shows "accumulate_score lower crs profile =
           \<lparr>acc_score = 2, acc_compatibility_score = 0, acc_reasons = []\<rparr>"
proof -
  note kw = unmatched_keywords [OF assms]
  have "assess_course_difficulty lower crs profile = 2"
    by (simp add: assess_course_difficulty_def Let_def kw(5-31))
  then show ?thesis
    by (simp add: accumulate_score_def Let_def skill_loop_no_match [OF kw(4)]
        career_loop_no_match [OF kw(4)] kw)
qed

lemma unmatched_reason:
  assumes "matches_no_keyword lower crs"
  shows "generate_concrete_recommendation_reason lower crs profile 2 =
           (if s_matematika \<in> set (math_skills profile)
               \<and> str_in s_optimizatsiya (lower (Course.name crs))
            then advice_math_opt
            else if work_experience profile = s_est_opyt then advice_broaden_experience
            else advice_broaden)"
proof -
  note kw = unmatched_keywords [OF assms]
  have "goal_advice lower (lower (Course.name crs)) (career_goals profile) = None"
    by (rule goal_advice_no_match) (simp_all add: kw(5-31))
  then show ?thesis
    by (auto simp: generate_concrete_recommendation_reason_def Let_def kw(5-31)
        MEDIUM_SCORE_THRESHOLD_def LOW_SCORE_THRESHOLD_def)
qed

lemma generic_advice_not_baseline:
  "advice_math_opt \<noteq> reason_baseline" "advice_broaden_experience \<noteq> reason_baseline"
  "advice_broaden \<noteq> reason_baseline"
  by (simp_all add: advice_math_opt_def advice_broaden_experience_def advice_broaden_def
      reason_baseline_def)

lemma unmatched_score:
  assumes "matches_no_keyword lower crs"
  shows "score (evaluate_course_intelligently lower crs profile program) = 2"
  by (simp add: evaluate_course_intelligently_def Let_def unmatched_accumulate [OF assms]
      apply_floor_def)

lemma unmatched_returned_reason:
  assumes "matches_no_keyword lower crs"
  shows "reason (evaluate_course_intelligently lower crs profile program) =
           (if s_matematika \<in> set (math_skills profile)
               \<and> str_in s_optimizatsiya (lower (Course.name crs))
            then advice_math_opt
            else if work_experience profile = s_est_opyt then advice_broaden_experience
            else advice_broaden)"
  by (simp add: evaluate_course_intelligently_def Let_def unmatched_accumulate [OF assms]
      unmatched_reason [OF assms] apply_floor_def)

lemma unmatched_reason_not_baseline:
  assumes "matches_no_keyword lower crs"
  shows "reason (evaluate_course_intelligently lower crs profile program) \<noteq> reason_baseline"
  unfolding unmatched_returned_reason [OF assms] using generic_advice_not_baseline by simp

text \<open>
  C1, as the code has it. For every profile and every case mapping, a course whose lower-cased
  name matches no keyword (none of the skill map, none of the three lists of course keywords,
  no research, practice or advanced term, no difficulty keyword) gets the score 2.0: nothing
  is added but the difficulty term, whose base is 2.0 for a course that is neither
  introductory nor advanced. Its compatibility score is 0 and its priority is low. The zero
  check is not taken, so no reason is recorded and the reason returned is never the
  \<open>baseline course\<close> sentence. It is the optimisation sentence when the profile has the math tag
  \<open>matematika\<close> and the name has \<open>optimizatsiya\<close> (a word of no keyword table of the scorer);
  otherwise it is the generic sentence for a score of at least 2.0, in its variant for a
  profile with work experience or in its variant for one without.
\<close>

theorem unmatched_course_scores_two:
  assumes "matches_no_keyword lower crs"
  shows "score (evaluate_course_intelligently lower crs profile program) = 2
   \<and> compatibility_score (evaluate_course_intelligently lower crs profile program) = 0
   \<and> priority (evaluate_course_intelligently lower crs profile program) = s_low
   \<and> acc_reasons (apply_floor (accumulate_score lower crs profile)) = []
   \<and> reason (evaluate_course_intelligently lower crs profile program) =
        (if s_matematika \<in> set (math_skills profile)
            \<and> str_in s_optimizatsiya (lower (Course.name crs))
         then advice_math_opt
         else if work_experience profile = s_est_opyt then advice_broaden_experience
         else advice_broaden)
   \<and> reason (evaluate_course_intelligently lower crs profile program) \<noteq> reason_baseline"
proof -
  have "compatibility_score (evaluate_course_intelligently lower crs profile program) = 0"
    and "priority (evaluate_course_intelligently lower crs profile program) = s_low"
    and "acc_reasons (apply_floor (accumulate_score lower crs profile)) = []"
    by (simp_all add: evaluate_course_intelligently_def Let_def unmatched_accumulate [OF assms]
        apply_floor_def priority_tier_def HIGH_SCORE_THRESHOLD_def MEDIUM_SCORE_THRESHOLD_def)
  with unmatched_score [OF assms] unmatched_returned_reason [OF assms]
    unmatched_reason_not_baseline [OF assms]
  show ?thesis by blast
qed

lemma unmatched_names_lower:
  "script_lower (Course.name test_ethics) = [1101, 1090, 1080, 1082, 1072, 32, 1080, 1080]"
  "script_lower (Course.name optimisation_course) =
     [1086, 1087, 1090, 1080, 1084, 1080, 1079, 1072, 1094, 1080, 1103]"
  by (simp_all add: script_lower_def lower_cp_def test_ethics_def test_ethics_name_def
      optimisation_course_def optimisation_course_name_def)

lemma test_courses_unmatched:
  "matches_no_keyword script_lower test_ethics"
  "matches_no_keyword script_lower optimisation_course"
  by (simp_all add: matches_no_keyword_def Let_def unmatched_names_lower skill_mapping_def
      programming_course_keywords_def math_course_keywords_def business_course_keywords_def
      str_defs ascii_def)

lemma test_courses_optimisation:
  "\<not> str_in s_optimizatsiya (script_lower (Course.name test_ethics))"
  "str_in s_optimizatsiya (script_lower (Course.name optimisation_course))"
  by (simp_all add: unmatched_names_lower s_optimizatsiya_def)

text \<open>
  C1 as stated fails: the course \<open>Etika II\<close> of the source's test catalog matches no keyword,
  and for the profile of the empty text its score is 2.0, not 1.0.
\<close>

theorem unmatched_course_not_one:
  "matches_no_keyword script_lower test_ethics
   \<and> score (evaluate_course_intelligently script_lower test_ethics
              (analyze_background script_lower []) program_ai) = 2
   \<and> score (evaluate_course_intelligently script_lower test_ethics
              (analyze_background script_lower []) program_ai) \<noteq> 1
   \<and> reason (evaluate_course_intelligently script_lower test_ethics
              (analyze_background script_lower []) program_ai) \<noteq> reason_baseline"
  using test_courses_unmatched(1) unmatched_score [OF test_courses_unmatched(1)]
    unmatched_reason_not_baseline [OF test_courses_unmatched(1)]
  by simp

text \<open>
  The same course, and the course \<open>Optimizatsiya\<close>, for a profile with the programming skill
  \<open>python\<close>, the math skill \<open>matematika\<close> and work experience: both score 2.0; the first gets
  the generic sentence, the second the optimisation sentence.
\<close>

theorem unmatched_course_scores_two_witness:
  "matches_no_keyword script_lower test_ethics
   \<and> score (evaluate_course_intelligently script_lower test_ethics
              experienced_profile program_ai) = 2
   \<and> compatibility_score (evaluate_course_intelligently script_lower test_ethics
              experienced_profile program_ai) = 0
   \<and> priority (evaluate_course_intelligently script_lower test_ethics
              experienced_profile program_ai) = s_low
   \<and> reason (evaluate_course_intelligently script_lower test_ethics
              experienced_profile program_ai) = advice_broaden_experience
   \<and> matches_no_keyword script_lower optimisation_course
   \<and> score (evaluate_course_intelligently script_lower optimisation_course
              experienced_profile program_ai) = 2
   \<and> reason (evaluate_course_intelligently script_lower optimisation_course
              experienced_profile program_ai) = advice_math_opt"
proof -
  have profile: "work_experience experienced_profile = s_est_opyt"
    "s_matematika \<in> set (math_skills experienced_profile)"
    by (simp_all add: experienced_profile_def)
  from unmatched_course_scores_two [OF test_courses_unmatched(1),
      of experienced_profile program_ai]
    unmatched_course_scores_two [OF test_courses_unmatched(2),
      of experienced_profile program_ai]
    test_courses_unmatched test_courses_optimisation profile
  show ?thesis by simp
qed

end
